theory Spec2Isabelle
  imports Complex_Main "HOL-Library.Word"
begin

unbundle bit_operations_syntax

section \<open>Machine types and formatted output\<close>

type_synonym u32 = "32 word"
type_synonym size_t = "64 word"

text \<open>
  The digits printed for a \<^verbatim>\<open>%d\<close> conversion: the decimal numeral of a C \<^verbatim>\<open>int\<close>,
  with a leading minus sign for negative values.
\<close>

definition dec_digits :: string where
  "dec_digits = ''0123456789''"

fun dec_nat :: "nat \<Rightarrow> string" where
  "dec_nat n =
     (if n < 10 then [dec_digits ! n]
      else dec_nat (n div 10) @ [dec_digits ! (n mod 10)])"

declare dec_nat.simps [simp del]

definition dec_int :: "int \<Rightarrow> string" where
  "dec_int i = (if i < 0 then CHR ''-'' # dec_nat (nat (- i)) else dec_nat (nat i))"

text \<open>
  The arguments of a \<^verbatim>\<open>printf\<close>-style call: a 32-bit \<^verbatim>\<open>int\<close> (an unsigned value passed
  to \<^verbatim>\<open>%d\<close> is printed as the signed reading of its bits) or a C string.
\<close>

datatype fmt_arg = ArgInt u32 | ArgStr string

text \<open>
  \<^verbatim>\<open>vsnprintf\<close> for the conversions the sources use: \<^verbatim>\<open>%d\<close> and \<^verbatim>\<open>%i\<close> print the next
  argument as a decimal \<^verbatim>\<open>int\<close>, \<^verbatim>\<open>%s\<close> copies the next string argument, \<^verbatim>\<open>%%\<close> prints a
  percent sign. A \<^verbatim>\<open>%d\<close> for which the caller passed no \<^verbatim>\<open>int\<close> reads whatever the
  variable-argument area holds (undefined behaviour in C): the model prints that
  indeterminate value, the parameter \<open>stray\<close>. A \<^verbatim>\<open>%s\<close> without a string argument
  prints nothing in the model.
\<close>

fun vformat :: "u32 \<Rightarrow> string \<Rightarrow> fmt_arg list \<Rightarrow> string" where
  "vformat stray [] args = []"
| "vformat stray [c] args = [c]"
| "vformat stray (c # d # cs) args =
     (if c = CHR ''%'' then
        (if d = CHR ''d'' \<or> d = CHR ''i'' then
           (case args of
              ArgInt n # rest \<Rightarrow> dec_int (sint n) @ vformat stray cs rest
            | _ \<Rightarrow> dec_int (sint stray) @ vformat stray cs (tl args))
         else if d = CHR ''s'' then
           (case args of
              ArgStr s # rest \<Rightarrow> s @ vformat stray cs rest
            | _ \<Rightarrow> vformat stray cs (tl args))
         else if d = CHR ''%'' then CHR ''%'' # vformat stray cs args
         else c # vformat stray (d # cs) args)
      else c # vformat stray (d # cs) args)"

definition StringFromFormat :: "u32 \<Rightarrow> string \<Rightarrow> fmt_arg list \<Rightarrow> string" where
  "StringFromFormat stray format args = vformat stray format args"

text \<open>\<^verbatim>\<open>std::string::c_str()\<close> read as a C string: the characters before the first NUL.\<close>

definition c_str :: "string \<Rightarrow> string" where
  "c_str s = takeWhile (\<lambda>c. c \<noteq> CHR 0x00) s"

section \<open>Post-processing configuration (VideoCommon/PostProcessing.h)\<close>

text \<open>
  The configuration class is declared outside the two source files. Its data is taken
  as the sources use it: the option map as the list of its entries in iteration order,
  the stage list, the dirty flag and the name of the loaded shader, each named after
  the accessor the engine calls. The type \<open>'f\<close> stands for \<^verbatim>\<open>float\<close>; the sources'
  floating-point operations are parameters of the model (see \<open>fpu\<close> below).
\<close>

datatype OptionType = OPTION_BOOL | OPTION_INTEGER | OPTION_FLOAT

record 'f ConfigurationOption =
  m_type :: OptionType
  m_bool_value :: bool
  m_integer_values :: "u32 list"
  m_float_values :: "'f list"
  m_dirty :: bool

record 'f StageOption =
  m_stage_entry_point :: string
  m_inputs :: "u32 list"
  m_use_source_resolution :: bool
  m_outputScale :: 'f

record 'f PostProcessingShaderConfiguration =
  GetStages :: "'f StageOption list"
  GetOptions :: "(string \<times> 'f ConfigurationOption) list"
  IsDirty :: bool
  GetShader :: string

text \<open>
  Modelled from the spec: \<^verbatim>\<open>HasOptions\<close> is the configuration's "has options" predicate;
  its body is not in the sources.
\<close>

definition HasOptions :: "'f PostProcessingShaderConfiguration \<Rightarrow> bool" where
  "HasOptions cfg = (GetOptions cfg \<noteq> [])"

section \<open>The DX11 post-processing engine (VideoBackends/DX11/PostProcessing.cpp)\<close>

text \<open>
  Floating-point arithmetic is not interpreted: the operations the sources apply to
  \<^verbatim>\<open>float\<close> values are the fields of \<open>fpu\<close>, so every theorem holds for any
  implementation of them, IEEE single precision included. \<open>itof\<close> is the conversion
  of an integer value (a cast or a literal such as \<^verbatim>\<open>1.0f\<close>), \<open>ftou\<close> the truncating
  cast to \<^verbatim>\<open>u32\<close>, \<open>fne\<close> the comparison \<^verbatim>\<open>!=\<close>.
\<close>

record 'f fpu =
  itof :: "int \<Rightarrow> 'f"
  fmul :: "'f \<Rightarrow> 'f \<Rightarrow> 'f"
  fdiv :: "'f \<Rightarrow> 'f \<Rightarrow> 'f"
  fsub :: "'f \<Rightarrow> 'f \<Rightarrow> 'f"
  ftou :: "'f \<Rightarrow> u32"
  fne :: "'f \<Rightarrow> 'f \<Rightarrow> bool"

record TargetRectangle =
  left_rect :: u32
  top_rect :: u32
  right_rect :: u32
  bottom_rect :: u32

record 'f paramsStruct =
  Time :: u32
  Layer :: u32
  native_gamma :: 'f
  resolution :: "'f list"
  targetscale :: "'f list"

record 'f STVertex =
  vx :: 'f
  vy :: 'f
  vz :: 'f
  vu0 :: 'f
  vv0 :: 'f

record D3DTexture2D =
  tex_width :: u32
  tex_height :: u32

text \<open>A 32-bit cell stored into a mapped constant buffer.\<close>

datatype 'f cell = IntCell u32 | FloatCell 'f

text \<open>One \<^verbatim>\<open>Draw(4, offset)\<close> of the stage loop, with the state it was issued under.\<close>

record 'f draw_call =
  draw_stage :: nat
  draw_shader :: "nat option"
  draw_to_backbuffer :: bool
  draw_viewport :: "'f list"
  draw_inputs :: "nat list"
  draw_vertex_offset :: nat

text \<open>
  The failures of the engine's code: an index past the end of a vector or an array, a
  \<^verbatim>\<open>resize\<close> beyond what a vector can hold, a null resource handed to the device.
\<close>

datatype error = Out_Of_Range | Length_Error | Null_Pointer

text \<open>
  What lies outside the two source files and is called by them: the configuration's
  \<^verbatim>\<open>LoadShader\<close> (it reads the active preset name and may replace the stage list and
  the options), the device's shader compiler (no entry point means the default
  argument), the rectangle's \<^verbatim>\<open>GetWidth\<close> and \<^verbatim>\<open>GetHeight\<close>, the timer, the
  offset returned by the vertex buffer's \<^verbatim>\<open>AppendData\<close> (given what was appended
  before), the floating-point unit and the indeterminate value of the variable-argument area.
\<close>

record 'f environment =
  LoadShader :: "string \<Rightarrow> 'f PostProcessingShaderConfiguration
                   \<Rightarrow> string \<times> 'f PostProcessingShaderConfiguration"
  CompileAndCreatePixelShader :: "string \<Rightarrow> string option \<Rightarrow> nat option"
  GetWidth :: "TargetRectangle \<Rightarrow> u32"
  GetHeight :: "TargetRectangle \<Rightarrow> u32"
  GetTimeElapsed :: u32
  AppendData :: "'f STVertex list list \<Rightarrow> nat"
  FPU :: "'f fpu"
  stray_vararg :: u32

text \<open>
  The members of \<^verbatim>\<open>DX11PostProcessing\<close>, the two global preset names and the
  anti-aliasing sample count (\<^verbatim>\<open>D3D::GetAAMode(...).Count\<close>), and what the device has
  received: the contents of the two constant buffers, the appended vertex data, the
  number of textures created and the draw calls. A null pointer is \<open>None\<close>; a compiled
  program and a constant buffer are named by a number and by their size.
\<close>

record 'f DX11PostProcessing =
  m_initialized :: bool
  m_pshader :: "nat option list"
  m_stageOutput :: "D3DTexture2D list"
  m_prev_dst_width :: u32
  m_prev_dst_height :: u32
  m_prev_src_width :: u32
  m_prev_src_height :: u32
  m_prev_samples :: u32
  m_options :: "u32 option"
  m_config :: "'f PostProcessingShaderConfiguration"
  m_vertex_buffer_observer :: bool
  m_vertex_buffer_offset :: nat
  pu0 :: 'f
  pu1 :: 'f
  pv0 :: 'f
  pv1 :: 'f
  g_Config_sPostProcessingShader :: string
  g_ActiveConfig_sPostProcessingShader :: string
  AAMode_Count :: u32
  params_buffer :: "'f paramsStruct option"
  options_buffer :: "(string \<times> nat \<times> 'f cell list) list"
  m_vertexbuffer :: "'f STVertex list list"
  textures_created :: nat
  draws :: "'f draw_call list"

text \<open>The shader text constants of the file, character for character.\<close>

definition s_hlsl_entry :: string where
  "s_hlsl_entry =
     ''(\<newline>'' @
     ''out float4 ocol0 : SV_Target,\<newline>'' @
     ''in float4 frag_pos : SV_Position,\<newline>'' @
     ''in float2 _uv0 : TEXCOORD0,\<newline>'' @
     ''in float4 _uv1 : TEXCOORD1,\<newline>'' @
     ''in float4 _uv2 : TEXCOORD2)\<newline>'' @
     ''{\<newline>'' @
     ''fragment_pos = frag_pos;\<newline>'' @
     ''uv0 = _uv0;\<newline>'' @
     ''uv1 = _uv1;\<newline>'' @
     ''uv2 = _uv2;\<newline>''"

definition s_hlsl_header :: string where
  "s_hlsl_header =
     ''\<newline>'' @
     ''// Required variables\<newline>'' @
     ''// Shouldn't be accessed directly by the PP shader\<newline>'' @
     ''// Texture sampler\<newline>'' @
     ''sampler samp8 : register(s8);\<newline>'' @
     ''sampler samp9 : register(s9);\<newline>'' @
     ''sampler samp10 : register(s10);\<newline>'' @
     ''Texture2D Tex8 : register(t8);\<newline>'' @
     ''Texture2DArray Tex9 : register(t9);\<newline>'' @
     ''Texture2DArray Tex10 : register(t10);\<newline>'' @
     ''Texture2DArray Tex11[4] : register(t11);\<newline>'' @
     ''\<newline>'' @
     ''cbuffer ParamBuffer : register(b0) \<newline>'' @
     ''{\<newline>'' @
     CHR 0x09 # ''uint Time;\<newline>'' @
     CHR 0x09 # ''int layer;\<newline>'' @
     CHR 0x09 # ''float native_gamma;\<newline>'' @
     CHR 0x09 # ''float padding;\<newline>'' @
     CHR 0x09 # ''float4 resolution;\<newline>'' @
     CHR 0x09 # ''float4 targetscale;\<newline>'' @
     ''}\<newline>'' @
     ''\<newline>'' @
     ''// Globals\<newline>'' @
     ''static float2 uv0;\<newline>'' @
     ''static float4 uv1, uv2, fragment_pos;\<newline>'' @
     ''// Interfacing functions\<newline>'' @
     ''float2 GetFragmentCoord()\<newline>'' @
     ''{\<newline>'' @
     CHR 0x09 # ''return fragment_pos.xy;\<newline>'' @
     ''}\<newline>'' @
     ''float4 Sample(float2 location, int l)\<newline>'' @
     ''{\<newline>'' @
     CHR 0x09 # ''return Tex9.Sample(samp9, float3(location, l));\<newline>'' @
     ''}\<newline>'' @
     ''float4 SampleLocationOffset(float2 location, int2 offset)\<newline>'' @
     ''{\<newline>'' @
     CHR 0x09 # ''return Tex9.Sample(samp9, float3(location, layer), offset);\<newline>'' @
     ''}\<newline>'' @
     ''float4 SamplePrev(int idx, float2 location)\<newline>'' @
     ''{\<newline>'' @
     CHR 0x09 # ''return Tex11[idx].Sample(samp9, float3((location - targetscale.xy) * targetscale.zw, 0));\<newline>'' @
     ''}\<newline>'' @
     ''float4 SamplePrevLocationOffset(int idx, float2 location, int2 offset)\<newline>'' @
     ''{\<newline>'' @
     CHR 0x09 # ''return Tex11[idx].Sample(samp9, float3((location - targetscale.xy) * targetscale.zw , 0), offset);\<newline>'' @
     ''}\<newline>'' @
     ''float SampleDepth(float2 location, int l)\<newline>'' @
     ''{\<newline>'' @
     CHR 0x09 # ''/*float Znear = 0.001;\<newline>'' @
     CHR 0x09 # ''float Zfar = 1.0;\<newline>'' @
     CHR 0x09 # ''float A  = (1 - ( Zfar / Znear ))/2;\<newline>'' @
     CHR 0x09 # ''float B = (1 + ( Zfar / Znear ))/2;*/\<newline>'' @
     CHR 0x09 # ''float A = -499.5;\<newline>'' @
     CHR 0x09 # ''float B =  500.5;\<newline>'' @
     CHR 0x09 # ''float depth = 1.0 - Tex10.Sample(samp10, float3(location, l)).x;\<newline>'' @
     CHR 0x09 # ''depth = 1.0 / (A * depth + B);\<newline>'' @
     CHR 0x09 # ''return depth;\<newline>'' @
     ''}\<newline>'' @
     ''float SampleDepthLoacationOffset(float2 location, int2 offset)\<newline>'' @
     ''{\<newline>'' @
     CHR 0x09 # ''float A = -499.5;\<newline>'' @
     CHR 0x09 # ''float B =  500.5;\<newline>'' @
     CHR 0x09 # ''float depth = 1.0 - Tex10.Sample(samp10, float3(location, layer), offset).x;\<newline>'' @
     CHR 0x09 # ''depth = 1.0 / (A * depth + B);\<newline>'' @
     CHR 0x09 # ''return depth;\<newline>'' @
     ''}\<newline>''"

definition s_hlsl_header_MSAA :: string where
  "s_hlsl_header_MSAA =
     ''\<newline>'' @
     ''// Required variables\<newline>'' @
     ''// Shouldn't be accessed directly by the PP shader\<newline>'' @
     ''// Texture sampler\<newline>'' @
     ''sampler samp8 : register(s8);\<newline>'' @
     ''sampler samp9 : register(s9);\<newline>'' @
     ''sampler samp10 : register(s10);\<newline>'' @
     ''Texture2D Tex8 : register(t8);\<newline>'' @
     ''Texture2DArray Tex9 : register(t9);\<newline>'' @
     ''Texture2DMSArray<float4, %d> Tex10 : register(t10);\<newline>'' @
     ''Texture2DArray Tex11[4] : register(t11);\<newline>'' @
     ''\<newline>'' @
     ''cbuffer ParamBuffer : register(b0) \<newline>'' @
     ''{\<newline>'' @
     CHR 0x09 # ''uint Time;\<newline>'' @
     CHR 0x09 # ''int layer;\<newline>'' @
     CHR 0x09 # ''float native_gamma;\<newline>'' @
     CHR 0x09 # ''float padding;\<newline>'' @
     CHR 0x09 # ''float4 resolution;\<newline>'' @
     CHR 0x09 # ''float4 targetscale;\<newline>'' @
     ''}\<newline>'' @
     ''\<newline>'' @
     ''// Globals\<newline>'' @
     ''static float2 uv0;\<newline>'' @
     ''static float4 uv1, uv2, fragment_pos;\<newline>'' @
     ''// Interfacing functions\<newline>'' @
     ''float2 GetFragmentCoord()\<newline>'' @
     ''{\<newline>'' @
     CHR 0x09 # ''return fragment_pos.xy;\<newline>'' @
     ''}\<newline>'' @
     ''float4 Sample(float2 location, int l)\<newline>'' @
     ''{\<newline>'' @
     CHR 0x09 # ''return Tex9.Sample(samp9, float3(location, l));\<newline>'' @
     ''}\<newline>'' @
     ''float4 SampleLocationOffset(float2 location, int2 offset)\<newline>'' @
     ''{\<newline>'' @
     CHR 0x09 # ''return Tex9.Sample(samp9, float3(location, layer), offset);\<newline>'' @
     ''}\<newline>'' @
     ''float4 SamplePrev(int idx, float2 location)\<newline>'' @
     ''{\<newline>'' @
     CHR 0x09 # ''return Tex11[idx].Sample(samp9, float3((location - targetscale.xy) * targetscale.zw, 0));\<newline>'' @
     ''}\<newline>'' @
     ''float4 SamplePrevLocationOffset(int idx, float2 location, int2 offset)\<newline>'' @
     ''{\<newline>'' @
     CHR 0x09 # ''return Tex11[idx].Sample(samp9, float3((location - targetscale.xy) * targetscale.zw , 0), offset);\<newline>'' @
     ''}\<newline>'' @
     ''float SampleDepth(float2 location, int l)\<newline>'' @
     ''{\<newline>'' @
     CHR 0x09 # ''/*float Znear = 0.001;\<newline>'' @
     CHR 0x09 # ''float Zfar = 1.0;\<newline>'' @
     CHR 0x09 # ''float A  = (1 - ( Zfar / Znear ))/2;\<newline>'' @
     CHR 0x09 # ''float B = (1 + ( Zfar / Znear ))/2;*/\<newline>'' @
     CHR 0x09 # ''float A = -499.5;\<newline>'' @
     CHR 0x09 # ''float B =  500.5;\<newline>'' @
     CHR 0x09 # ''float depth = 1.0 - Tex10.Load(int3(int2(resolution.xy * location), l), 0).x;\<newline>'' @
     CHR 0x09 # ''depth = 1.0 / (A * depth + B);\<newline>'' @
     CHR 0x09 # ''return depth;\<newline>'' @
     ''}\<newline>'' @
     ''float SampleDepthLoacationOffset(float2 location, int2 offset)\<newline>'' @
     ''{\<newline>'' @
     CHR 0x09 # ''float A = -499.5;\<newline>'' @
     CHR 0x09 # ''float B =  500.5;\<newline>'' @
     CHR 0x09 # ''const int samples = %d;\<newline>'' @
     CHR 0x09 # ''float depth = 1.0 - Tex10.Load(int3(int2(resolution.xy * location), layer), 0, offset).x;\<newline>'' @
     CHR 0x09 # ''depth = 1.0 / (A * depth + B);\<newline>'' @
     CHR 0x09 # ''return depth;\<newline>'' @
     ''}\<newline>''"

definition s_hlsl_interface :: string where
  "s_hlsl_interface =
     ''\<newline>'' @
     ''float4 Sample() { return Sample(uv0, layer); }\<newline>'' @
     ''float4 SampleOffset(int2 offset) { return SampleLocationOffset(uv0, offset); }\<newline>'' @
     ''float4 SamplePrev() { return SamplePrev(0, uv0); }\<newline>'' @
     ''float4 SamplePrev(int idx) { return SamplePrev(idx, uv0); }\<newline>'' @
     ''float4 SamplePrevOffset(int2 offset) { return SamplePrevLocationOffset(0, uv0, offset); }\<newline>'' @
     ''float4 SamplePrevOffset(int idx, int2 offset) { return SamplePrevLocationOffset(idx, uv0, offset); }\<newline>'' @
     ''float SampleDepth() { return SampleDepth(uv0, layer); }\<newline>'' @
     ''float SampleDepthOffset(int2 offset) { return SampleDepthLoacationOffset(uv0, offset); }\<newline>'' @
     ''float4 SampleLocation(float2 location) { return Sample(location, layer); }\<newline>'' @
     ''float SampleDepthLocation(float2 location) { return SampleDepth(location, layer); }\<newline>'' @
     ''float4 SamplePrevLocation(float2 location) { return SamplePrev(0, location); }\<newline>'' @
     ''float4 SamplePrevLocation(int idx, float2 location) { return SamplePrev(idx, location); }\<newline>'' @
     ''float4 SampleLayer(int l) { return Sample(uv0, l); }\<newline>'' @
     ''float SampleDepthLayer(int l) { return SampleDepth(uv0, l); }\<newline>'' @
     ''float4 SampleFontLocation(float2 location) { return Tex8.Sample(samp8, location); }\<newline>'' @
     ''\<newline>'' @
     ''float4 ApplyGCGamma(float4 col)\<newline>'' @
     ''{\<newline>'' @
     CHR 0x09 # ''return pow(col, native_gamma);\<newline>'' @
     ''}\<newline>'' @
     ''float2 GetResolution()\<newline>'' @
     ''{\<newline>'' @
     CHR 0x09 # ''return resolution.xy;\<newline>'' @
     ''}\<newline>'' @
     ''float2 GetInvResolution()\<newline>'' @
     ''{\<newline>'' @
     CHR 0x09 # ''return resolution.zw;\<newline>'' @
     ''}\<newline>'' @
     ''float2 GetCoordinates()\<newline>'' @
     ''{\<newline>'' @
     CHR 0x09 # ''return uv0;\<newline>'' @
     ''}\<newline>'' @
     ''uint GetTime()\<newline>'' @
     ''{\<newline>'' @
     CHR 0x09 # ''return Time;\<newline>'' @
     ''}\<newline>'' @
     ''\<newline>'' @
     ''#define SetOutput(color) ocol0 = color\<newline>'' @
     ''#define mult(a, b) mul(b, a)\<newline>'' @
     ''#define GetOption(x) (option_##x)\<newline>'' @
     ''#define OptionEnabled(x) (option_##x != 0)\<newline>'' @
     ''\<newline>'' @
     ''//Random\<newline>'' @
     ''static float global_rnd_state;\<newline>'' @
     ''\<newline>'' @
     ''float RandomSeedfloat(float2 seed)\<newline>'' @
     ''{\<newline>'' @
     CHR 0x09 # ''float noise = frac(sin(dot(seed, float2(12.9898, 78.233)*2.0)) * 43758.5453);\<newline>'' @
     CHR 0x09 # ''return noise;\<newline>'' @
     ''}\<newline>'' @
     ''\<newline>'' @
     ''void rnd_advance()\<newline>'' @
     ''{\<newline>'' @
     ''    global_rnd_state = RandomSeedfloat(uv0 + global_rnd_state);\<newline>'' @
     ''}\<newline>'' @
     ''\<newline>'' @
     ''uint RandomSeeduint(float2 seed)\<newline>'' @
     ''{\<newline>'' @
     CHR 0x09 # ''float noise = RandomSeedfloat(seed);\<newline>'' @
     CHR 0x09 # ''return uint(noise * 0xFFFFFF);\<newline>'' @
     ''}\<newline>'' @
     ''\<newline>'' @
     ''void Randomize()\<newline>'' @
     ''{\<newline>'' @
     CHR 0x09 # ''global_rnd_state = frac(float(GetTime())*0.0001);\<newline>'' @
     ''}\<newline>'' @
     ''\<newline>'' @
     ''uint Rndint()\<newline>'' @
     ''{\<newline>'' @
     CHR 0x09 # ''rnd_advance();\<newline>'' @
     CHR 0x09 # ''return uint(global_rnd_state * 0xFFFFFF);\<newline>'' @
     ''}\<newline>'' @
     ''\<newline>'' @
     ''float Rndfloat()\<newline>'' @
     ''{\<newline>'' @
     CHR 0x09 # ''rnd_advance();\<newline>'' @
     CHR 0x09 # ''return global_rnd_state;\<newline>'' @
     ''}\<newline>'' @
     ''\<newline>'' @
     ''float2 Rndfloat2()\<newline>'' @
     ''{\<newline>'' @
     CHR 0x09 # ''float2 val;\<newline>'' @
     CHR 0x09 # ''rnd_advance();\<newline>'' @
     CHR 0x09 # ''val.x = global_rnd_state;\<newline>'' @
     CHR 0x09 # ''rnd_advance();\<newline>'' @
     CHR 0x09 # ''val.y = global_rnd_state;\<newline>'' @
     CHR 0x09 # ''return val;\<newline>'' @
     ''}\<newline>'' @
     ''\<newline>'' @
     ''float3 Rndfloat3()\<newline>'' @
     ''{\<newline>'' @
     CHR 0x09 # ''float3 val;\<newline>'' @
     CHR 0x09 # ''rnd_advance();\<newline>'' @
     CHR 0x09 # ''val.x = global_rnd_state;\<newline>'' @
     CHR 0x09 # ''rnd_advance();\<newline>'' @
     CHR 0x09 # ''val.y = global_rnd_state;\<newline>'' @
     CHR 0x09 # ''rnd_advance();\<newline>'' @
     CHR 0x09 # ''val.z = global_rnd_state;\<newline>'' @
     CHR 0x09 # ''return val;\<newline>'' @
     ''}\<newline>'' @
     ''\<newline>'' @
     ''float4 Rndfloat4()\<newline>'' @
     ''{\<newline>'' @
     CHR 0x09 # ''float4 val;\<newline>'' @
     CHR 0x09 # ''rnd_advance();\<newline>'' @
     CHR 0x09 # ''val.x = global_rnd_state;\<newline>'' @
     CHR 0x09 # ''rnd_advance();\<newline>'' @
     CHR 0x09 # ''val.y = global_rnd_state;\<newline>'' @
     CHR 0x09 # ''rnd_advance();\<newline>'' @
     CHR 0x09 # ''val.z = global_rnd_state;\<newline>'' @
     CHR 0x09 # ''rnd_advance();\<newline>'' @
     CHR 0x09 # ''val.w = global_rnd_state;\<newline>'' @
     CHR 0x09 # ''return val;\<newline>'' @
     ''}\<newline>'' @
     ''\<newline>''"

text \<open>
  The loop of \<^verbatim>\<open>LoadShaderOptions\<close> over the option map (lines 656 to 689). The
  last component of the result is not a variable of the source: it records, for each
  entry, the value of \<^verbatim>\<open>buffer_size\<close> after the padding step, which is the byte offset
  the declared field occupies, and the entry's \<^verbatim>\<open>needed_size\<close>.
\<close>

fun LoadShaderOptions_loop ::
  "u32 \<Rightarrow> (string \<times> 'f ConfigurationOption) list \<Rightarrow> string \<Rightarrow> u32
     \<Rightarrow> (string \<times> u32 \<times> u32) list \<Rightarrow> string \<times> u32 \<times> (string \<times> u32 \<times> u32) list" where
  "LoadShaderOptions_loop stray [] hlsl_options buffer_size placed =
     (hlsl_options, buffer_size, placed)"
| "LoadShaderOptions_loop stray (it # its) hlsl_options buffer_size placed =
     (let (decl, needed_size) =
        (case m_type (snd it) of
           OPTION_BOOL \<Rightarrow>
             (StringFromFormat stray ''int     option_%s;\<newline>'' [ArgStr (c_str (fst it))],
              4 :: u32)
         | OPTION_INTEGER \<Rightarrow>
             (let count = (word_of_nat (length (m_integer_values (snd it))) :: u32) in
              (if count < 2
               then StringFromFormat stray ''int     option_%s;\<newline>'' [ArgStr (c_str (fst it))]
               else StringFromFormat stray ''int%d   option_%s;\<newline>''
                      [ArgInt count, ArgStr (c_str (fst it))],
               4 * count))
         | OPTION_FLOAT \<Rightarrow>
             (let count = (word_of_nat (length (m_float_values (snd it))) :: u32) in
              (if count < 2
               then StringFromFormat stray ''float   option_%s;\<newline>'' [ArgStr (c_str (fst it))]
               else StringFromFormat stray ''float%d option_%s;\<newline>''
                      [ArgInt count, ArgStr (c_str (fst it))],
               4 * count)));
        remaining = ((buffer_size + 15) AND NOT 15) - buffer_size;
        buffer_size' = (if remaining < needed_size then buffer_size + remaining else buffer_size)
      in LoadShaderOptions_loop stray its (hlsl_options @ decl) (buffer_size' + needed_size)
           (placed @ [(fst it, buffer_size', needed_size)]))"

definition LoadShaderOptions ::
  "'f environment \<Rightarrow> string \<Rightarrow> 'f DX11PostProcessing \<Rightarrow> string \<times> 'f DX11PostProcessing" where
  "LoadShaderOptions env code eng =
     (let eng1 = eng\<lparr>m_options := None\<rparr>;
          (hlsl_options, eng2) =
            (if HasOptions (m_config eng1) then
               (let (hlsl, buffer_size, placed) =
                      LoadShaderOptions_loop (stray_vararg env) (GetOptions (m_config eng1))
                        ''cbuffer OptionBuffer : register(b1) {'' 0 []
                in if buffer_size > 0
                   then (hlsl @ ''}\<newline>'',
                         eng1\<lparr>m_options := Some ((buffer_size + 15) AND NOT 15)\<rparr>)
                   else ('''', eng1))
             else ('''', eng1));
          s = m_prev_samples eng2;
          header = (if s = 1 then s_hlsl_header
                    else StringFromFormat (stray_vararg env) (c_str s_hlsl_header_MSAA) [ArgInt s])
      in (header @ s_hlsl_interface @ hlsl_options @ code, eng2))"

text \<open>
  The upload loop of \<^verbatim>\<open>BlitFromTexture\<close> (lines 124 to 152). \<open>dstdata\<close> is the offset
  of the write pointer from the start of the mapped buffer; each store through it is
  recorded with the name of the option, the offset and the cells stored. The store
  comes first, the padding step after it, as in the source.
\<close>

fun upload_options_loop ::
  "(string \<times> 'f ConfigurationOption) list \<Rightarrow> u32 \<Rightarrow> nat \<Rightarrow> (string \<times> nat \<times> 'f cell list) list
     \<Rightarrow> (string \<times> 'f ConfigurationOption) list
     \<Rightarrow> u32 \<times> (string \<times> nat \<times> 'f cell list) list \<times> (string \<times> 'f ConfigurationOption) list" where
  "upload_options_loop [] buffer_size dstdata stores done = (buffer_size, stores, done)"
| "upload_options_loop (it # its) buffer_size dstdata stores done =
     (let (cells, needed_size) =
        (case m_type (snd it) of
           OPTION_BOOL \<Rightarrow>
             ([IntCell (if m_bool_value (snd it) then 1 else 0)], 4 :: u32)
         | OPTION_INTEGER \<Rightarrow>
             (let needed = (word_of_nat (length (m_integer_values (snd it)) * 4) :: u32) in
              (map IntCell (take (unat needed div 4) (m_integer_values (snd it))), needed))
         | OPTION_FLOAT \<Rightarrow>
             (let needed = (word_of_nat (length (m_float_values (snd it)) * 4) :: u32) in
              (map FloatCell (take (unat needed div 4) (m_float_values (snd it))), needed)));
        stores' = stores @ [(fst it, dstdata, cells)];
        remaining = ((buffer_size + 15) AND NOT 15) - buffer_size;
        (buffer_size', dstdata') =
          (if remaining < needed_size
           then (buffer_size + remaining, dstdata + unat remaining)
           else (buffer_size, dstdata))
      in upload_options_loop its (buffer_size' + needed_size) (dstdata' + unat needed_size)
           stores' (done @ [(fst it, (snd it)\<lparr>m_dirty := False\<rparr>)]))"

subsection \<open>The packing rule in the spec's words\<close>

text \<open>
  The spec's rule on byte offsets as natural numbers: \<open>gap16\<close> is the gap from an
  offset to the next 16-byte boundary, and \<open>pack_spec\<close> walks the entry sizes with
  a running offset, advancing to the boundary before an entry that does not fit in
  the gap. It is compared with the source's loops below.
\<close>

definition gap16 :: "nat \<Rightarrow> nat" where
  "gap16 off = (16 - off mod 16) mod 16"

fun pack_spec :: "nat \<Rightarrow> nat list \<Rightarrow> nat list" where
  "pack_spec off [] = []"
| "pack_spec off (n # ns) =
     (let off' = (if gap16 off < n then off + gap16 off else off)
      in off' # pack_spec (off' + n) ns)"

text \<open>
  Auxiliary functions of the proofs: the size the loops compute for an entry, the
  padding step, and the offsets and the final size the loops reach from a given
  \<^verbatim>\<open>buffer_size\<close>.
\<close>

definition option_size :: "'f ConfigurationOption \<Rightarrow> u32" where
  "option_size opt =
     (case m_type opt of
        OPTION_BOOL \<Rightarrow> 4
      | OPTION_INTEGER \<Rightarrow> 4 * word_of_nat (length (m_integer_values opt))
      | OPTION_FLOAT \<Rightarrow> 4 * word_of_nat (length (m_float_values opt)))"

definition pad_for :: "u32 \<Rightarrow> u32 \<Rightarrow> u32" where
  "pad_for b n = (if ((b + 15) AND NOT 15) - b < n then b + (((b + 15) AND NOT 15) - b) else b)"

fun layout :: "u32 \<Rightarrow> (string \<times> 'f ConfigurationOption) list \<Rightarrow> (string \<times> u32 \<times> u32) list" where
  "layout b [] = []"
| "layout b (it # its) =
     (fst it, pad_for b (option_size (snd it)), option_size (snd it))
       # layout (pad_for b (option_size (snd it)) + option_size (snd it)) its"

fun final_size :: "u32 \<Rightarrow> (string \<times> 'f ConfigurationOption) list \<Rightarrow> u32" where
  "final_size b [] = b"
| "final_size b (it # its) = final_size (pad_for b (option_size (snd it)) + option_size (snd it)) its"

text \<open>Three options for the examples: a boolean, a single integer and a 3-vector of floats.\<close>

definition example_bool :: "real ConfigurationOption" where
  "example_bool = \<lparr>m_type = OPTION_BOOL, m_bool_value = True, m_integer_values = [],
                    m_float_values = [], m_dirty = True\<rparr>"

definition example_int :: "real ConfigurationOption" where
  "example_int = \<lparr>m_type = OPTION_INTEGER, m_bool_value = False, m_integer_values = [7],
                   m_float_values = [], m_dirty = True\<rparr>"

definition example_float3 :: "real ConfigurationOption" where
  "example_float3 = \<lparr>m_type = OPTION_FLOAT, m_bool_value = False, m_integer_values = [],
                      m_float_values = [1, 2, 3], m_dirty = True\<rparr>"

subsection \<open>Strings and vectors of the standard library\<close>

text \<open>
  \<^verbatim>\<open>std::string::find(str, pos)\<close>: the first position at or after \<open>pos\<close> where \<open>str\<close>
  occurs, \<open>None\<close> for \<^verbatim>\<open>npos\<close>. \<^verbatim>\<open>std::vector::resize\<close>: the first \<open>n\<close> elements are
  kept and new ones are value-initialised; a vector of pointers holds at most
  \<^verbatim>\<open>SIZE_MAX / 8\<close> elements.
\<close>

fun find_in :: "string \<Rightarrow> string \<Rightarrow> nat option" where
  "find_in str [] = (if str = [] then Some 0 else None)"
| "find_in str (c # cs) =
     (if take (length str) (c # cs) = str then Some 0 else map_option Suc (find_in str cs))"

definition find_from :: "string \<Rightarrow> string \<Rightarrow> nat \<Rightarrow> nat option" where
  "find_from str s pos =
     (if pos \<le> length s then map_option (\<lambda>i. i + pos) (find_in str (drop pos s)) else None)"

definition resize :: "'a list \<Rightarrow> nat \<Rightarrow> 'a \<Rightarrow> 'a list" where
  "resize xs n d = take n xs @ replicate (n - length xs) d"

definition vector_max_size :: nat where
  "vector_max_size = (2 ^ 64 - 1) div 8"

subsection \<open>Shader assembly and compilation\<close>

fun InitStages_loop :: "'f StageOption list \<Rightarrow> string \<Rightarrow> string" where
  "InitStages_loop [] result = result"
| "InitStages_loop (stage # stages) result =
     (let glslentry = ''void '' @ m_stage_entry_point stage in
      case find_from glslentry result 0 of
        None \<Rightarrow> ''''
      | Some entryPointStart \<Rightarrow>
          (case find_from ''{'' result entryPointStart of
             None \<Rightarrow> ''''
           | Some entryPointEnd \<Rightarrow>
               InitStages_loop stages
                 (take (entryPointStart + length glslentry) result @ s_hlsl_entry
                    @ drop (entryPointEnd + 1) result)))"

definition InitStages ::
  "string \<Rightarrow> 'f DX11PostProcessing \<Rightarrow> string \<times> 'f DX11PostProcessing" where
  "InitStages code eng =
     (InitStages_loop (GetStages (m_config eng)) code,
      eng\<lparr>m_pshader := resize (m_pshader eng) (length (GetStages (m_config eng))) None\<rparr>)"

text \<open>
  The compile loop of \<^verbatim>\<open>ApplyShader\<close> (lines 366 to 375), from stage \<open>i\<close> on. The
  index is within \<^verbatim>\<open>m_pshader\<close>, which \<^verbatim>\<open>InitStages\<close> has resized to the number of
  stages.
\<close>

fun compile_stages ::
  "'f environment \<Rightarrow> string \<Rightarrow> nat \<Rightarrow> 'f StageOption list \<Rightarrow> 'f DX11PostProcessing
     \<Rightarrow> 'f DX11PostProcessing" where
  "compile_stages env code i [] eng = eng"
| "compile_stages env code i (stage # stages) eng =
     (let shader = CompileAndCreatePixelShader env code (Some (c_str (m_stage_entry_point stage)));
          eng1 = eng\<lparr>m_pshader := (m_pshader eng)[i := shader]\<rparr>
      in if shader = None then eng1\<lparr>m_initialized := False\<rparr>
         else compile_stages env code (Suc i) stages eng1)"

text \<open>
  Lines 359 to 361 and line 387: the source is loaded for the active preset, patched
  by \<^verbatim>\<open>InitStages\<close> and completed by \<^verbatim>\<open>LoadShaderOptions\<close>.
\<close>

definition load_and_assemble ::
  "'f environment \<Rightarrow> 'f DX11PostProcessing \<Rightarrow> string \<times> 'f DX11PostProcessing" where
  "load_and_assemble env eng =
     (let (code, cfg) = LoadShader env (g_ActiveConfig_sPostProcessingShader eng) (m_config eng);
          (code1, eng1) = InitStages code (eng\<lparr>m_config := cfg\<rparr>)
      in LoadShaderOptions env code1 eng1)"

text \<open>
  \<^verbatim>\<open>ApplyShader\<close> in its three parts. Lines 346 to 375 (\<open>recompile\<close>): the images and
  programs are released, the source is loaded and assembled, and the stages are
  compiled. Lines 377 to 390 (\<open>fallback\<close>), run when \<^verbatim>\<open>m_initialized\<close> is false after
  the compile loop: the preset names are cleared, the programs are reset, the source
  is loaded and assembled again and compiled with the default entry point into
  \<^verbatim>\<open>m_pshader[0]\<close>; the result of that compilation is not tested.
\<close>

definition release_resources :: "'f DX11PostProcessing \<Rightarrow> 'f DX11PostProcessing" where
  "release_resources eng =
     eng\<lparr>m_prev_samples := AAMode_Count eng, m_stageOutput := [],
         m_pshader := map (\<lambda>shader. None) (m_pshader eng)\<rparr>"

definition recompile :: "'f environment \<Rightarrow> 'f DX11PostProcessing \<Rightarrow> 'f DX11PostProcessing" where
  "recompile env eng =
     (let (code, eng1) = load_and_assemble env (release_resources eng)
      in compile_stages env code 0 (GetStages (m_config eng1)) (eng1\<lparr>m_initialized := True\<rparr>))"

definition clear_preset :: "'f DX11PostProcessing \<Rightarrow> 'f DX11PostProcessing" where
  "clear_preset eng =
     eng\<lparr>g_Config_sPostProcessingShader := [],
         g_ActiveConfig_sPostProcessingShader := [],
         m_pshader := resize (map (\<lambda>shader. None) (m_pshader eng)) 1 None\<rparr>"

definition fallback ::
  "'f environment \<Rightarrow> 'f DX11PostProcessing \<Rightarrow> error + 'f DX11PostProcessing" where
  "fallback env eng =
     (let (code, eng1) = load_and_assemble env (clear_preset eng)
      in if m_pshader eng1 = [] then Inl Out_Of_Range
         else Inr (eng1\<lparr>m_pshader :=
                          (m_pshader eng1)[0 := CompileAndCreatePixelShader env code None],
                        m_initialized := True\<rparr>))"

definition shader_unchanged :: "'f DX11PostProcessing \<Rightarrow> bool" where
  "shader_unchanged eng =
     (m_initialized eng
      \<and> GetShader (m_config eng) = g_ActiveConfig_sPostProcessingShader eng
      \<and> m_prev_samples eng = AAMode_Count eng)"

definition ApplyShader ::
  "'f environment \<Rightarrow> 'f DX11PostProcessing \<Rightarrow> error + 'f DX11PostProcessing" where
  "ApplyShader env eng =
     (if shader_unchanged eng then Inr eng
      else
        (let eng1 = recompile env eng
         in if \<not> m_initialized eng1 then fallback env eng1 else Inr eng1))"

subsection \<open>The draw call\<close>

text \<open>The constructor (lines 62 to 93); \<open>pu0\<close> to \<open>pv1\<close> and the vertex offset are not initialised.\<close>

definition DX11PostProcessing_new ::
  "'f PostProcessingShaderConfiguration \<Rightarrow> 'f \<Rightarrow> nat \<Rightarrow> string \<Rightarrow> string \<Rightarrow> u32
     \<Rightarrow> 'f DX11PostProcessing" where
  "DX11PostProcessing_new cfg indeterminate indeterminate_offset preset active_preset aa =
     \<lparr>m_initialized = False, m_pshader = [], m_stageOutput = [],
      m_prev_dst_width = 0, m_prev_dst_height = 0, m_prev_src_width = 0, m_prev_src_height = 0,
      m_prev_samples = 0, m_options = None, m_config = cfg,
      m_vertex_buffer_observer = True, m_vertex_buffer_offset = indeterminate_offset,
      pu0 = indeterminate, pu1 = indeterminate, pv0 = indeterminate, pv1 = indeterminate,
      g_Config_sPostProcessingShader = preset, g_ActiveConfig_sPostProcessingShader = active_preset,
      AAMode_Count = aa, params_buffer = None, options_buffer = [], m_vertexbuffer = [],
      textures_created = 0, draws = []\<rparr>"

text \<open>Lines 119 to 155: the option values are uploaded when the configuration is dirty.\<close>

definition upload_options :: "'f DX11PostProcessing \<Rightarrow> error + 'f DX11PostProcessing" where
  "upload_options eng =
     (if IsDirty (m_config eng) \<and> HasOptions (m_config eng) then
        (if m_options eng = None then Inl Null_Pointer
         else
           (let (buffer_size, stores, opts) =
                  upload_options_loop (GetOptions (m_config eng)) 0 0 [] []
            in Inr (eng\<lparr>options_buffer := stores,
                         m_config := (m_config eng)\<lparr>GetOptions := opts, IsDirty := False\<rparr>\<rparr>)))
      else Inr eng)"

text \<open>Lines 160 to 165: the reciprocal source size and the normalised rectangle (u0, u1, v0, v1).\<close>

definition reciprocal_size :: "'f fpu \<Rightarrow> u32 \<Rightarrow> 'f" where
  "reciprocal_size F n = fdiv F (itof F 1) (itof F (sint n))"

definition uv_rectangle :: "'f fpu \<Rightarrow> TargetRectangle \<Rightarrow> u32 \<Rightarrow> u32 \<Rightarrow> 'f \<times> 'f \<times> 'f \<times> 'f" where
  "uv_rectangle F src src_width src_height =
     (let sw = reciprocal_size F src_width;
          sh = reciprocal_size F src_height
      in (fmul F (itof F (sint (left_rect src))) sw,
          fmul F (itof F (sint (right_rect src))) sw,
          fmul F (itof F (sint (top_rect src))) sh,
          fmul F (itof F (sint (bottom_rect src))) sh))"

text \<open>Lines 156 to 178: the frame parameters are computed and stored in the parameter buffer.\<close>

definition upload_params ::
  "'f environment \<Rightarrow> TargetRectangle \<Rightarrow> u32 \<Rightarrow> u32 \<Rightarrow> u32 \<Rightarrow> 'f \<Rightarrow> 'f DX11PostProcessing
     \<Rightarrow> 'f DX11PostProcessing" where
  "upload_params env src src_width src_height layer gamma eng =
     (let F = FPU env;
          sw = reciprocal_size F src_width;
          sh = reciprocal_size F src_height;
          (u0, u1, v0, v1) = uv_rectangle F src src_width src_height;
          params = \<lparr>Time = GetTimeElapsed env, Layer = layer,
                    native_gamma = fdiv F (itof F 1) gamma,
                    resolution = [itof F (sint src_width), itof F (sint src_height), sw, sh],
                    targetscale = [u0, v0, fdiv F (itof F 1) (fsub F u1 u0),
                                   fdiv F (itof F 1) (fsub F v1 v0)]\<rparr>
      in eng\<lparr>params_buffer := Some params\<rparr>)"

text \<open>
  Lines 180 to 194: the quad is appended when the observer flag is set or a bound
  differs. The flag is registered with the vertex buffer (line 92), which only this
  function uses; whatever \<^verbatim>\<open>AppendData\<close> writes to the flag is overwritten by line 189.
\<close>

definition quad_coords :: "'f fpu \<Rightarrow> 'f \<Rightarrow> 'f \<Rightarrow> 'f \<Rightarrow> 'f \<Rightarrow> 'f STVertex list" where
  "quad_coords F u0 u1 v0 v1 =
     [\<lparr>vx = itof F (- 1), vy = itof F 1, vz = itof F 0, vu0 = u0, vv0 = v0\<rparr>,
      \<lparr>vx = itof F 1, vy = itof F 1, vz = itof F 0, vu0 = u1, vv0 = v0\<rparr>,
      \<lparr>vx = itof F (- 1), vy = itof F (- 1), vz = itof F 0, vu0 = u0, vv0 = v1\<rparr>,
      \<lparr>vx = itof F 1, vy = itof F (- 1), vz = itof F 0, vu0 = u1, vv0 = v1\<rparr>]"

definition upload_vertices ::
  "'f environment \<Rightarrow> TargetRectangle \<Rightarrow> u32 \<Rightarrow> u32 \<Rightarrow> 'f DX11PostProcessing
     \<Rightarrow> 'f DX11PostProcessing" where
  "upload_vertices env src src_width src_height eng =
     (let F = FPU env;
          (u0, u1, v0, v1) = uv_rectangle F src src_width src_height;
          coords = quad_coords F u0 u1 v0 v1
      in if m_vertex_buffer_observer eng \<or> fne F (pu0 eng) u0 \<or> fne F (pu1 eng) u1
            \<or> fne F (pv0 eng) v0 \<or> fne F (pv1 eng) v1
         then eng\<lparr>m_vertex_buffer_offset := AppendData env (m_vertexbuffer eng),
                  m_vertexbuffer := m_vertexbuffer eng @ [coords],
                  m_vertex_buffer_observer := False,
                  pu0 := u0, pu1 := u1, pv0 := v0, pv1 := v1\<rparr>
         else eng)"

text \<open>
  Lines 240 to 252: the image of a stage that is not the last one. The cached
  dimensions are converted as unsigned values.
\<close>

definition create_stage_output ::
  "'f fpu \<Rightarrow> 'f DX11PostProcessing \<Rightarrow> 'f StageOption \<Rightarrow> D3DTexture2D" where
  "create_stage_output F eng stage =
     (let stage_width = (if m_use_source_resolution stage then m_prev_src_width eng
                         else m_prev_dst_width eng);
          stage_height = (if m_use_source_resolution stage then m_prev_src_height eng
                          else m_prev_dst_height eng)
      in \<lparr>tex_width = ftou F (fmul F (itof F (uint stage_width)) (m_outputScale stage)),
          tex_height = ftou F (fmul F (itof F (uint stage_height)) (m_outputScale stage))\<rparr>)"

text \<open>
  Lines 217 to 254. \<^verbatim>\<open>finalstage\<close> is a \<^verbatim>\<open>size_t\<close>: with no stage the subtraction wraps
  around. The images are created for the stages before \<^verbatim>\<open>finalstage\<close>.
\<close>

definition prepare_stage_outputs ::
  "'f environment \<Rightarrow> TargetRectangle \<Rightarrow> TargetRectangle \<Rightarrow> 'f DX11PostProcessing
     \<Rightarrow> error + 'f DX11PostProcessing" where
  "prepare_stage_outputs env src dst eng =
     (let stages = GetStages (m_config eng);
          finalstage = (word_of_nat (length stages) :: size_t) - 1
      in if finalstage > 0
            \<and> (m_prev_dst_width eng \<noteq> GetWidth env dst
               \<or> m_prev_dst_height eng \<noteq> GetHeight env dst
               \<or> m_prev_src_width eng \<noteq> GetWidth env src
               \<or> m_prev_src_height eng \<noteq> GetHeight env src
               \<or> (word_of_nat (length (m_stageOutput eng)) :: size_t) \<noteq> finalstage)
         then
           (if vector_max_size < unat finalstage then Inl Length_Error
            else
              (let eng1 = eng\<lparr>m_prev_dst_width := GetWidth env dst,
                              m_prev_dst_height := GetHeight env dst,
                              m_prev_src_width := GetWidth env src,
                              m_prev_src_height := GetHeight env src\<rparr>
               in Inr (eng1\<lparr>m_stageOutput :=
                              map (create_stage_output (FPU env) eng1) (take (unat finalstage) stages),
                            textures_created := textures_created eng + unat finalstage\<rparr>)))
         else Inr eng)"

text \<open>
  Lines 255 to 297, from stage \<open>i\<close> on: the render target and the viewport are chosen,
  the program of the stage and the images of its inputs are bound (at most four fit
  into \<^verbatim>\<open>views\<close>), and the quad is drawn.
\<close>

fun draw_stages ::
  "'f environment \<Rightarrow> TargetRectangle \<Rightarrow> size_t \<Rightarrow> nat \<Rightarrow> 'f StageOption list
     \<Rightarrow> 'f DX11PostProcessing \<Rightarrow> error + 'f DX11PostProcessing" where
  "draw_stages env dst finalstage i [] eng = Inr eng"
| "draw_stages env dst finalstage i (stage # stages) eng =
     (let F = FPU env;
          is_final = (i = unat finalstage);
          prev_stage_output_required = (0 < i \<and> 0 < finalstage)
      in if \<not> is_final \<and> length (m_stageOutput eng) \<le> i then Inl Out_Of_Range
         else if length (m_pshader eng) \<le> i then Inl Out_Of_Range
         else if prev_stage_output_required
                 \<and> (4 < length (m_inputs stage)
                    \<or> list_ex (\<lambda>idx. length (m_stageOutput eng) \<le> unat idx) (m_inputs stage))
         then Inl Out_Of_Range
         else
           (let stage_width = (if m_use_source_resolution stage then m_prev_src_width eng
                               else m_prev_dst_width eng);
                stage_height = (if m_use_source_resolution stage then m_prev_src_height eng
                                else m_prev_dst_height eng);
                vp = (if is_final
                      then [itof F (sint (left_rect dst)), itof F (sint (top_rect dst)),
                            itof F (sint (GetWidth env dst)), itof F (sint (GetHeight env dst))]
                      else [itof F 0, itof F 0,
                            fmul F (itof F (uint stage_width)) (m_outputScale stage),
                            fmul F (itof F (uint stage_height)) (m_outputScale stage)]);
                call = \<lparr>draw_stage = i, draw_shader = m_pshader eng ! i,
                         draw_to_backbuffer = is_final, draw_viewport = vp,
                         draw_inputs = (if prev_stage_output_required
                                        then map unat (m_inputs stage) else []),
                         draw_vertex_offset = m_vertex_buffer_offset eng\<rparr>
            in draw_stages env dst finalstage (Suc i) stages (eng\<lparr>draws := draws eng @ [call]\<rparr>)))"

definition BlitFromTexture ::
  "'f environment \<Rightarrow> TargetRectangle \<Rightarrow> TargetRectangle \<Rightarrow> u32 \<Rightarrow> u32 \<Rightarrow> u32 \<Rightarrow> 'f
     \<Rightarrow> 'f DX11PostProcessing \<Rightarrow> error + 'f DX11PostProcessing" where
  "BlitFromTexture env src dst src_width src_height layer gamma eng =
     (case ApplyShader env eng of
        Inl e \<Rightarrow> Inl e
      | Inr eng1 \<Rightarrow>
          (case upload_options eng1 of
             Inl e \<Rightarrow> Inl e
           | Inr eng2 \<Rightarrow>
               (let eng3 = upload_params env src src_width src_height layer gamma eng2;
                    eng4 = upload_vertices env src src_width src_height eng3
                in case prepare_stage_outputs env src dst eng4 of
                     Inl e \<Rightarrow> Inl e
                   | Inr eng5 \<Rightarrow>
                       draw_stages env dst
                         ((word_of_nat (length (GetStages (m_config eng5))) :: size_t) - 1) 0
                         (GetStages (m_config eng5)) eng5)))"

subsection \<open>Environments and engines for the examples\<close>

text \<open>
  A floating-point unit with exact arithmetic on the reals, for the examples; the
  conversion to an unsigned integer truncates.
\<close>

definition exact_fpu :: "real fpu" where
  "exact_fpu = \<lparr>itof = real_of_int, fmul = (*), fdiv = (/), fsub = (-),
                 ftou = (\<lambda>x. word_of_int \<lfloor>x\<rfloor>), fne = (\<noteq>)\<rparr>"

text \<open>Stages and configurations without options.\<close>

definition example_stage :: "string \<Rightarrow> u32 list \<Rightarrow> bool \<Rightarrow> 'f \<Rightarrow> 'f StageOption" where
  "example_stage entry inputs use_source scale =
     \<lparr>m_stage_entry_point = entry, m_inputs = inputs, m_use_source_resolution = use_source,
      m_outputScale = scale\<rparr>"

definition example_config ::
  "string \<Rightarrow> 'f StageOption list \<Rightarrow> 'f PostProcessingShaderConfiguration" where
  "example_config name stages =
     \<lparr>GetStages = stages, GetOptions = [], IsDirty = False, GetShader = name\<rparr>"

text \<open>The single default stage, and a preset of two stages, the second reading the first.\<close>

definition example_default_stages :: "real StageOption list" where
  "example_default_stages = [example_stage ''main'' [] False 1]"

definition example_stages :: "real StageOption list" where
  "example_stages = [example_stage ''blur'' [] True (1 / 2),
                     example_stage ''sharpen'' [0] False 1]"

text \<open>
  An environment for the examples: the empty preset loads the default stage and any
  other preset the two stages; the compiler rejects the entry point \<^verbatim>\<open>sharpen\<close>; the
  width and height of a rectangle are the differences of its bounds; each quad
  takes four places of the vertex buffer.
\<close>

definition example_env :: "real environment" where
  "example_env =
     \<lparr>LoadShader = (\<lambda>name cfg.
        if name = [] then (''void main() { }'', example_config [] example_default_stages)
        else (''void blur() { } void sharpen() { }'', example_config name example_stages)),
      CompileAndCreatePixelShader = (\<lambda>code entry.
        if entry = Some ''sharpen'' then None else Some (length code)),
      GetWidth = (\<lambda>r. right_rect r - left_rect r),
      GetHeight = (\<lambda>r. bottom_rect r - top_rect r),
      GetTimeElapsed = 0,
      AppendData = (\<lambda>appended. 4 * length appended),
      FPU = exact_fpu,
      stray_vararg = 0\<rparr>"

text \<open>An engine that has compiled the given stages for the empty preset and not drawn yet.\<close>

definition example_engine :: "real StageOption list \<Rightarrow> real DX11PostProcessing" where
  "example_engine stages =
     (DX11PostProcessing_new (example_config [] stages) 0 0 [] [] 1)
       \<lparr>m_initialized := True, m_pshader := map (\<lambda>stage. Some 1) stages, m_prev_samples := 1\<rparr>"

text \<open>A rectangle from its left, top, right and bottom bounds.\<close>

definition rect :: "u32 \<Rightarrow> u32 \<Rightarrow> u32 \<Rightarrow> u32 \<Rightarrow> TargetRectangle" where
  "rect l t r b = \<lparr>left_rect = l, top_rect = t, right_rect = r, bottom_rect = b\<rparr>"


text \<open>A newly constructed engine with the preset \<^verbatim>\<open>sharpen.glsl\<close> selected.\<close>

definition example_new_engine :: "real DX11PostProcessing" where
  "example_new_engine =
     DX11PostProcessing_new (example_config [] []) 0 0 ''sharpen.glsl'' ''sharpen.glsl'' 1"

text \<open>The same environment with a compiler that accepts every program.\<close>

definition working_env :: "real environment" where
  "working_env = example_env\<lparr>CompileAndCreatePixelShader := (\<lambda>code entry. Some 1)\<rparr>"

text \<open>
  A floating-point unit with the special values of IEEE 754, without rounding and
  without a negative zero: a non-zero number divided by zero is an infinity, zero
  times an infinity is a NaN, and \<^verbatim>\<open>!=\<close> holds whenever an operand is a NaN. The
  conversion of a value that is not a number to an unsigned integer, undefined in
  C++, gives 0.
\<close>

datatype xfloat = Finite real | PInf | NInf | NaN

fun xneg :: "xfloat \<Rightarrow> bool" where
  "xneg (Finite a) = (a < 0)"
| "xneg NInf = True"
| "xneg PInf = False"
| "xneg NaN = False"

definition xinf :: "bool \<Rightarrow> xfloat" where
  "xinf negative = (if negative then NInf else PInf)"

fun xmul :: "xfloat \<Rightarrow> xfloat \<Rightarrow> xfloat" where
  "xmul (Finite a) (Finite b) = Finite (a * b)"
| "xmul x y = (if x = NaN \<or> y = NaN \<or> x = Finite 0 \<or> y = Finite 0 then NaN
               else xinf (xneg x \<noteq> xneg y))"

fun xdiv :: "xfloat \<Rightarrow> xfloat \<Rightarrow> xfloat" where
  "xdiv (Finite a) (Finite b) =
     (if b \<noteq> 0 then Finite (a / b) else if a = 0 then NaN else xinf (a < 0))"
| "xdiv (Finite a) y = (if y = NaN then NaN else Finite 0)"
| "xdiv x (Finite b) = (if x = NaN then NaN else xinf (xneg x \<noteq> (b < 0)))"
| "xdiv x y = NaN"

fun xsub :: "xfloat \<Rightarrow> xfloat \<Rightarrow> xfloat" where
  "xsub (Finite a) (Finite b) = Finite (a - b)"
| "xsub x y = (if x = NaN \<or> y = NaN \<or> x = y then NaN
               else if x = PInf \<or> y = NInf then PInf else NInf)"

fun xtou :: "xfloat \<Rightarrow> u32" where
  "xtou (Finite a) = word_of_int \<lfloor>a\<rfloor>"
| "xtou x = 0"

definition xne :: "xfloat \<Rightarrow> xfloat \<Rightarrow> bool" where
  "xne x y = (x = NaN \<or> y = NaN \<or> x \<noteq> y)"

definition ieee_fpu :: "xfloat fpu" where
  "ieee_fpu = \<lparr>itof = (\<lambda>i. Finite (real_of_int i)), fmul = xmul, fdiv = xdiv, fsub = xsub,
                ftou = xtou, fne = xne\<rparr>"

text \<open>An environment with this unit and one default stage, and an engine that has compiled it.\<close>

definition ieee_env :: "xfloat environment" where
  "ieee_env =
     \<lparr>LoadShader = (\<lambda>name cfg.
        (''void main() { }'', example_config name [example_stage ''main'' [] False (Finite 1)])),
      CompileAndCreatePixelShader = (\<lambda>code entry. Some 1),
      GetWidth = (\<lambda>r. right_rect r - left_rect r),
      GetHeight = (\<lambda>r. bottom_rect r - top_rect r),
      GetTimeElapsed = 0,
      AppendData = (\<lambda>appended. 4 * length appended),
      FPU = ieee_fpu,
      stray_vararg = 0\<rparr>"

definition ieee_engine :: "xfloat DX11PostProcessing" where
  "ieee_engine =
     (DX11PostProcessing_new
        (example_config [] [example_stage ''main'' [] False (Finite 1)]) NaN 0 [] [] 1)
       \<lparr>m_initialized := True, m_pshader := [Some 1], m_prev_samples := 1\<rparr>"
subsection \<open>Sequences of draws\<close>


text \<open>
  A state from which a draw returns: the shader is unchanged, the options can be
  uploaded, the images are absent or those of the stages but the last, there is a
  stage and a program for each, and the inputs of the stages are at most four
  indices of stages but the last.
\<close>

definition draw_ready :: "'f environment \<Rightarrow> 'f DX11PostProcessing \<Rightarrow> bool" where
  "draw_ready env eng =
     (shader_unchanged eng
      \<and> \<not> (IsDirty (m_config eng) \<and> HasOptions (m_config eng) \<and> m_options eng = None)
      \<and> (m_stageOutput eng = []
          \<or> m_stageOutput eng
             = map (create_stage_output (FPU env) eng) (butlast (GetStages (m_config eng))))
      \<and> GetStages (m_config eng) \<noteq> []
      \<and> length (GetStages (m_config eng)) \<le> vector_max_size
      \<and> length (m_pshader eng) = length (GetStages (m_config eng))
      \<and> (\<forall>stage \<in> set (GetStages (m_config eng)).
            length (m_inputs stage) \<le> 4
            \<and> (\<forall>idx \<in> set (m_inputs stage).
                  unat idx < length (GetStages (m_config eng)) - 1)))"
section \<open>The encoder generator (VideoCommon/TextureConversionShaderGL.cpp)\<close>

text \<open>
  The format identifier is a \<^verbatim>\<open>u32\<close> compared with enumeration constants that are
  declared outside the sources. The 23 constants the switch of
  \<^verbatim>\<open>GenerateEncodingShader\<close> names are the first 23 constructors; any other value takes
  the \<^verbatim>\<open>default\<close> branch and is \<open>Unknown_Format\<close>.
\<close>

datatype TextureFormat =
    GX_TF_I4 | GX_TF_I8 | GX_TF_IA4 | GX_TF_IA8 | GX_TF_RGB565 | GX_TF_RGB5A3 | GX_TF_RGBA8
  | GX_CTF_R4 | GX_CTF_RA4 | GX_CTF_RA8 | GX_CTF_A8 | GX_CTF_R8 | GX_CTF_G8 | GX_CTF_B8
  | GX_CTF_RG8 | GX_CTF_GB8
  | GX_TF_Z8 | GX_TF_Z16 | GX_TF_Z24X8
  | GX_CTF_Z4 | GX_CTF_Z8M | GX_CTF_Z8L | GX_CTF_Z16L
  | Unknown_Format u32

text \<open>
  What the generator calls and the sources do not define: the block dimensions and the
  sample count of a format, \<^verbatim>\<open>IntLog2\<close>, the two frame-buffer constants, and the
  indeterminate value of the variable-argument area (see \<open>vformat\<close>).
\<close>

record enc_env =
  TexDecoder_GetBlockWidthInTexels :: "TextureFormat \<Rightarrow> u32"
  TexDecoder_GetBlockHeightInTexels :: "TextureFormat \<Rightarrow> u32"
  GetEncodedSampleCount :: "TextureFormat \<Rightarrow> u32"
  IntLog2 :: "u32 \<Rightarrow> u32"
  EFB_WIDTH :: u32
  EFB_HEIGHT :: u32
  enc_stray :: u32

datatype alert = Unknown_Format_Alert u32 | Canary_Alert

text \<open>
  The state of the generator: the static array \<^verbatim>\<open>text\<close> (16384 characters), the
  write pointer \<^verbatim>\<open>p\<close> as its offset from the start of the array, the static flag,
  whether a \<^verbatim>\<open>sprintf\<close> has written past the end of the array (undefined behaviour in
  C), and the \<^verbatim>\<open>PanicAlert\<close>s raised.
\<close>

record gen_state =
  text_buffer :: string
  p :: nat
  IntensityConstantAdded :: bool
  overrun :: bool
  alerts :: "alert list"

text \<open>
  Storing the characters \<open>xs\<close> at offset \<open>i\<close> of an array: the characters that would
  fall outside the array are dropped (the state records the overrun).
\<close>

definition poke :: "string \<Rightarrow> nat \<Rightarrow> string \<Rightarrow> string" where
  "poke buf i xs = take (length buf) (take i buf @ xs @ drop (i + length xs) buf)"

text \<open>
  \<^verbatim>\<open>#define WRITE p+=sprintf\<close>: the formatted text and its terminating NUL are stored at
  \<^verbatim>\<open>p\<close>, and \<^verbatim>\<open>p\<close> advances by the length of the text, so the NUL is overwritten
  by the next call.
\<close>

definition WRITE :: "enc_env \<Rightarrow> string \<Rightarrow> fmt_arg list \<Rightarrow> gen_state \<Rightarrow> gen_state" where
  "WRITE env format args st =
     (let s = vformat (enc_stray env) format args
      in st\<lparr>text_buffer := poke (text_buffer st) (p st) (s @ [CHR 0x00]),
            overrun := overrun st \<or> length (text_buffer st) < p st + length s + 1,
            p := p st + length s\<rparr>)"

text \<open>A sequence of statements, run in order.\<close>

fun block :: "('s \<Rightarrow> 's) list \<Rightarrow> 's \<Rightarrow> 's" where
  "block [] st = st"
| "block (f # fs) st = block fs (f st)"

definition WriteSwizzler :: "enc_env \<Rightarrow> TextureFormat \<Rightarrow> gen_state \<Rightarrow> gen_state" where
  "WriteSwizzler env format =
     (let blkW = TexDecoder_GetBlockWidthInTexels env format;
          blkH = TexDecoder_GetBlockHeightInTexels env format;
          samples = GetEncodedSampleCount env format
      in block
          ([WRITE env ''uniform int4 position;\<newline>'' [],
            WRITE env ''#define samp0 samp9\<newline>'' [],
            WRITE env ''SAMPLER_BINDING(9) uniform sampler2D samp0;\<newline>'' [],
            WRITE env ''  out vec4 ocol0;\<newline>'' [],
            WRITE env ''void main()\<newline>'' [],
            WRITE env (''{\<newline>'' @
                       ''  int2 sampleUv;\<newline>'' @
                       ''  int2 uv1 = int2(gl_FragCoord.xy);\<newline>'') [],
            WRITE env ''  int y_block_position = uv1.y & %d;\<newline>'' [ArgInt (NOT (blkH - 1))],
            WRITE env ''  int y_offset_in_block = uv1.y & %d;\<newline>'' [ArgInt (blkH - 1)],
            WRITE env ''  int x_virtual_position = (uv1.x << %d) + y_offset_in_block * position.z;\<newline>''
              [ArgInt (IntLog2 env samples)],
            WRITE env ''  int x_block_position = (x_virtual_position >> %d) & %d;\<newline>''
              [ArgInt (IntLog2 env blkH), ArgInt (NOT (blkW - 1))]]
           @ (if samples = 1
              then [WRITE env ''  bool first = 0 == (x_virtual_position & %d);\<newline>''
                      [ArgInt (8 * samples)],
                    WRITE env ''  x_virtual_position = x_virtual_position << 1;\<newline>'' []]
              else [])
           @ [WRITE env ''  int x_offset_in_block = x_virtual_position & %d;\<newline>''
                [ArgInt (blkW - 1)],
              WRITE env ''  int y_offset = (x_virtual_position >> %d) & %d;\<newline>''
                [ArgInt (IntLog2 env blkW), ArgInt (blkH - 1)],
              WRITE env ''  sampleUv.x = x_offset_in_block + x_block_position;\<newline>'' [],
              WRITE env ''  sampleUv.y = y_block_position + y_offset;\<newline>'' [],
              WRITE env ''  float2 uv0 = float2(sampleUv);\<newline>'' [],
              WRITE env ''  uv0 += float2(0.5, 0.5);\<newline>'' [],
              WRITE env ''  uv0 *= float(position.w);\<newline>'' [],
              WRITE env ''  uv0 += float2(position.xy);\<newline>'' [],
              WRITE env ''  uv0 /= float2(%d, %d);\<newline>''
                [ArgInt (EFB_WIDTH env), ArgInt (EFB_HEIGHT env)],
              WRITE env ''  uv0.y = 1.0-uv0.y;\<newline>'' [],
              WRITE env ''  float sample_offset = float(position.w) / float(%d);\<newline>''
                [ArgInt (EFB_WIDTH env)]]))"

definition WriteSampleColor ::
  "enc_env \<Rightarrow> string \<Rightarrow> string \<Rightarrow> u32 \<Rightarrow> gen_state \<Rightarrow> gen_state" where
  "WriteSampleColor env colorComp dest xoffset =
     WRITE env ''  %s = texture(samp0, uv0 + float2(%d, 0) * sample_offset).%s;\<newline>''
       [ArgStr dest, ArgInt xoffset, ArgStr colorComp]"

definition WriteColorToIntensity :: "enc_env \<Rightarrow> string \<Rightarrow> string \<Rightarrow> gen_state \<Rightarrow> gen_state" where
  "WriteColorToIntensity env src dest st =
     (let st1 =
        (if \<not> IntensityConstantAdded st
         then (WRITE env
                 ''  float4 IntensityConst = float4(0.257f,0.504f,0.098f,0.0625f);\<newline>'' [] st)
                \<lparr>IntensityConstantAdded := True\<rparr>
         else st)
      in WRITE env ''  %s = dot(IntensityConst.rgb, %s.rgb);\<newline>'' [ArgStr dest, ArgStr src] st1)"

definition WriteToBitDepth ::
  "enc_env \<Rightarrow> 8 word \<Rightarrow> string \<Rightarrow> string \<Rightarrow> gen_state \<Rightarrow> gen_state" where
  "WriteToBitDepth env depth src dest =
     WRITE env ''  %s = floor(%s * 255.0 / exp2(8.0 - %d.0));\<newline>''
       [ArgStr dest, ArgStr src, ArgInt (ucast depth)]"

definition WriteEncoderEnd :: "enc_env \<Rightarrow> gen_state \<Rightarrow> gen_state" where
  "WriteEncoderEnd env st = (WRITE env ''}\<newline>'' [] st)\<lparr>IntensityConstantAdded := False\<rparr>"

definition WriteI8Encoder :: "enc_env \<Rightarrow> gen_state \<Rightarrow> gen_state" where
  "WriteI8Encoder env =
     block
      [WriteSwizzler env GX_TF_I8,
       WRITE env ''  float3 texSample;\<newline>'' [],
       WriteSampleColor env ''rgb'' ''texSample'' 0,
       WriteColorToIntensity env ''texSample'' ''ocol0.b'',
       WriteSampleColor env ''rgb'' ''texSample'' 1,
       WriteColorToIntensity env ''texSample'' ''ocol0.g'',
       WriteSampleColor env ''rgb'' ''texSample'' 2,
       WriteColorToIntensity env ''texSample'' ''ocol0.r'',
       WriteSampleColor env ''rgb'' ''texSample'' 3,
       WriteColorToIntensity env ''texSample'' ''ocol0.a'',
       WRITE env ''  ocol0.rgba += IntensityConst.aaaa;\<newline>'' [],
       WriteEncoderEnd env]"

definition WriteI4Encoder :: "enc_env \<Rightarrow> gen_state \<Rightarrow> gen_state" where
  "WriteI4Encoder env =
     block
      [WriteSwizzler env GX_TF_I4,
       WRITE env ''  float3 texSample;\<newline>'' [],
       WRITE env ''  float4 color0;\<newline>'' [],
       WRITE env ''  float4 color1;\<newline>'' [],
       WriteSampleColor env ''rgb'' ''texSample'' 0,
       WriteColorToIntensity env ''texSample'' ''color0.b'',
       WriteSampleColor env ''rgb'' ''texSample'' 1,
       WriteColorToIntensity env ''texSample'' ''color1.b'',
       WriteSampleColor env ''rgb'' ''texSample'' 2,
       WriteColorToIntensity env ''texSample'' ''color0.g'',
       WriteSampleColor env ''rgb'' ''texSample'' 3,
       WriteColorToIntensity env ''texSample'' ''color1.g'',
       WriteSampleColor env ''rgb'' ''texSample'' 4,
       WriteColorToIntensity env ''texSample'' ''color0.r'',
       WriteSampleColor env ''rgb'' ''texSample'' 5,
       WriteColorToIntensity env ''texSample'' ''color1.r'',
       WriteSampleColor env ''rgb'' ''texSample'' 6,
       WriteColorToIntensity env ''texSample'' ''color0.a'',
       WriteSampleColor env ''rgb'' ''texSample'' 7,
       WriteColorToIntensity env ''texSample'' ''color1.a'',
       WRITE env ''  color0.rgba += IntensityConst.aaaa;\<newline>'' [],
       WRITE env ''  color1.rgba += IntensityConst.aaaa;\<newline>'' [],
       WriteToBitDepth env 4 ''color0'' ''color0'',
       WriteToBitDepth env 4 ''color1'' ''color1'',
       WRITE env ''  ocol0 = (color0 * 16.0 + color1) / 255.0;\<newline>'' [],
       WriteEncoderEnd env]"

definition WriteIA8Encoder :: "enc_env \<Rightarrow> gen_state \<Rightarrow> gen_state" where
  "WriteIA8Encoder env =
     block
      [WriteSwizzler env GX_TF_IA8,
       WRITE env ''  float4 texSample;\<newline>'' [],
       WriteSampleColor env ''rgba'' ''texSample'' 0,
       WRITE env ''  ocol0.b = texSample.a;\<newline>'' [],
       WriteColorToIntensity env ''texSample'' ''ocol0.g'',
       WriteSampleColor env ''rgba'' ''texSample'' 1,
       WRITE env ''  ocol0.r = texSample.a;\<newline>'' [],
       WriteColorToIntensity env ''texSample'' ''ocol0.a'',
       WRITE env ''  ocol0.ga += IntensityConst.aa;\<newline>'' [],
       WriteEncoderEnd env]"

definition WriteIA4Encoder :: "enc_env \<Rightarrow> gen_state \<Rightarrow> gen_state" where
  "WriteIA4Encoder env =
     block
      [WriteSwizzler env GX_TF_IA4,
       WRITE env ''  float4 texSample;\<newline>'' [],
       WRITE env ''  float4 color0;\<newline>'' [],
       WRITE env ''  float4 color1;\<newline>'' [],
       WriteSampleColor env ''rgba'' ''texSample'' 0,
       WRITE env ''  color0.b = texSample.a;\<newline>'' [],
       WriteColorToIntensity env ''texSample'' ''color1.b'',
       WriteSampleColor env ''rgba'' ''texSample'' 1,
       WRITE env ''  color0.g = texSample.a;\<newline>'' [],
       WriteColorToIntensity env ''texSample'' ''color1.g'',
       WriteSampleColor env ''rgba'' ''texSample'' 2,
       WRITE env ''  color0.r = texSample.a;\<newline>'' [],
       WriteColorToIntensity env ''texSample'' ''color1.r'',
       WriteSampleColor env ''rgba'' ''texSample'' 3,
       WRITE env ''  color0.a = texSample.a;\<newline>'' [],
       WriteColorToIntensity env ''texSample'' ''color1.a'',
       WRITE env ''  color1.rgba += IntensityConst.aaaa;\<newline>'' [],
       WriteToBitDepth env 4 ''color0'' ''color0'',
       WriteToBitDepth env 4 ''color1'' ''color1'',
       WRITE env ''  ocol0 = (color0 * 16.0 + color1) / 255.0;\<newline>'' [],
       WriteEncoderEnd env]"

definition WriteRGB565Encoder :: "enc_env \<Rightarrow> gen_state \<Rightarrow> gen_state" where
  "WriteRGB565Encoder env =
     block
      [WriteSwizzler env GX_TF_RGB565,
       WriteSampleColor env ''rgb'' ''float3 texSample0'' 0,
       WriteSampleColor env ''rgb'' ''float3 texSample1'' 1,
       WRITE env ''  float2 texRs = float2(texSample0.r, texSample1.r);\<newline>'' [],
       WRITE env ''  float2 texGs = float2(texSample0.g, texSample1.g);\<newline>'' [],
       WRITE env ''  float2 texBs = float2(texSample0.b, texSample1.b);\<newline>'' [],
       WriteToBitDepth env 6 ''texGs'' ''float2 gInt'',
       WRITE env ''  float2 gUpper = floor(gInt / 8.0);\<newline>'' [],
       WRITE env ''  float2 gLower = gInt - gUpper * 8.0;\<newline>'' [],
       WriteToBitDepth env 5 ''texRs'' ''ocol0.br'',
       WRITE env ''  ocol0.br = ocol0.br * 8.0 + gUpper;\<newline>'' [],
       WriteToBitDepth env 5 ''texBs'' ''ocol0.ga'',
       WRITE env ''  ocol0.ga = ocol0.ga + gLower * 32.0;\<newline>'' [],
       WRITE env ''  ocol0 = ocol0 / 255.0;\<newline>'' [],
       WriteEncoderEnd env]"

definition WriteRGB5A3Encoder :: "enc_env \<Rightarrow> gen_state \<Rightarrow> gen_state" where
  "WriteRGB5A3Encoder env =
     block
      [WriteSwizzler env GX_TF_RGB5A3,
       WRITE env ''  float4 texSample;\<newline>'' [],
       WRITE env ''  float color0;\<newline>'' [],
       WRITE env ''  float gUpper;\<newline>'' [],
       WRITE env ''  float gLower;\<newline>'' [],
       WriteSampleColor env ''rgba'' ''texSample'' 0,
       WRITE env ''if(texSample.a > 0.878f) {\<newline>'' [],
       WriteToBitDepth env 5 ''texSample.g'' ''color0'',
       WRITE env ''  gUpper = floor(color0 / 8.0);\<newline>'' [],
       WRITE env ''  gLower = color0 - gUpper * 8.0;\<newline>'' [],
       WriteToBitDepth env 5 ''texSample.r'' ''ocol0.b'',
       WRITE env ''  ocol0.b = ocol0.b * 4.0 + gUpper + 128.0;\<newline>'' [],
       WriteToBitDepth env 5 ''texSample.b'' ''ocol0.g'',
       WRITE env ''  ocol0.g = ocol0.g + gLower * 32.0;\<newline>'' [],
       WRITE env ''} else {\<newline>'' [],
       WriteToBitDepth env 4 ''texSample.r'' ''ocol0.b'',
       WriteToBitDepth env 4 ''texSample.b'' ''ocol0.g'',
       WriteToBitDepth env 3 ''texSample.a'' ''color0'',
       WRITE env ''ocol0.b = ocol0.b + color0 * 16.0;\<newline>'' [],
       WriteToBitDepth env 4 ''texSample.g'' ''color0'',
       WRITE env ''ocol0.g = ocol0.g + color0 * 16.0;\<newline>'' [],
       WRITE env ''}\<newline>'' [],
       WriteSampleColor env ''rgba'' ''texSample'' 1,
       WRITE env ''if(texSample.a > 0.878f) {\<newline>'' [],
       WriteToBitDepth env 5 ''texSample.g'' ''color0'',
       WRITE env ''  gUpper = floor(color0 / 8.0);\<newline>'' [],
       WRITE env ''  gLower = color0 - gUpper * 8.0;\<newline>'' [],
       WriteToBitDepth env 5 ''texSample.r'' ''ocol0.r'',
       WRITE env ''  ocol0.r = ocol0.r * 4.0 + gUpper + 128.0;\<newline>'' [],
       WriteToBitDepth env 5 ''texSample.b'' ''ocol0.a'',
       WRITE env ''  ocol0.a = ocol0.a + gLower * 32.0;\<newline>'' [],
       WRITE env ''} else {\<newline>'' [],
       WriteToBitDepth env 4 ''texSample.r'' ''ocol0.r'',
       WriteToBitDepth env 4 ''texSample.b'' ''ocol0.a'',
       WriteToBitDepth env 3 ''texSample.a'' ''color0'',
       WRITE env ''ocol0.r = ocol0.r + color0 * 16.0;\<newline>'' [],
       WriteToBitDepth env 4 ''texSample.g'' ''color0'',
       WRITE env ''ocol0.a = ocol0.a + color0 * 16.0;\<newline>'' [],
       WRITE env ''}\<newline>'' [],
       WRITE env ''  ocol0 = ocol0 / 255.0;\<newline>'' [],
       WriteEncoderEnd env]"

definition WriteRGBA8Encoder :: "enc_env \<Rightarrow> gen_state \<Rightarrow> gen_state" where
  "WriteRGBA8Encoder env =
     block
      [WriteSwizzler env GX_TF_RGBA8,
       WRITE env ''  float4 texSample;\<newline>'' [],
       WRITE env ''  float4 color0;\<newline>'' [],
       WRITE env ''  float4 color1;\<newline>'' [],
       WriteSampleColor env ''rgba'' ''texSample'' 0,
       WRITE env ''  color0.b = texSample.a;\<newline>'' [],
       WRITE env ''  color0.g = texSample.r;\<newline>'' [],
       WRITE env ''  color1.b = texSample.g;\<newline>'' [],
       WRITE env ''  color1.g = texSample.b;\<newline>'' [],
       WriteSampleColor env ''rgba'' ''texSample'' 1,
       WRITE env ''  color0.r = texSample.a;\<newline>'' [],
       WRITE env ''  color0.a = texSample.r;\<newline>'' [],
       WRITE env ''  color1.r = texSample.g;\<newline>'' [],
       WRITE env ''  color1.a = texSample.b;\<newline>'' [],
       WRITE env ''  ocol0 = first ? color0 : color1;\<newline>'' [],
       WriteEncoderEnd env]"

definition WriteC4Encoder :: "enc_env \<Rightarrow> string \<Rightarrow> gen_state \<Rightarrow> gen_state" where
  "WriteC4Encoder env comp_arg =
     block
      [WriteSwizzler env GX_CTF_R4,
       WRITE env ''  float4 color0;\<newline>'' [],
       WRITE env ''  float4 color1;\<newline>'' [],
       WriteSampleColor env comp_arg ''color0.b'' 0,
       WriteSampleColor env comp_arg ''color1.b'' 1,
       WriteSampleColor env comp_arg ''color0.g'' 2,
       WriteSampleColor env comp_arg ''color1.g'' 3,
       WriteSampleColor env comp_arg ''color0.r'' 4,
       WriteSampleColor env comp_arg ''color1.r'' 5,
       WriteSampleColor env comp_arg ''color0.a'' 6,
       WriteSampleColor env comp_arg ''color1.a'' 7,
       WriteToBitDepth env 4 ''color0'' ''color0'',
       WriteToBitDepth env 4 ''color1'' ''color1'',
       WRITE env ''  ocol0 = (color0 * 16.0 + color1) / 255.0;\<newline>'' [],
       WriteEncoderEnd env]"

definition WriteC8Encoder :: "enc_env \<Rightarrow> string \<Rightarrow> gen_state \<Rightarrow> gen_state" where
  "WriteC8Encoder env comp_arg =
     block
      [WriteSwizzler env GX_CTF_R8,
       WriteSampleColor env comp_arg ''ocol0.b'' 0,
       WriteSampleColor env comp_arg ''ocol0.g'' 1,
       WriteSampleColor env comp_arg ''ocol0.r'' 2,
       WriteSampleColor env comp_arg ''ocol0.a'' 3,
       WriteEncoderEnd env]"

definition WriteCC4Encoder :: "enc_env \<Rightarrow> string \<Rightarrow> gen_state \<Rightarrow> gen_state" where
  "WriteCC4Encoder env comp_arg =
     block
      [WriteSwizzler env GX_CTF_RA4,
       WRITE env ''  float2 texSample;\<newline>'' [],
       WRITE env ''  float4 color0;\<newline>'' [],
       WRITE env ''  float4 color1;\<newline>'' [],
       WriteSampleColor env comp_arg ''texSample'' 0,
       WRITE env ''  color0.b = texSample.x;\<newline>'' [],
       WRITE env ''  color1.b = texSample.y;\<newline>'' [],
       WriteSampleColor env comp_arg ''texSample'' 1,
       WRITE env ''  color0.g = texSample.x;\<newline>'' [],
       WRITE env ''  color1.g = texSample.y;\<newline>'' [],
       WriteSampleColor env comp_arg ''texSample'' 2,
       WRITE env ''  color0.r = texSample.x;\<newline>'' [],
       WRITE env ''  color1.r = texSample.y;\<newline>'' [],
       WriteSampleColor env comp_arg ''texSample'' 3,
       WRITE env ''  color0.a = texSample.x;\<newline>'' [],
       WRITE env ''  color1.a = texSample.y;\<newline>'' [],
       WriteToBitDepth env 4 ''color0'' ''color0'',
       WriteToBitDepth env 4 ''color1'' ''color1'',
       WRITE env ''  ocol0 = (color0 * 16.0 + color1) / 255.0;\<newline>'' [],
       WriteEncoderEnd env]"

definition WriteCC8Encoder :: "enc_env \<Rightarrow> string \<Rightarrow> gen_state \<Rightarrow> gen_state" where
  "WriteCC8Encoder env comp_arg =
     block
      [WriteSwizzler env GX_CTF_RA8,
       WriteSampleColor env comp_arg ''ocol0.bg'' 0,
       WriteSampleColor env comp_arg ''ocol0.ra'' 1,
       WriteEncoderEnd env]"

definition WriteZ8Encoder ::
  "enc_env \<Rightarrow> string \<Rightarrow> gen_state \<Rightarrow> gen_state" where
  "WriteZ8Encoder env multiplier =
     block
      [WriteSwizzler env GX_CTF_Z8M,
       WRITE env '' float depth;\<newline>'' [],
       WriteSampleColor env ''b'' ''depth'' 0,
       WRITE env ''ocol0.b = frac(depth * %s);\<newline>'' [ArgStr multiplier],
       WriteSampleColor env ''b'' ''depth'' 1,
       WRITE env ''ocol0.g = frac(depth * %s);\<newline>'' [ArgStr multiplier],
       WriteSampleColor env ''b'' ''depth'' 2,
       WRITE env ''ocol0.r = frac(depth * %s);\<newline>'' [ArgStr multiplier],
       WriteSampleColor env ''b'' ''depth'' 3,
       WRITE env ''ocol0.a = frac(depth * %s);\<newline>'' [ArgStr multiplier],
       WriteEncoderEnd env]"

definition WriteZ16Encoder :: "enc_env \<Rightarrow> gen_state \<Rightarrow> gen_state" where
  "WriteZ16Encoder env =
     block
      [WriteSwizzler env GX_TF_Z16,
       WRITE env ''  float depth;\<newline>'' [],
       WRITE env ''  float3 expanded;\<newline>'' [],
       WriteSampleColor env ''b'' ''depth'' 0,
       WRITE env ''  depth *= 16777215.0;\<newline>'' [],
       WRITE env ''  expanded.r = floor(depth / (256.0 * 256.0));\<newline>'' [],
       WRITE env ''  depth -= expanded.r * 256.0 * 256.0;\<newline>'' [],
       WRITE env ''  expanded.g = floor(depth / 256.0);\<newline>'' [],
       WRITE env ''  ocol0.b = expanded.g / 255.0;\<newline>'' [],
       WRITE env ''  ocol0.g = expanded.r / 255.0;\<newline>'' [],
       WriteSampleColor env ''b'' ''depth'' 1,
       WRITE env ''  depth *= 16777215.0;\<newline>'' [],
       WRITE env ''  expanded.r = floor(depth / (256.0 * 256.0));\<newline>'' [],
       WRITE env ''  depth -= expanded.r * 256.0 * 256.0;\<newline>'' [],
       WRITE env ''  expanded.g = floor(depth / 256.0);\<newline>'' [],
       WRITE env ''  ocol0.r = expanded.g / 255.0;\<newline>'' [],
       WRITE env ''  ocol0.a = expanded.r / 255.0;\<newline>'' [],
       WriteEncoderEnd env]"

definition WriteZ16LEncoder :: "enc_env \<Rightarrow> gen_state \<Rightarrow> gen_state" where
  "WriteZ16LEncoder env =
     block
      [WriteSwizzler env GX_CTF_Z16L,
       WRITE env ''  float depth;\<newline>'' [],
       WRITE env ''  float3 expanded;\<newline>'' [],
       WriteSampleColor env ''b'' ''depth'' 0,
       WRITE env ''  depth *= 16777215.0;\<newline>'' [],
       WRITE env ''  expanded.r = floor(depth / (256.0 * 256.0));\<newline>'' [],
       WRITE env ''  depth -= expanded.r * 256.0 * 256.0;\<newline>'' [],
       WRITE env ''  expanded.g = floor(depth / 256.0);\<newline>'' [],
       WRITE env ''  depth -= expanded.g * 256.0;\<newline>'' [],
       WRITE env ''  expanded.b = depth;\<newline>'' [],
       WRITE env ''  ocol0.b = expanded.b / 255.0;\<newline>'' [],
       WRITE env ''  ocol0.g = expanded.g / 255.0;\<newline>'' [],
       WriteSampleColor env ''b'' ''depth'' 1,
       WRITE env ''  depth *= 16777215.0;\<newline>'' [],
       WRITE env ''  expanded.r = floor(depth / (256.0 * 256.0));\<newline>'' [],
       WRITE env ''  depth -= expanded.r * 256.0 * 256.0;\<newline>'' [],
       WRITE env ''  expanded.g = floor(depth / 256.0);\<newline>'' [],
       WRITE env ''  depth -= expanded.g * 256.0;\<newline>'' [],
       WRITE env ''  expanded.b = depth;\<newline>'' [],
       WRITE env ''  ocol0.r = expanded.b / 255.0;\<newline>'' [],
       WRITE env ''  ocol0.a = expanded.g / 255.0;\<newline>'' [],
       WriteEncoderEnd env]"

definition WriteZ24Encoder :: "enc_env \<Rightarrow> gen_state \<Rightarrow> gen_state" where
  "WriteZ24Encoder env =
     block
      ([WriteSwizzler env GX_TF_Z24X8,
        WRITE env ''  float depth0;\<newline>'' [],
        WRITE env ''  float depth1;\<newline>'' [],
        WRITE env ''  float3 expanded0;\<newline>'' [],
        WRITE env ''  float3 expanded1;\<newline>'' [],
        WriteSampleColor env ''b'' ''depth0'' 0,
        WriteSampleColor env ''b'' ''depth1'' 1]
       @ concat (map (\<lambda>i.
           [WRITE env ''  depth%i *= 16777215.0;\<newline>'' [ArgInt i],
            WRITE env ''  expanded%i.r = floor(depth%i / (256.0 * 256.0));\<newline>''
              [ArgInt i, ArgInt i],
            WRITE env ''  depth%i -= expanded%i.r * 256.0 * 256.0;\<newline>'' [ArgInt i, ArgInt i],
            WRITE env ''  expanded%i.g = floor(depth%i / 256.0);\<newline>'' [ArgInt i, ArgInt i],
            WRITE env ''  depth%i -= expanded%i.g * 256.0;\<newline>'' [ArgInt i, ArgInt i],
            WRITE env ''  expanded%i.b = depth%i;\<newline>'' [ArgInt i, ArgInt i]]) [0, 1])
       @ [WRITE env ''  if (!first) {\<newline>'' [],
          WRITE env ''     ocol0.b = expanded0.g / 255.0;\<newline>'' [],
          WRITE env ''     ocol0.g = expanded0.b / 255.0;\<newline>'' [],
          WRITE env ''     ocol0.r = expanded1.g / 255.0;\<newline>'' [],
          WRITE env ''     ocol0.a = expanded1.b / 255.0;\<newline>'' [],
          WRITE env ''  } else {\<newline>'' [],
          WRITE env ''     ocol0.b = 1.0;\<newline>'' [],
          WRITE env ''     ocol0.g = expanded0.r / 255.0;\<newline>'' [],
          WRITE env ''     ocol0.r = 1.0;\<newline>'' [],
          WRITE env ''     ocol0.a = expanded1.r / 255.0;\<newline>'' [],
          WRITE env ''  }\<newline>'' [],
          WriteEncoderEnd env])"

text \<open>
  \<^verbatim>\<open>GenerateEncodingShader\<close>: the canary is stored in the last element of the array,
  \<^verbatim>\<open>p\<close> starts at the array, the switch runs one encoder (or raises the alert of the
  default branch), and the canary is tested. The function returns the array, which is
  part of the resulting state. The numeric locale it sets and restores has no effect
  on the conversions used.
\<close>

definition GenerateEncodingShader :: "enc_env \<Rightarrow> TextureFormat \<Rightarrow> gen_state \<Rightarrow> gen_state" where
  "GenerateEncodingShader env format st =
     (let st1 = st\<lparr>text_buffer := (text_buffer st)[length (text_buffer st) - 1 := CHR 0x7C],
                   p := 0\<rparr>;
          st2 =
            (case format of
               GX_TF_I4 \<Rightarrow> WriteI4Encoder env st1
             | GX_TF_I8 \<Rightarrow> WriteI8Encoder env st1
             | GX_TF_IA4 \<Rightarrow> WriteIA4Encoder env st1
             | GX_TF_IA8 \<Rightarrow> WriteIA8Encoder env st1
             | GX_TF_RGB565 \<Rightarrow> WriteRGB565Encoder env st1
             | GX_TF_RGB5A3 \<Rightarrow> WriteRGB5A3Encoder env st1
             | GX_TF_RGBA8 \<Rightarrow> WriteRGBA8Encoder env st1
             | GX_CTF_R4 \<Rightarrow> WriteC4Encoder env ''r'' st1
             | GX_CTF_RA4 \<Rightarrow> WriteCC4Encoder env ''ar'' st1
             | GX_CTF_RA8 \<Rightarrow> WriteCC8Encoder env ''ar'' st1
             | GX_CTF_A8 \<Rightarrow> WriteC8Encoder env ''a'' st1
             | GX_CTF_R8 \<Rightarrow> WriteC8Encoder env ''r'' st1
             | GX_CTF_G8 \<Rightarrow> WriteC8Encoder env ''g'' st1
             | GX_CTF_B8 \<Rightarrow> WriteC8Encoder env ''b'' st1
             | GX_CTF_RG8 \<Rightarrow> WriteCC8Encoder env ''rg'' st1
             | GX_CTF_GB8 \<Rightarrow> WriteCC8Encoder env ''gb'' st1
             | GX_TF_Z8 \<Rightarrow> WriteC8Encoder env ''b'' st1
             | GX_TF_Z16 \<Rightarrow> WriteZ16Encoder env st1
             | GX_TF_Z24X8 \<Rightarrow> WriteZ24Encoder env st1
             | GX_CTF_Z4 \<Rightarrow> WriteC4Encoder env ''b'' st1
             | GX_CTF_Z8M \<Rightarrow> WriteZ8Encoder env ''256.0'' st1
             | GX_CTF_Z8L \<Rightarrow> WriteZ8Encoder env ''65536.0'' st1
             | GX_CTF_Z16L \<Rightarrow> WriteZ16LEncoder env st1
             | Unknown_Format v \<Rightarrow> st1\<lparr>alerts := alerts st1 @ [Unknown_Format_Alert v]\<rparr>)
      in if text_buffer st2 ! (length (text_buffer st2) - 1) \<noteq> CHR 0x7C
         then st2\<lparr>alerts := alerts st2 @ [Canary_Alert]\<rparr>
         else st2)"

text \<open>
  The state at program start: static storage is zero-initialised and the flag is
  initialised to \<^verbatim>\<open>false\<close>.
\<close>

definition initial_gen_state :: gen_state where
  "initial_gen_state =
     \<lparr>text_buffer = replicate 16384 (CHR 0x00), p = 0, IntensityConstantAdded = False,
      overrun = False, alerts = []\<rparr>"

subsection \<open>What a generation call leaves in the array\<close>

text \<open>
  The text a call returns is the C string in the array; its lines are the pieces between
  line feeds. \<open>decl_line\<close> is the declaration that \<^verbatim>\<open>WriteColorToIntensity\<close> emits once.
  \<open>handled_formats\<close> lists the case labels of the switch in their order, and
  \<open>generate_all\<close> is a sequence of calls.
\<close>

fun lines_from :: "string \<Rightarrow> string \<Rightarrow> string list" where
  "lines_from cur [] = (if cur = [] then [] else [cur])"
| "lines_from cur (c # cs) =
     (if c = CHR ''\<newline>'' then cur # lines_from [] cs else lines_from (cur @ [c]) cs)"

definition text_lines :: "string \<Rightarrow> string list" where
  "text_lines t = lines_from [] t"

definition decl_line :: string where
  "decl_line = ''  float4 IntensityConst = float4(0.257f,0.504f,0.098f,0.0625f);''"

definition handled_formats :: "TextureFormat list" where
  "handled_formats =
     [GX_TF_I4, GX_TF_I8, GX_TF_IA4, GX_TF_IA8, GX_TF_RGB565, GX_TF_RGB5A3, GX_TF_RGBA8,
      GX_CTF_R4, GX_CTF_RA4, GX_CTF_RA8, GX_CTF_A8, GX_CTF_R8, GX_CTF_G8, GX_CTF_B8,
      GX_CTF_RG8, GX_CTF_GB8, GX_TF_Z8, GX_TF_Z16, GX_TF_Z24X8, GX_CTF_Z4, GX_CTF_Z8M,
      GX_CTF_Z8L, GX_CTF_Z16L]"

fun generate_all :: "enc_env \<Rightarrow> TextureFormat list \<Rightarrow> gen_state \<Rightarrow> gen_state" where
  "generate_all env [] st = st"
| "generate_all env (format # formats) st =
     generate_all env formats (GenerateEncodingShader env format st)"

text \<open>An environment for the examples: 8 by 4 blocks and four samples for every format.\<close>

definition example_enc_env :: enc_env where
  "example_enc_env =
     \<lparr>TexDecoder_GetBlockWidthInTexels = (\<lambda>f. 8),
      TexDecoder_GetBlockHeightInTexels = (\<lambda>f. 4),
      GetEncodedSampleCount = (\<lambda>f. 4),
      IntLog2 = (\<lambda>v. if v = 8 then 3 else 2),
      EFB_WIDTH = 640, EFB_HEIGHT = 528, enc_stray = 0\<rparr>"

subsection \<open>Auxiliary notions of the encoder proofs\<close>

text \<open>
  \<open>emit\<close> is one \<^verbatim>\<open>sprintf\<close> of a text that is already formatted, \<open>emit_all\<close> a
  sequence of them. \<open>emits env f b ws b'\<close> says that the statement \<open>f\<close>, run with the
  flag equal to \<open>b\<close>, makes the \<^verbatim>\<open>WRITE\<close> calls \<open>ws\<close> (format and arguments) in this
  order and leaves the flag equal to \<open>b'\<close>.
\<close>

definition emit :: "string \<Rightarrow> gen_state \<Rightarrow> gen_state" where
  "emit s st =
     st\<lparr>text_buffer := poke (text_buffer st) (p st) (s @ [CHR 0x00]),
        overrun := overrun st \<or> length (text_buffer st) < p st + length s + 1,
        p := p st + length s\<rparr>"

fun emit_all :: "string list \<Rightarrow> gen_state \<Rightarrow> gen_state" where
  "emit_all [] st = st"
| "emit_all (c # cs) st = emit_all cs (emit c st)"

definition fmt_texts :: "enc_env \<Rightarrow> (string \<times> fmt_arg list) list \<Rightarrow> string list" where
  "fmt_texts env ws = map (\<lambda>(f, a). vformat (enc_stray env) f a) ws"

definition emits ::
  "enc_env \<Rightarrow> (gen_state \<Rightarrow> gen_state) \<Rightarrow> bool \<Rightarrow> (string \<times> fmt_arg list) list \<Rightarrow> bool \<Rightarrow> bool" where
  "emits env f b ws b' =
     (\<forall>st. IntensityConstantAdded st = b \<longrightarrow>
        f st = (emit_all (fmt_texts env ws) st)\<lparr>IntensityConstantAdded := b'\<rparr>)"

text \<open>
  An upper bound of the length of a formatted text (11 characters for a 32-bit
  \<^verbatim>\<open>int\<close>), the absence of NUL in a format and its string arguments, and their sums
  over a list of calls. \<open>starts_literal\<close>: the first format starts with an ordinary
  character. \<open>lines_ok\<close>: every call writes whole lines. \<open>decl_count\<close>: the number
  of lines equal to the declaration over all calls.
\<close>

fun fmt_bound :: "string \<Rightarrow> fmt_arg list \<Rightarrow> nat" where
  "fmt_bound [] args = 0"
| "fmt_bound [c] args = 1"
| "fmt_bound (c # d # cs) args =
     (if c = CHR ''%'' then
        (if d = CHR ''d'' \<or> d = CHR ''i'' then 11 + fmt_bound cs (tl args)
         else if d = CHR ''s'' then
           (case args of
              ArgStr s # rest \<Rightarrow> length s + fmt_bound cs rest
            | _ \<Rightarrow> fmt_bound cs (tl args))
         else if d = CHR ''%'' then 1 + fmt_bound cs args
         else 1 + fmt_bound (d # cs) args)
      else 1 + fmt_bound (d # cs) args)"

fun fmt_ok :: "string \<Rightarrow> fmt_arg list \<Rightarrow> bool" where
  "fmt_ok f args =
     (CHR 0x00 \<notin> set f \<and> list_all (\<lambda>a. case a of ArgStr s \<Rightarrow> CHR 0x00 \<notin> set s | _ \<Rightarrow> True) args)"

definition writes_bound :: "(string \<times> fmt_arg list) list \<Rightarrow> nat" where
  "writes_bound ws = sum_list (map (\<lambda>(f, a). fmt_bound f a) ws)"

definition writes_ok :: "(string \<times> fmt_arg list) list \<Rightarrow> bool" where
  "writes_ok ws = list_all (\<lambda>(f, a). fmt_ok f a) ws"

fun starts_literal :: "(string \<times> fmt_arg list) list \<Rightarrow> bool" where
  "starts_literal [] = False"
| "starts_literal ((f, a) # ws) = (case f of [] \<Rightarrow> False | c # cs \<Rightarrow> c \<noteq> CHR ''%'')"

definition lines_ok :: "enc_env \<Rightarrow> (string \<times> fmt_arg list) list \<Rightarrow> bool" where
  "lines_ok env ws = list_all (\<lambda>c. c \<noteq> [] \<and> last c = CHR ''\<newline>'') (fmt_texts env ws)"

definition decl_count :: "enc_env \<Rightarrow> (string \<times> fmt_arg list) list \<Rightarrow> nat" where
  "decl_count env ws = sum_list (map (\<lambda>c. count_list (text_lines c) decl_line) (fmt_texts env ws))"

text \<open>
  \<open>run_encoder\<close> is \<^verbatim>\<open>GenerateEncodingShader\<close> around one encoder; \<open>generated\<close>
  collects what holds of the state \<open>st'\<close> after a call from \<open>st\<close> that made the calls
  \<open>ws\<close>; \<open>gen_inv\<close> is the invariant of the state between calls.
\<close>

definition run_encoder :: "(gen_state \<Rightarrow> gen_state) \<Rightarrow> gen_state \<Rightarrow> gen_state" where
  "run_encoder enc st =
     (let st1 = st\<lparr>text_buffer := (text_buffer st)[length (text_buffer st) - 1 := CHR 0x7C],
                   p := 0\<rparr>;
          st2 = enc st1
      in if text_buffer st2 ! (length (text_buffer st2) - 1) \<noteq> CHR 0x7C
         then st2\<lparr>alerts := alerts st2 @ [Canary_Alert]\<rparr>
         else st2)"

definition generated ::
  "enc_env \<Rightarrow> gen_state \<Rightarrow> gen_state \<Rightarrow> (string \<times> fmt_arg list) list \<Rightarrow> bool" where
  "generated env st st' ws =
     (c_str (text_buffer st') = concat (fmt_texts env ws)
      \<and> length (concat (fmt_texts env ws)) \<le> 16382
      \<and> length (text_buffer st') = 16384
      \<and> text_buffer st' ! 16383 = CHR 0x7C
      \<and> text_buffer st' ! length (concat (fmt_texts env ws)) = CHR 0x00
      \<and> overrun st' = overrun st
      \<and> alerts st' = alerts st
      \<and> \<not> IntensityConstantAdded st')"

definition gen_inv :: "gen_state \<Rightarrow> bool" where
  "gen_inv st = (length (text_buffer st) = 16384 \<and> \<not> IntensityConstantAdded st)"

section \<open>Properties\<close>

section \<open>Constant-buffer packing\<close>

lemma round16_nat: "((n::nat) + 15) div 16 * 16 - n = (16 - n mod 16) mod 16"
proof -
  obtain q r where n: "n = 16 * q + r" and r: "r < 16"
    by (metis mod_less_divisor mult_div_mod_eq zero_less_numeral)
  show ?thesis
  proof (cases "r = 0")
    case True then show ?thesis using n by simp
  next
    case False
    then have "(n + 15) div 16 = q + 1" using n r False by arith
    then show ?thesis using n r False by simp
  qed
qed

lemma unat_and_not_15: "unat ((y::u32) AND NOT 15) = (unat y div 16) * 16"
proof -
  have m: "(15::u32) = mask 4" by (simp add: mask_eq_exp_minus_1)
  have "y AND NOT 15 = push_bit 4 (drop_bit 4 y)"
    unfolding m by (auto simp add: bit_eq_iff bit_simps) 
  then have "unat (y AND NOT 15) = unat (push_bit 4 (drop_bit 4 y))" by simp
  also have "\<dots> = take_bit 32 (push_bit 4 (drop_bit 4 (unat y)))"
    by (simp add: unsigned_push_bit_eq unat_drop_bit_eq)
  also have "\<dots> = (unat y div 16) * 16"
  proof -
    have "unat y div 16 * 16 \<le> unat y" by simp
    moreover have "unat y < 2 ^ 32" using unsigned_less[of y] by simp
    ultimately have "unat y div 16 * 16 < 2 ^ 32" by linarith
    then show ?thesis
      by (simp add: push_bit_eq_mult drop_bit_eq_div take_bit_nat_eq_self_iff)
  qed
  finally show ?thesis .
qed


lemma unat_remaining:
  fixes b :: u32
  assumes "unat b + 15 < 2 ^ 32"
  shows "unat (((b + 15) AND NOT 15) - b) = gap16 (unat b)"
proof -
  have ub: "unat (b + 15) = unat b + 15"
    using assms by (simp add: unat_word_ariths)
  have r: "unat ((b + 15) AND NOT 15) = (unat b + 15) div 16 * 16"
    by (simp only: unat_and_not_15 ub)
  have "unat b \<le> (unat b + 15) div 16 * 16" by arith
  then have le: "b \<le> (b + 15) AND NOT 15"
    unfolding word_le_nat_alt r .
  have "unat (((b + 15) AND NOT 15) - b) = unat ((b + 15) AND NOT 15) - unat b"
    using le by (rule unat_sub)
  also have "\<dots> = (unat b + 15) div 16 * 16 - unat b"
    by (simp only: r)
  also have "\<dots> = gap16 (unat b)" unfolding gap16_def by (rule round16_nat)
  finally show ?thesis .
qed

lemma gap16_less: "gap16 n < 16" by (simp add: gap16_def)

lemma LoadShaderOptions_loop_layout:
  "snd (LoadShaderOptions_loop stray opts h b pl) = (final_size b opts, pl @ layout b opts)"
proof (induction opts arbitrary: h b pl)
  case Nil
  then show ?case by simp
next
  case (Cons it its)
  show ?case
    by (cases "m_type (snd it)")
       (simp_all add: Let_def Cons.IH option_size_def pad_for_def split: prod.splits)
qed

lemma upload_options_loop_size:
  "fst (upload_options_loop opts b d st dn) = final_size b opts"
proof (induction opts arbitrary: b d st dn)
  case Nil
  then show ?case by simp
next
  case (Cons it its)
  show ?case
    by (cases "m_type (snd it)")
       (simp_all add: Let_def Cons.IH option_size_def pad_for_def mult.commute split: prod.splits)
qed

lemma unat_add_no_wrap:
  fixes x y :: u32
  assumes "unat x + unat y < 2 ^ 32"
  shows "unat (x + y) = unat x + unat y"
  using assms by (simp add: unat_word_ariths)

lemma unat_pad_for:
  assumes "unat b + 15 < 2 ^ 32"
  shows "unat (pad_for b n) = (if gap16 (unat b) < unat n then unat b + gap16 (unat b) else unat b)"
proof -
  have r: "unat (((b + 15) AND NOT 15) - b) = gap16 (unat b)"
    using assms by (rule unat_remaining)
  have "unat (b + (((b + 15) AND NOT 15) - b)) = unat b + gap16 (unat b)"
  proof -
    have "unat b + unat (((b + 15) AND NOT 15) - b) < 2 ^ 32"
      using assms gap16_less[of "unat b"] unfolding r by linarith
    then have "unat (b + (((b + 15) AND NOT 15) - b)) = unat b + unat (((b + 15) AND NOT 15) - b)"
      by (rule unat_add_no_wrap)
    then show ?thesis by (simp only: r)
  qed
  moreover have "(((b + 15) AND NOT 15) - b < n) = (gap16 (unat b) < unat n)"
    unfolding word_less_nat_alt r ..
  ultimately show ?thesis unfolding pad_for_def by simp
qed

lemma pad_noncross:
  fixes off n :: nat
  assumes "0 < n" "n \<le> 16"
  shows "(if gap16 off < n then off + gap16 off else off) div 16
         = ((if gap16 off < n then off + gap16 off else off) + n - 1) div 16"
proof -
  obtain q r where o: "off = 16 * q + r" and r: "r < 16"
    by (metis mod_less_divisor mult_div_mod_eq zero_less_numeral)
  have g: "gap16 off = (if r = 0 then 0 else 16 - r)"
    using o r by (simp add: gap16_def)
  show ?thesis
  proof (cases "gap16 off < n")
    case True
    have "off + gap16 off = 16 * (if r = 0 then q else q + 1)"
      using o r g by auto
    then obtain k where k: "off + gap16 off = 16 * k" by blast
    have "(16 * k + n - 1) div 16 = k" using assms by arith
    then show ?thesis using True k by simp
  next
    case False
    then have "r \<noteq> 0" using g assms by (cases "r = 0") auto
    then have "r + n \<le> 16" using False g r by auto
    then have "(16 * q + r + n - 1) div 16 = q" using assms by arith
    moreover have "(16 * q + r) div 16 = q" using r by arith
    ultimately show ?thesis using False o by simp
  qed
qed

lemma small_option_size:
  assumes "length (m_integer_values opt) \<le> 4" "length (m_float_values opt) \<le> 4"
  shows "unat (option_size opt) \<le> 16"
proof -
  have w: "\<And>k. k \<le> 4 \<Longrightarrow> unat (4 * (word_of_nat k :: u32)) = 4 * k"
    by (simp add: unat_word_ariths unat_of_nat)
  show ?thesis
    using assms by (cases "m_type opt") (simp_all add: option_size_def w)
qed

lemma layout_step_bounds:
  fixes b n :: u32
  assumes "unat n \<le> 16" "unat b + 32 \<le> 2 ^ 32"
  shows "unat (pad_for b n + n) = unat (pad_for b n) + unat n"
    and "unat (pad_for b n + n) \<le> unat b + 31"
proof -
  have p: "unat (pad_for b n) \<le> unat b + 15"
    using assms gap16_less[of "unat b"] by (simp add: unat_pad_for)
  then show "unat (pad_for b n + n) = unat (pad_for b n) + unat n"
    using assms by (intro unat_add_no_wrap) linarith
  then show "unat (pad_for b n + n) \<le> unat b + 31"
    using p assms by linarith
qed

lemma layout_offsets:
  assumes "\<forall>it\<in>set opts. unat (option_size (snd it)) \<le> 16"
      and "unat b + 32 * length opts < 2 ^ 32"
  shows "map (\<lambda>(n, off, sz). unat off) (layout b opts)
         = pack_spec (unat b) (map (\<lambda>(n, off, sz). unat sz) (layout b opts))"
  using assms
proof (induction opts arbitrary: b)
  case Nil
  then show ?case by simp
next
  case (Cons it its)
  let ?n = "option_size (snd it)"
  have n: "unat ?n \<le> 16" using Cons.prems(1) by simp
  have b: "unat b + 32 \<le> 2 ^ 32" using Cons.prems(2) by simp
  have s1: "unat (pad_for b ?n + ?n) = unat (pad_for b ?n) + unat ?n"
    and s2: "unat (pad_for b ?n + ?n) \<le> unat b + 31"
    using layout_step_bounds[OF n b] by auto
  have "unat (pad_for b ?n + ?n) + 32 * length its < 2 ^ 32"
    using s2 Cons.prems(2) by simp
  then have IH: "map (\<lambda>(n, off, sz). unat off) (layout (pad_for b ?n + ?n) its)
         = pack_spec (unat (pad_for b ?n + ?n))
             (map (\<lambda>(n, off, sz). unat sz) (layout (pad_for b ?n + ?n) its))"
    using Cons.IH Cons.prems(1) by simp
  have p: "unat (pad_for b ?n)
           = (if gap16 (unat b) < unat ?n then unat b + gap16 (unat b) else unat b)"
    using b by (intro unat_pad_for) simp
  show ?case
    by (simp add: IH Let_def s1 flip: p)
qed

lemma layout_noncross:
  assumes "\<forall>it\<in>set opts. unat (option_size (snd it)) \<le> 16"
      and "unat b + 32 * length opts < 2 ^ 32"
  shows "\<forall>(n, off, sz) \<in> set (layout b opts).
           0 < sz \<longrightarrow> unat off div 16 = (unat off + unat sz - 1) div 16"
  using assms
proof (induction opts arbitrary: b)
  case Nil
  then show ?case by simp
next
  case (Cons it its)
  let ?n = "option_size (snd it)"
  have n: "unat ?n \<le> 16" using Cons.prems(1) by simp
  have b: "unat b + 32 \<le> 2 ^ 32" using Cons.prems(2) by simp
  have s2: "unat (pad_for b ?n + ?n) \<le> unat b + 31"
    using layout_step_bounds[OF n b] by auto
  have "unat (pad_for b ?n + ?n) + 32 * length its < 2 ^ 32"
    using s2 Cons.prems(2) by simp
  then have IH: "\<forall>(n, off, sz) \<in> set (layout (pad_for b ?n + ?n) its).
           0 < sz \<longrightarrow> unat off div 16 = (unat off + unat sz - 1) div 16"
    using Cons.IH Cons.prems(1) by simp
  have p: "unat (pad_for b ?n)
           = (if gap16 (unat b) < unat ?n then unat b + gap16 (unat b) else unat b)"
    using b by (intro unat_pad_for) simp
  have here: "0 < ?n \<longrightarrow> unat (pad_for b ?n) div 16 = (unat (pad_for b ?n) + unat ?n - 1) div 16"
  proof
    assume "0 < ?n"
    then have "0 < unat ?n" by (simp add: word_less_nat_alt)
    then show "unat (pad_for b ?n) div 16 = (unat (pad_for b ?n) + unat ?n - 1) div 16"
      unfolding p using n by (rule pad_noncross)
  qed
  show ?case using here IH by simp
qed

lemma layout_names: "map fst (layout b opts) = map fst opts"
  by (induction opts arbitrary: b) simp_all


text \<open>
  Claim C2, as the code has it. For options of at most four components (so of at most
  16 bytes) the declaration loop of \<^verbatim>\<open>LoadShaderOptions\<close> and the upload loop of
  \<^verbatim>\<open>BlitFromTexture\<close> reach the same running offset; the declaration loop keeps the
  order of the map; the offsets it assigns are those of the spec's packing rule, which
  advances to the next 16-byte boundary exactly when the entry is larger than the gap;
  and no entry of non-zero size crosses a 16-byte boundary.
\<close>

theorem options_packing:
  fixes opts :: "(string \<times> 'f ConfigurationOption) list"
  assumes small: "\<forall>it\<in>set opts. length (m_integer_values (snd it)) \<le> 4
                        \<and> length (m_float_values (snd it)) \<le> 4"
      and count: "length opts < 2 ^ 26"
  shows "fst (upload_options_loop opts 0 0 [] [])
           = fst (snd (LoadShaderOptions_loop stray opts hlsl 0 []))
         \<and> map fst (snd (snd (LoadShaderOptions_loop stray opts hlsl 0 []))) = map fst opts
         \<and> map (\<lambda>(n, off, sz). unat off) (snd (snd (LoadShaderOptions_loop stray opts hlsl 0 [])))
             = pack_spec 0
                 (map (\<lambda>(n, off, sz). unat sz) (snd (snd (LoadShaderOptions_loop stray opts hlsl 0 []))))
         \<and> (\<forall>(n, off, sz) \<in> set (snd (snd (LoadShaderOptions_loop stray opts hlsl 0 []))).
               0 < sz \<longrightarrow> unat off div 16 = (unat off + unat sz - 1) div 16)"
proof -
  have s: "\<forall>it\<in>set opts. unat (option_size (snd it)) \<le> 16"
    using small by (auto intro: small_option_size)
  have b: "unat (0::u32) + 32 * length opts < 2 ^ 32"
    using count by simp
  have p: "snd (snd (LoadShaderOptions_loop stray opts hlsl 0 [])) = layout 0 opts"
    and f: "fst (snd (LoadShaderOptions_loop stray opts hlsl 0 [])) = final_size 0 opts"
    using LoadShaderOptions_loop_layout[of stray opts hlsl 0 "[]"] by simp_all
  show ?thesis
    unfolding p f
    using layout_offsets[OF s b] layout_noncross[OF s b]
    by (simp add: upload_options_loop_size layout_names)
qed

text \<open>
  The theorem at the option set of the spec in the order of the names (\<open>a\<close>, \<open>a2\<close>,
  \<open>b\<close>): the 12-byte vector would start at offset 8 and is placed at offset 16.
\<close>

theorem options_packing_witness:
  "fst (upload_options_loop [(''a'', example_bool), (''a2'', example_int), (''b'', example_float3)]
          0 0 [] []) = 28
   \<and> snd (snd (LoadShaderOptions_loop 0
          [(''a'', example_bool), (''a2'', example_int), (''b'', example_float3)] [] 0 []))
       = [(''a'', 0, 4), (''a2'', 4, 4), (''b'', 16, 12)]"
proof -
  let ?opts = "[(''a'', example_bool), (''a2'', example_int), (''b'', example_float3)]"
  have small: "\<forall>it\<in>set ?opts. length (m_integer_values (snd it)) \<le> 4
                        \<and> length (m_float_values (snd it)) \<le> 4"
    by (simp add: example_bool_def example_int_def example_float3_def)
  have count: "length ?opts < 2 ^ 26" by simp
  have layout: "snd (snd (LoadShaderOptions_loop 0 ?opts [] 0 []))
       = [(''a'', 0, 4), (''a2'', 4, 4), (''b'', 16, 12)]"
    by (simp add: example_bool_def example_int_def example_float3_def Let_def)
  have total: "fst (snd (LoadShaderOptions_loop 0 ?opts [] 0 [])) = 28"
    by (simp add: example_bool_def example_int_def example_float3_def Let_def)
  show ?thesis
    using options_packing[OF small count, of 0 "[]"] layout total by simp
qed

text \<open>
  The example of claim C2 as it is stated: with the vector directly after the boolean
  it would start at offset 4, the gap to the boundary is 12 bytes, the vector fits and
  stays at offset 4.
\<close>

theorem vector_at_offset_4_counterexample:
  "snd (snd (LoadShaderOptions_loop 0
          [(''a'', example_bool), (''b'', example_float3), (''a2'', example_int)] [] 0 []))
       = [(''a'', 0, 4), (''b'', 4, 12), (''a2'', 16, 4)]"
  by (simp add: example_bool_def example_int_def example_float3_def Let_def)

text \<open>
  Where the upload loop stores: each value goes to the write pointer before the padding
  step, so the vector declared at offset 16 is stored at offset 8.
\<close>

lemma upload_stores_example:
  "fst (snd (upload_options_loop
          [(''a'', example_bool), (''a2'', example_int), (''b'', example_float3)] 0 0 [] []))
       = [(''a'', 0, [IntCell 1]), (''a2'', 4, [IntCell 7]),
          (''b'', 8, [FloatCell 1, FloatCell 2, FloatCell 3])]"
  by (simp add: example_bool_def example_int_def example_float3_def Let_def)

section \<open>The multisampled header\<close>

lemma vformat_plain:
  "CHR ''%'' \<notin> set a \<Longrightarrow> vformat stray (a @ b) args = a @ vformat stray b args"
proof (induction a)
  case Nil
  then show ?case by simp
next
  case (Cons c a)
  then have c: "c \<noteq> CHR ''%''" and IH: "vformat stray (a @ b) args = a @ vformat stray b args"
    by auto
  show ?case
  proof (cases "a @ b")
    case Nil
    then show ?thesis by simp
  next
    case (Cons d ds)
    then have "vformat stray ((c # a) @ b) args = c # vformat stray (a @ b) args"
      using c by simp
    then show ?thesis using IH by simp
  qed
qed

lemma c_str_id: "CHR 0x00 \<notin> set s \<Longrightarrow> c_str s = s"
  by (auto simp: c_str_def takeWhile_eq_all_conv)

lemma msaa_split:
  "s_hlsl_header_MSAA = take 277 s_hlsl_header_MSAA @ ''%d''
     @ take 1340 (drop 279 s_hlsl_header_MSAA) @ ''%d''
     @ drop 1621 s_hlsl_header_MSAA"
  by (simp add: s_hlsl_header_MSAA_def)

lemma msaa_no_nul: "CHR 0x00 \<notin> set s_hlsl_header_MSAA"
  by (simp add: s_hlsl_header_MSAA_def)

lemma msaa_plain1: "CHR ''%'' \<notin> set (take 277 s_hlsl_header_MSAA)"
  by (simp add: s_hlsl_header_MSAA_def)

lemma msaa_plain2: "CHR ''%'' \<notin> set (take 1340 (drop 279 s_hlsl_header_MSAA))"
  by (simp add: s_hlsl_header_MSAA_def)

lemma msaa_plain3: "CHR ''%'' \<notin> set (drop 1621 s_hlsl_header_MSAA)"
  by (simp add: s_hlsl_header_MSAA_def)

lemma vformat_d_arg:
  "vformat stray (''%d'' @ rest) (ArgInt n # args) = dec_int (sint n) @ vformat stray rest args"
  by simp

lemma vformat_d_stray:
  "vformat stray (''%d'' @ rest) [] = dec_int (sint stray) @ vformat stray rest []"
  by simp

text \<open>
  Claim C9, at the call of line 712. The header has two \<^verbatim>\<open>%d\<close> conversions and the
  call passes one argument: the first conversion (the sample count of
  \<^verbatim>\<open>Texture2DMSArray\<close>) prints the sample count \<open>s\<close>, the second (the constant
  \<^verbatim>\<open>samples\<close>) prints the indeterminate value \<open>stray\<close>, whatever \<open>s\<close> is.
\<close>

theorem msaa_header_second_placeholder:
  "StringFromFormat stray (c_str s_hlsl_header_MSAA) [ArgInt s]
   = take 277 s_hlsl_header_MSAA @ dec_int (sint s)
     @ take 1340 (drop 279 s_hlsl_header_MSAA) @ dec_int (sint stray)
     @ drop 1621 s_hlsl_header_MSAA"
proof -
  let ?H = "s_hlsl_header_MSAA"
  have "vformat stray ?H [ArgInt s]
        = vformat stray (take 277 ?H @ ''%d'' @ take 1340 (drop 279 ?H) @ ''%d'' @ drop 1621 ?H)
            [ArgInt s]"
    using msaa_split by simp
  also have "\<dots> = take 277 ?H @ dec_int (sint s)
     @ take 1340 (drop 279 ?H) @ dec_int (sint stray)
     @ vformat stray (drop 1621 ?H @ []) []"
    by (simp only: vformat_plain[OF msaa_plain1] vformat_plain[OF msaa_plain2]
          vformat_d_arg vformat_d_stray append_Nil2)
  also have "vformat stray (drop 1621 ?H @ []) [] = drop 1621 ?H"
    using vformat_plain[OF msaa_plain3, of stray "[]" "[]"] by simp
  finally show ?thesis
    by (simp only: StringFromFormat_def c_str_id[OF msaa_no_nul])
qed

text \<open>The text in front of the two conversions.\<close>

lemma msaa_header_first_context:
  "drop 252 (take 277 s_hlsl_header_MSAA) = ''Texture2DMSArray<float4, ''"
  by (simp add: s_hlsl_header_MSAA_def)

lemma msaa_header_second_context:
  "take 21 (drop 1598 s_hlsl_header_MSAA) = CHR 0x09 # ''const int samples = ''"
  by (simp add: s_hlsl_header_MSAA_def)

section \<open>The post-processing engine: fallback, images, geometry and parameters\<close>

subsection \<open>What each step of the engine leaves unchanged\<close>

lemma compile_stages_frame:
  "length (m_pshader (compile_stages env code i stages eng)) = length (m_pshader eng)
   \<and> m_stageOutput (compile_stages env code i stages eng) = m_stageOutput eng
   \<and> m_prev_dst_width (compile_stages env code i stages eng) = m_prev_dst_width eng
   \<and> m_prev_dst_height (compile_stages env code i stages eng) = m_prev_dst_height eng
   \<and> m_prev_src_width (compile_stages env code i stages eng) = m_prev_src_width eng
   \<and> m_prev_src_height (compile_stages env code i stages eng) = m_prev_src_height eng
   \<and> m_prev_samples (compile_stages env code i stages eng) = m_prev_samples eng
   \<and> m_options (compile_stages env code i stages eng) = m_options eng
   \<and> m_config (compile_stages env code i stages eng) = m_config eng
   \<and> m_vertex_buffer_observer (compile_stages env code i stages eng) = m_vertex_buffer_observer eng
   \<and> m_vertex_buffer_offset (compile_stages env code i stages eng) = m_vertex_buffer_offset eng
   \<and> pu0 (compile_stages env code i stages eng) = pu0 eng
   \<and> pu1 (compile_stages env code i stages eng) = pu1 eng
   \<and> pv0 (compile_stages env code i stages eng) = pv0 eng
   \<and> pv1 (compile_stages env code i stages eng) = pv1 eng
   \<and> g_Config_sPostProcessingShader (compile_stages env code i stages eng) = g_Config_sPostProcessingShader eng
   \<and> g_ActiveConfig_sPostProcessingShader (compile_stages env code i stages eng) = g_ActiveConfig_sPostProcessingShader eng
   \<and> AAMode_Count (compile_stages env code i stages eng) = AAMode_Count eng
   \<and> params_buffer (compile_stages env code i stages eng) = params_buffer eng
   \<and> options_buffer (compile_stages env code i stages eng) = options_buffer eng
   \<and> m_vertexbuffer (compile_stages env code i stages eng) = m_vertexbuffer eng
   \<and> textures_created (compile_stages env code i stages eng) = textures_created eng
   \<and> draws (compile_stages env code i stages eng) = draws eng"
  by (induction stages arbitrary: i eng) (simp_all add: Let_def)

lemma InitStages_frame:
  "m_pshader (snd (InitStages code eng))
     = resize (m_pshader eng) (length (GetStages (m_config eng))) None
   \<and> m_initialized (snd (InitStages code eng)) = m_initialized eng
   \<and> m_stageOutput (snd (InitStages code eng)) = m_stageOutput eng
   \<and> m_prev_dst_width (snd (InitStages code eng)) = m_prev_dst_width eng
   \<and> m_prev_dst_height (snd (InitStages code eng)) = m_prev_dst_height eng
   \<and> m_prev_src_width (snd (InitStages code eng)) = m_prev_src_width eng
   \<and> m_prev_src_height (snd (InitStages code eng)) = m_prev_src_height eng
   \<and> m_prev_samples (snd (InitStages code eng)) = m_prev_samples eng
   \<and> m_options (snd (InitStages code eng)) = m_options eng
   \<and> m_config (snd (InitStages code eng)) = m_config eng
   \<and> m_vertex_buffer_observer (snd (InitStages code eng)) = m_vertex_buffer_observer eng
   \<and> m_vertex_buffer_offset (snd (InitStages code eng)) = m_vertex_buffer_offset eng
   \<and> pu0 (snd (InitStages code eng)) = pu0 eng
   \<and> pu1 (snd (InitStages code eng)) = pu1 eng
   \<and> pv0 (snd (InitStages code eng)) = pv0 eng
   \<and> pv1 (snd (InitStages code eng)) = pv1 eng
   \<and> g_Config_sPostProcessingShader (snd (InitStages code eng)) = g_Config_sPostProcessingShader eng
   \<and> g_ActiveConfig_sPostProcessingShader (snd (InitStages code eng)) = g_ActiveConfig_sPostProcessingShader eng
   \<and> AAMode_Count (snd (InitStages code eng)) = AAMode_Count eng
   \<and> params_buffer (snd (InitStages code eng)) = params_buffer eng
   \<and> options_buffer (snd (InitStages code eng)) = options_buffer eng
   \<and> m_vertexbuffer (snd (InitStages code eng)) = m_vertexbuffer eng
   \<and> textures_created (snd (InitStages code eng)) = textures_created eng
   \<and> draws (snd (InitStages code eng)) = draws eng"
  by (simp add: InitStages_def)

lemma LoadShaderOptions_frame:
  "m_initialized (snd (LoadShaderOptions env code eng)) = m_initialized eng
   \<and> m_pshader (snd (LoadShaderOptions env code eng)) = m_pshader eng
   \<and> m_stageOutput (snd (LoadShaderOptions env code eng)) = m_stageOutput eng
   \<and> m_prev_dst_width (snd (LoadShaderOptions env code eng)) = m_prev_dst_width eng
   \<and> m_prev_dst_height (snd (LoadShaderOptions env code eng)) = m_prev_dst_height eng
   \<and> m_prev_src_width (snd (LoadShaderOptions env code eng)) = m_prev_src_width eng
   \<and> m_prev_src_height (snd (LoadShaderOptions env code eng)) = m_prev_src_height eng
   \<and> m_prev_samples (snd (LoadShaderOptions env code eng)) = m_prev_samples eng
   \<and> m_config (snd (LoadShaderOptions env code eng)) = m_config eng
   \<and> m_vertex_buffer_observer (snd (LoadShaderOptions env code eng)) = m_vertex_buffer_observer eng
   \<and> m_vertex_buffer_offset (snd (LoadShaderOptions env code eng)) = m_vertex_buffer_offset eng
   \<and> pu0 (snd (LoadShaderOptions env code eng)) = pu0 eng
   \<and> pu1 (snd (LoadShaderOptions env code eng)) = pu1 eng
   \<and> pv0 (snd (LoadShaderOptions env code eng)) = pv0 eng
   \<and> pv1 (snd (LoadShaderOptions env code eng)) = pv1 eng
   \<and> g_Config_sPostProcessingShader (snd (LoadShaderOptions env code eng)) = g_Config_sPostProcessingShader eng
   \<and> g_ActiveConfig_sPostProcessingShader (snd (LoadShaderOptions env code eng)) = g_ActiveConfig_sPostProcessingShader eng
   \<and> AAMode_Count (snd (LoadShaderOptions env code eng)) = AAMode_Count eng
   \<and> params_buffer (snd (LoadShaderOptions env code eng)) = params_buffer eng
   \<and> options_buffer (snd (LoadShaderOptions env code eng)) = options_buffer eng
   \<and> m_vertexbuffer (snd (LoadShaderOptions env code eng)) = m_vertexbuffer eng
   \<and> textures_created (snd (LoadShaderOptions env code eng)) = textures_created eng
   \<and> draws (snd (LoadShaderOptions env code eng)) = draws eng"
  by (simp add: LoadShaderOptions_def Let_def split: prod.splits)

lemma load_and_assemble_frame:
  "m_config (snd (load_and_assemble env eng))
     = snd (LoadShader env (g_ActiveConfig_sPostProcessingShader eng) (m_config eng))
   \<and> m_pshader (snd (load_and_assemble env eng))
     = resize (m_pshader eng)
         (length (GetStages (snd (LoadShader env (g_ActiveConfig_sPostProcessingShader eng)
                                    (m_config eng))))) None
   \<and> m_initialized (snd (load_and_assemble env eng)) = m_initialized eng
   \<and> m_stageOutput (snd (load_and_assemble env eng)) = m_stageOutput eng
   \<and> m_prev_dst_width (snd (load_and_assemble env eng)) = m_prev_dst_width eng
   \<and> m_prev_dst_height (snd (load_and_assemble env eng)) = m_prev_dst_height eng
   \<and> m_prev_src_width (snd (load_and_assemble env eng)) = m_prev_src_width eng
   \<and> m_prev_src_height (snd (load_and_assemble env eng)) = m_prev_src_height eng
   \<and> m_prev_samples (snd (load_and_assemble env eng)) = m_prev_samples eng
   \<and> m_vertex_buffer_observer (snd (load_and_assemble env eng)) = m_vertex_buffer_observer eng
   \<and> m_vertex_buffer_offset (snd (load_and_assemble env eng)) = m_vertex_buffer_offset eng
   \<and> pu0 (snd (load_and_assemble env eng)) = pu0 eng
   \<and> pu1 (snd (load_and_assemble env eng)) = pu1 eng
   \<and> pv0 (snd (load_and_assemble env eng)) = pv0 eng
   \<and> pv1 (snd (load_and_assemble env eng)) = pv1 eng
   \<and> g_Config_sPostProcessingShader (snd (load_and_assemble env eng)) = g_Config_sPostProcessingShader eng
   \<and> g_ActiveConfig_sPostProcessingShader (snd (load_and_assemble env eng)) = g_ActiveConfig_sPostProcessingShader eng
   \<and> AAMode_Count (snd (load_and_assemble env eng)) = AAMode_Count eng
   \<and> params_buffer (snd (load_and_assemble env eng)) = params_buffer eng
   \<and> options_buffer (snd (load_and_assemble env eng)) = options_buffer eng
   \<and> m_vertexbuffer (snd (load_and_assemble env eng)) = m_vertexbuffer eng
   \<and> textures_created (snd (load_and_assemble env eng)) = textures_created eng
   \<and> draws (snd (load_and_assemble env eng)) = draws eng"
proof -
  define L where "L = LoadShader env (g_ActiveConfig_sPostProcessingShader eng) (m_config eng)"
  have "snd (load_and_assemble env eng)
        = snd (LoadShaderOptions env (fst (InitStages (fst L) (eng\<lparr>m_config := snd L\<rparr>)))
                 (snd (InitStages (fst L) (eng\<lparr>m_config := snd L\<rparr>))))"
    by (simp add: load_and_assemble_def L_def split_beta)
  then show ?thesis
    by (simp add: LoadShaderOptions_frame InitStages_frame flip: L_def)
qed

lemma release_resources_frame:
  "m_stageOutput (release_resources eng) = []
   \<and> m_prev_samples (release_resources eng) = AAMode_Count eng
   \<and> length (m_pshader (release_resources eng)) = length (m_pshader eng)
   \<and> m_initialized (release_resources eng) = m_initialized eng
   \<and> m_prev_dst_width (release_resources eng) = m_prev_dst_width eng
   \<and> m_prev_dst_height (release_resources eng) = m_prev_dst_height eng
   \<and> m_prev_src_width (release_resources eng) = m_prev_src_width eng
   \<and> m_prev_src_height (release_resources eng) = m_prev_src_height eng
   \<and> m_options (release_resources eng) = m_options eng
   \<and> m_config (release_resources eng) = m_config eng
   \<and> m_vertex_buffer_observer (release_resources eng) = m_vertex_buffer_observer eng
   \<and> m_vertex_buffer_offset (release_resources eng) = m_vertex_buffer_offset eng
   \<and> pu0 (release_resources eng) = pu0 eng
   \<and> pu1 (release_resources eng) = pu1 eng
   \<and> pv0 (release_resources eng) = pv0 eng
   \<and> pv1 (release_resources eng) = pv1 eng
   \<and> g_Config_sPostProcessingShader (release_resources eng) = g_Config_sPostProcessingShader eng
   \<and> g_ActiveConfig_sPostProcessingShader (release_resources eng) = g_ActiveConfig_sPostProcessingShader eng
   \<and> AAMode_Count (release_resources eng) = AAMode_Count eng
   \<and> params_buffer (release_resources eng) = params_buffer eng
   \<and> options_buffer (release_resources eng) = options_buffer eng
   \<and> m_vertexbuffer (release_resources eng) = m_vertexbuffer eng
   \<and> textures_created (release_resources eng) = textures_created eng
   \<and> draws (release_resources eng) = draws eng"
  by (simp add: release_resources_def)

lemma recompile_frame:
  "m_stageOutput (recompile env eng) = []
   \<and> m_prev_samples (recompile env eng) = AAMode_Count eng
   \<and> length (m_pshader (recompile env eng)) = length (GetStages (m_config (recompile env eng)))
   \<and> m_prev_dst_width (recompile env eng) = m_prev_dst_width eng
   \<and> m_prev_dst_height (recompile env eng) = m_prev_dst_height eng
   \<and> m_prev_src_width (recompile env eng) = m_prev_src_width eng
   \<and> m_prev_src_height (recompile env eng) = m_prev_src_height eng
   \<and> m_vertex_buffer_observer (recompile env eng) = m_vertex_buffer_observer eng
   \<and> m_vertex_buffer_offset (recompile env eng) = m_vertex_buffer_offset eng
   \<and> pu0 (recompile env eng) = pu0 eng
   \<and> pu1 (recompile env eng) = pu1 eng
   \<and> pv0 (recompile env eng) = pv0 eng
   \<and> pv1 (recompile env eng) = pv1 eng
   \<and> g_Config_sPostProcessingShader (recompile env eng) = g_Config_sPostProcessingShader eng
   \<and> g_ActiveConfig_sPostProcessingShader (recompile env eng) = g_ActiveConfig_sPostProcessingShader eng
   \<and> AAMode_Count (recompile env eng) = AAMode_Count eng
   \<and> params_buffer (recompile env eng) = params_buffer eng
   \<and> options_buffer (recompile env eng) = options_buffer eng
   \<and> m_vertexbuffer (recompile env eng) = m_vertexbuffer eng
   \<and> textures_created (recompile env eng) = textures_created eng
   \<and> draws (recompile env eng) = draws eng"
proof -
  define A where "A = load_and_assemble env (release_resources eng)"
  have r: "recompile env eng
           = compile_stages env (fst A) 0 (GetStages (m_config (snd A))) ((snd A)\<lparr>m_initialized := True\<rparr>)"
    by (simp add: recompile_def A_def split_beta)
  have l: "length (m_pshader (snd A)) = length (GetStages (m_config (snd A)))"
    by (simp add: A_def load_and_assemble_frame resize_def)
  show ?thesis
    unfolding r using l
    by (simp add: compile_stages_frame)
       (simp add: A_def load_and_assemble_frame release_resources_frame)
qed

lemma resize_None:
  "resize (map (\<lambda>shader. None) xs) 1 None = [None]"
  by (cases xs) (simp_all add: resize_def)

lemma resize_singleton: "resize [None] n None = replicate n None"
  by (cases n) (simp_all add: resize_def)

lemma clear_preset_frame:
  "m_pshader (clear_preset eng) = [None]
   \<and> g_Config_sPostProcessingShader (clear_preset eng) = []
   \<and> g_ActiveConfig_sPostProcessingShader (clear_preset eng) = []
   \<and> m_initialized (clear_preset eng) = m_initialized eng
   \<and> m_stageOutput (clear_preset eng) = m_stageOutput eng
   \<and> m_prev_dst_width (clear_preset eng) = m_prev_dst_width eng
   \<and> m_prev_dst_height (clear_preset eng) = m_prev_dst_height eng
   \<and> m_prev_src_width (clear_preset eng) = m_prev_src_width eng
   \<and> m_prev_src_height (clear_preset eng) = m_prev_src_height eng
   \<and> m_prev_samples (clear_preset eng) = m_prev_samples eng
   \<and> m_options (clear_preset eng) = m_options eng
   \<and> m_config (clear_preset eng) = m_config eng
   \<and> m_vertex_buffer_observer (clear_preset eng) = m_vertex_buffer_observer eng
   \<and> m_vertex_buffer_offset (clear_preset eng) = m_vertex_buffer_offset eng
   \<and> pu0 (clear_preset eng) = pu0 eng
   \<and> pu1 (clear_preset eng) = pu1 eng
   \<and> pv0 (clear_preset eng) = pv0 eng
   \<and> pv1 (clear_preset eng) = pv1 eng
   \<and> AAMode_Count (clear_preset eng) = AAMode_Count eng
   \<and> params_buffer (clear_preset eng) = params_buffer eng
   \<and> options_buffer (clear_preset eng) = options_buffer eng
   \<and> m_vertexbuffer (clear_preset eng) = m_vertexbuffer eng
   \<and> textures_created (clear_preset eng) = textures_created eng
   \<and> draws (clear_preset eng) = draws eng"
  using resize_None [of "m_pshader eng"] by (simp add: clear_preset_def)

lemma fallback_result:
  assumes "fallback env eng = Inr eng'"
  shows "m_initialized eng'
   \<and> g_Config_sPostProcessingShader eng' = []
   \<and> g_ActiveConfig_sPostProcessingShader eng' = []
   \<and> m_config eng' = snd (LoadShader env [] (m_config eng))
   \<and> GetStages (m_config eng') \<noteq> []
   \<and> m_pshader eng'
       = CompileAndCreatePixelShader env (fst (load_and_assemble env (clear_preset eng))) None
         # replicate (length (GetStages (m_config eng')) - 1) None
   \<and> m_stageOutput eng' = m_stageOutput eng
   \<and> m_prev_dst_width eng' = m_prev_dst_width eng
   \<and> m_prev_dst_height eng' = m_prev_dst_height eng
   \<and> m_prev_src_width eng' = m_prev_src_width eng
   \<and> m_prev_src_height eng' = m_prev_src_height eng
   \<and> m_prev_samples eng' = m_prev_samples eng
   \<and> m_vertex_buffer_observer eng' = m_vertex_buffer_observer eng
   \<and> m_vertex_buffer_offset eng' = m_vertex_buffer_offset eng
   \<and> pu0 eng' = pu0 eng
   \<and> pu1 eng' = pu1 eng
   \<and> pv0 eng' = pv0 eng
   \<and> pv1 eng' = pv1 eng
   \<and> AAMode_Count eng' = AAMode_Count eng
   \<and> params_buffer eng' = params_buffer eng
   \<and> options_buffer eng' = options_buffer eng
   \<and> m_vertexbuffer eng' = m_vertexbuffer eng
   \<and> textures_created eng' = textures_created eng
   \<and> draws eng' = draws eng"
proof -
  define A where "A = load_and_assemble env (clear_preset eng)"
  have ps: "m_pshader (snd A) = replicate (length (GetStages (m_config (snd A)))) None"
    by (simp add: A_def load_and_assemble_frame clear_preset_frame resize_singleton)
  have cfg: "m_config (snd A) = snd (LoadShader env [] (m_config eng))"
    by (simp add: A_def load_and_assemble_frame clear_preset_frame)
  have ne: "m_pshader (snd A) \<noteq> []"
    and e: "eng' = (snd A)\<lparr>m_pshader :=
                          (m_pshader (snd A))[0 := CompileAndCreatePixelShader env (fst A) None],
                        m_initialized := True\<rparr>"
    using assms by (auto simp: fallback_def A_def split_beta split: if_splits)
  from ne ps obtain k where k: "length (GetStages (m_config (snd A))) = Suc k"
    by (cases "length (GetStages (m_config (snd A)))") auto
  have "(m_pshader (snd A))[0 := CompileAndCreatePixelShader env (fst A) None]
        = CompileAndCreatePixelShader env (fst A) None # replicate k None"
    by (simp add: ps k)
  moreover have "GetStages (m_config (snd A)) \<noteq> []"
    using k by auto
  moreover have "length (GetStages (m_config (snd A))) - 1 = k"
    using k by simp
  ultimately have "m_pshader eng'
       = CompileAndCreatePixelShader env (fst A) None
         # replicate (length (GetStages (m_config eng')) - 1) None
     \<and> GetStages (m_config eng') \<noteq> []"
    unfolding e by simp
  moreover have "m_config eng' = snd (LoadShader env [] (m_config eng))"
    unfolding e using cfg by simp
  ultimately show ?thesis
    unfolding e
    by (simp flip: A_def) (simp add: A_def load_and_assemble_frame clear_preset_frame)
qed

lemma ApplyShader_result:
  assumes "ApplyShader env eng = Inr eng'"
  shows "m_initialized eng'
   \<and> m_prev_samples eng' = AAMode_Count eng
   \<and> (eng' = eng \<or> m_stageOutput eng' = []
          \<and> length (m_pshader eng') = length (GetStages (m_config eng')))
   \<and> m_prev_dst_width eng' = m_prev_dst_width eng
   \<and> m_prev_dst_height eng' = m_prev_dst_height eng
   \<and> m_prev_src_width eng' = m_prev_src_width eng
   \<and> m_prev_src_height eng' = m_prev_src_height eng
   \<and> m_vertex_buffer_observer eng' = m_vertex_buffer_observer eng
   \<and> m_vertex_buffer_offset eng' = m_vertex_buffer_offset eng
   \<and> pu0 eng' = pu0 eng
   \<and> pu1 eng' = pu1 eng
   \<and> pv0 eng' = pv0 eng
   \<and> pv1 eng' = pv1 eng
   \<and> AAMode_Count eng' = AAMode_Count eng
   \<and> params_buffer eng' = params_buffer eng
   \<and> options_buffer eng' = options_buffer eng
   \<and> m_vertexbuffer eng' = m_vertexbuffer eng
   \<and> textures_created eng' = textures_created eng
   \<and> draws eng' = draws eng"
proof (cases "shader_unchanged eng")
  case True
  then have "eng' = eng" using assms by (simp add: ApplyShader_def)
  then show ?thesis using True by (simp add: shader_unchanged_def)
next
  case False
  show ?thesis
  proof (cases "m_initialized (recompile env eng)")
    case True
    then have "eng' = recompile env eng" using assms False by (simp add: ApplyShader_def Let_def)
    then show ?thesis using True by (simp add: recompile_frame)
  next
    case nin: False
    then have f: "fallback env (recompile env eng) = Inr eng'"
      using assms False by (simp add: ApplyShader_def Let_def)
    have "length (m_pshader eng') = length (GetStages (m_config eng'))"
      using fallback_result[OF f] by (cases "GetStages (m_config eng')") simp_all
    then show ?thesis
      using fallback_result[OF f] by (simp add: recompile_frame)
  qed
qed

lemma upload_options_frame:
  assumes "upload_options eng = Inr eng'"
  shows "GetStages (m_config eng') = GetStages (m_config eng)
   \<and> GetShader (m_config eng') = GetShader (m_config eng)
   \<and> m_initialized eng' = m_initialized eng
   \<and> m_pshader eng' = m_pshader eng
   \<and> m_stageOutput eng' = m_stageOutput eng
   \<and> m_prev_dst_width eng' = m_prev_dst_width eng
   \<and> m_prev_dst_height eng' = m_prev_dst_height eng
   \<and> m_prev_src_width eng' = m_prev_src_width eng
   \<and> m_prev_src_height eng' = m_prev_src_height eng
   \<and> m_prev_samples eng' = m_prev_samples eng
   \<and> m_options eng' = m_options eng
   \<and> m_vertex_buffer_observer eng' = m_vertex_buffer_observer eng
   \<and> m_vertex_buffer_offset eng' = m_vertex_buffer_offset eng
   \<and> pu0 eng' = pu0 eng
   \<and> pu1 eng' = pu1 eng
   \<and> pv0 eng' = pv0 eng
   \<and> pv1 eng' = pv1 eng
   \<and> g_Config_sPostProcessingShader eng' = g_Config_sPostProcessingShader eng
   \<and> g_ActiveConfig_sPostProcessingShader eng' = g_ActiveConfig_sPostProcessingShader eng
   \<and> AAMode_Count eng' = AAMode_Count eng
   \<and> params_buffer eng' = params_buffer eng
   \<and> m_vertexbuffer eng' = m_vertexbuffer eng
   \<and> textures_created eng' = textures_created eng
   \<and> draws eng' = draws eng"
  using assms by (auto simp: upload_options_def split_beta split: if_splits)

lemma upload_params_frame:
  "m_initialized (upload_params env src src_width src_height layer gamma eng) = m_initialized eng
   \<and> m_pshader (upload_params env src src_width src_height layer gamma eng) = m_pshader eng
   \<and> m_stageOutput (upload_params env src src_width src_height layer gamma eng) = m_stageOutput eng
   \<and> m_prev_dst_width (upload_params env src src_width src_height layer gamma eng) = m_prev_dst_width eng
   \<and> m_prev_dst_height (upload_params env src src_width src_height layer gamma eng) = m_prev_dst_height eng
   \<and> m_prev_src_width (upload_params env src src_width src_height layer gamma eng) = m_prev_src_width eng
   \<and> m_prev_src_height (upload_params env src src_width src_height layer gamma eng) = m_prev_src_height eng
   \<and> m_prev_samples (upload_params env src src_width src_height layer gamma eng) = m_prev_samples eng
   \<and> m_options (upload_params env src src_width src_height layer gamma eng) = m_options eng
   \<and> m_config (upload_params env src src_width src_height layer gamma eng) = m_config eng
   \<and> m_vertex_buffer_observer (upload_params env src src_width src_height layer gamma eng) = m_vertex_buffer_observer eng
   \<and> m_vertex_buffer_offset (upload_params env src src_width src_height layer gamma eng) = m_vertex_buffer_offset eng
   \<and> pu0 (upload_params env src src_width src_height layer gamma eng) = pu0 eng
   \<and> pu1 (upload_params env src src_width src_height layer gamma eng) = pu1 eng
   \<and> pv0 (upload_params env src src_width src_height layer gamma eng) = pv0 eng
   \<and> pv1 (upload_params env src src_width src_height layer gamma eng) = pv1 eng
   \<and> g_Config_sPostProcessingShader (upload_params env src src_width src_height layer gamma eng) = g_Config_sPostProcessingShader eng
   \<and> g_ActiveConfig_sPostProcessingShader (upload_params env src src_width src_height layer gamma eng) = g_ActiveConfig_sPostProcessingShader eng
   \<and> AAMode_Count (upload_params env src src_width src_height layer gamma eng) = AAMode_Count eng
   \<and> options_buffer (upload_params env src src_width src_height layer gamma eng) = options_buffer eng
   \<and> m_vertexbuffer (upload_params env src src_width src_height layer gamma eng) = m_vertexbuffer eng
   \<and> textures_created (upload_params env src src_width src_height layer gamma eng) = textures_created eng
   \<and> draws (upload_params env src src_width src_height layer gamma eng) = draws eng"
  by (simp add: upload_params_def Let_def split_beta)

lemma upload_vertices_frame:
  "m_initialized (upload_vertices env src src_width src_height eng) = m_initialized eng
   \<and> m_pshader (upload_vertices env src src_width src_height eng) = m_pshader eng
   \<and> m_stageOutput (upload_vertices env src src_width src_height eng) = m_stageOutput eng
   \<and> m_prev_dst_width (upload_vertices env src src_width src_height eng) = m_prev_dst_width eng
   \<and> m_prev_dst_height (upload_vertices env src src_width src_height eng) = m_prev_dst_height eng
   \<and> m_prev_src_width (upload_vertices env src src_width src_height eng) = m_prev_src_width eng
   \<and> m_prev_src_height (upload_vertices env src src_width src_height eng) = m_prev_src_height eng
   \<and> m_prev_samples (upload_vertices env src src_width src_height eng) = m_prev_samples eng
   \<and> m_options (upload_vertices env src src_width src_height eng) = m_options eng
   \<and> m_config (upload_vertices env src src_width src_height eng) = m_config eng
   \<and> g_Config_sPostProcessingShader (upload_vertices env src src_width src_height eng) = g_Config_sPostProcessingShader eng
   \<and> g_ActiveConfig_sPostProcessingShader (upload_vertices env src src_width src_height eng) = g_ActiveConfig_sPostProcessingShader eng
   \<and> AAMode_Count (upload_vertices env src src_width src_height eng) = AAMode_Count eng
   \<and> params_buffer (upload_vertices env src src_width src_height eng) = params_buffer eng
   \<and> options_buffer (upload_vertices env src src_width src_height eng) = options_buffer eng
   \<and> textures_created (upload_vertices env src src_width src_height eng) = textures_created eng
   \<and> draws (upload_vertices env src src_width src_height eng) = draws eng"
  by (simp add: upload_vertices_def Let_def split_beta)

lemma prepare_stage_outputs_frame:
  assumes "prepare_stage_outputs env src dst eng = Inr eng'"
  shows "m_initialized eng' = m_initialized eng
   \<and> m_pshader eng' = m_pshader eng
   \<and> m_prev_samples eng' = m_prev_samples eng
   \<and> m_options eng' = m_options eng
   \<and> m_config eng' = m_config eng
   \<and> m_vertex_buffer_observer eng' = m_vertex_buffer_observer eng
   \<and> m_vertex_buffer_offset eng' = m_vertex_buffer_offset eng
   \<and> pu0 eng' = pu0 eng
   \<and> pu1 eng' = pu1 eng
   \<and> pv0 eng' = pv0 eng
   \<and> pv1 eng' = pv1 eng
   \<and> g_Config_sPostProcessingShader eng' = g_Config_sPostProcessingShader eng
   \<and> g_ActiveConfig_sPostProcessingShader eng' = g_ActiveConfig_sPostProcessingShader eng
   \<and> AAMode_Count eng' = AAMode_Count eng
   \<and> params_buffer eng' = params_buffer eng
   \<and> options_buffer eng' = options_buffer eng
   \<and> m_vertexbuffer eng' = m_vertexbuffer eng
   \<and> draws eng' = draws eng"
  using assms by (auto simp: prepare_stage_outputs_def Let_def split: if_splits)

lemma draw_stages_frame:
  "draw_stages env dst finalstage i stages eng = Inr eng' \<Longrightarrow>
   m_initialized eng' = m_initialized eng
   \<and> m_pshader eng' = m_pshader eng
   \<and> m_stageOutput eng' = m_stageOutput eng
   \<and> m_prev_dst_width eng' = m_prev_dst_width eng
   \<and> m_prev_dst_height eng' = m_prev_dst_height eng
   \<and> m_prev_src_width eng' = m_prev_src_width eng
   \<and> m_prev_src_height eng' = m_prev_src_height eng
   \<and> m_prev_samples eng' = m_prev_samples eng
   \<and> m_options eng' = m_options eng
   \<and> m_config eng' = m_config eng
   \<and> m_vertex_buffer_observer eng' = m_vertex_buffer_observer eng
   \<and> m_vertex_buffer_offset eng' = m_vertex_buffer_offset eng
   \<and> pu0 eng' = pu0 eng
   \<and> pu1 eng' = pu1 eng
   \<and> pv0 eng' = pv0 eng
   \<and> pv1 eng' = pv1 eng
   \<and> g_Config_sPostProcessingShader eng' = g_Config_sPostProcessingShader eng
   \<and> g_ActiveConfig_sPostProcessingShader eng' = g_ActiveConfig_sPostProcessingShader eng
   \<and> AAMode_Count eng' = AAMode_Count eng
   \<and> params_buffer eng' = params_buffer eng
   \<and> options_buffer eng' = options_buffer eng
   \<and> m_vertexbuffer eng' = m_vertexbuffer eng
   \<and> textures_created eng' = textures_created eng"
proof (induction stages arbitrary: i eng)
  case Nil
  then show ?case by simp
next
  case (Cons stage stages)
  from Cons.prems obtain call where
    "draw_stages env dst finalstage (Suc i) stages (eng\<lparr>draws := draws eng @ [call]\<rparr>) = Inr eng'"
    by (auto simp: Let_def split: if_splits)
  from Cons.IH[OF this] show ?case by simp
qed

subsection \<open>The environments and engines of the examples\<close>

lemma exact_fpu_simps:
  "itof exact_fpu i = real_of_int i"
  "fmul exact_fpu x y = x * y"
  "fdiv exact_fpu x y = x / y"
  "fsub exact_fpu x y = x - y"
  "ftou exact_fpu x = word_of_int \<lfloor>x\<rfloor>"
  "fne exact_fpu x y = (x \<noteq> y)"
  by (simp_all add: exact_fpu_def)

lemma example_env_simps:
  "FPU example_env = exact_fpu"
  "GetTimeElapsed example_env = 0"
  "GetWidth example_env r = right_rect r - left_rect r"
  "GetHeight example_env r = bottom_rect r - top_rect r"
  "AppendData example_env appended = 4 * length appended"
  "CompileAndCreatePixelShader example_env code entry
     = (if entry = Some ''sharpen'' then None else Some (length code))"
  "LoadShader example_env [] cfg
     = (''void main() { }'', example_config [] example_default_stages)"
  "name \<noteq> [] \<Longrightarrow> LoadShader example_env name cfg
     = (''void blur() { } void sharpen() { }'', example_config name example_stages)"
  by (simp_all add: example_env_def)

lemma example_engine_simps:
  "shader_unchanged (example_engine stages)"
  "GetStages (m_config (example_engine stages)) = stages"
  "\<not> IsDirty (m_config (example_engine stages))"
  "m_stageOutput (example_engine stages) = []"
  "length (m_pshader (example_engine stages)) = length stages"
  "textures_created (example_engine stages) = 0"
  "m_prev_src_width (example_engine stages) = 0"
  by (simp_all add: example_engine_def DX11PostProcessing_new_def example_config_def
      shader_unchanged_def)


lemma working_env_simps:
  "CompileAndCreatePixelShader working_env code entry = Some 1"
  "LoadShader working_env = LoadShader example_env"
  "FPU working_env = FPU example_env"
  "GetWidth working_env = GetWidth example_env"
  "GetHeight working_env = GetHeight example_env"
  by (simp_all add: working_env_def)

lemma ieee_env_simps:
  "FPU ieee_env = ieee_fpu"
  "AppendData ieee_env appended = 4 * length appended"
  by (simp_all add: ieee_env_def)

subsection \<open>The steps of a draw\<close>

lemma BlitFromTexture_steps:
  assumes "BlitFromTexture env src dst src_width src_height layer gamma eng = Inr eng'"
  obtains eng1 eng2 eng5 where
    "ApplyShader env eng = Inr eng1"
    "upload_options eng1 = Inr eng2"
    "prepare_stage_outputs env src dst
       (upload_vertices env src src_width src_height
          (upload_params env src src_width src_height layer gamma eng2)) = Inr eng5"
    "draw_stages env dst ((word_of_nat (length (GetStages (m_config eng5))) :: size_t) - 1) 0
       (GetStages (m_config eng5)) eng5 = Inr eng'"
  using assms by (auto simp: BlitFromTexture_def Let_def split: sum.splits)

lemma BlitFromTexture_after_apply:
  assumes a: "ApplyShader env eng = Inr eng1"
      and d: "BlitFromTexture env src dst src_width src_height layer gamma eng = Inr eng'"
  shows "GetStages (m_config eng') = GetStages (m_config eng1)
     \<and> GetShader (m_config eng') = GetShader (m_config eng1)
     \<and> m_pshader eng' = m_pshader eng1
     \<and> m_initialized eng' = m_initialized eng1
     \<and> g_ActiveConfig_sPostProcessingShader eng' = g_ActiveConfig_sPostProcessingShader eng1
     \<and> m_prev_samples eng' = m_prev_samples eng1
     \<and> AAMode_Count eng' = AAMode_Count eng1"
proof -
  from d obtain eng1' eng2 eng5 where
    a': "ApplyShader env eng = Inr eng1'"
    and o: "upload_options eng1' = Inr eng2"
    and p: "prepare_stage_outputs env src dst
       (upload_vertices env src src_width src_height
          (upload_params env src src_width src_height layer gamma eng2)) = Inr eng5"
    and d': "draw_stages env dst ((word_of_nat (length (GetStages (m_config eng5))) :: size_t) - 1) 0
       (GetStages (m_config eng5)) eng5 = Inr eng'"
    by (rule BlitFromTexture_steps)
  have e1: "eng1' = eng1"
    using a a' by simp
  show ?thesis
    using upload_options_frame[OF o] prepare_stage_outputs_frame[OF p] draw_stages_frame[OF d']
    by (simp add: e1 upload_vertices_frame upload_params_frame)
qed

lemma ApplyShader_unchanged:
  "shader_unchanged eng \<Longrightarrow> ApplyShader env eng = Inr eng"
  by (simp add: ApplyShader_def)

lemma ApplyShader_outputs:
  assumes "ApplyShader env eng = Inr eng1"
  shows "m_stageOutput eng1 = (if shader_unchanged eng then m_stageOutput eng else [])"
proof (cases "shader_unchanged eng")
  case True
  then show ?thesis using assms by (simp add: ApplyShader_def)
next
  case False
  show ?thesis
  proof (cases "m_initialized (recompile env eng)")
    case True
    then have "eng1 = recompile env eng"
      using assms False by (simp add: ApplyShader_def Let_def)
    then show ?thesis using False by (simp add: recompile_frame)
  next
    case nin: False
    then have f: "fallback env (recompile env eng) = Inr eng1"
      using assms False by (simp add: ApplyShader_def Let_def)
    show ?thesis
      using fallback_result[OF f] False by (simp add: recompile_frame)
  qed
qed

lemma ApplyShader_recompiled:
  assumes "\<not> shader_unchanged eng" "m_initialized (recompile env eng)"
  shows "ApplyShader env eng = Inr (recompile env eng)"
  using assms by (simp add: ApplyShader_def Let_def)

subsection \<open>Recompilation and fallback\<close>

lemma compile_stages_initialized:
  "m_initialized (compile_stages env code i stages eng)
   = (m_initialized eng
      \<and> list_all (\<lambda>stage. CompileAndCreatePixelShader env code
                              (Some (c_str (m_stage_entry_point stage))) \<noteq> None) stages)"
  by (induction stages arbitrary: i eng) (simp_all add: Let_def)

lemma recompile_initialized:
  "m_initialized (recompile env eng)
   = list_all (\<lambda>stage. CompileAndCreatePixelShader env
                          (fst (load_and_assemble env (release_resources eng)))
                          (Some (c_str (m_stage_entry_point stage))) \<noteq> None)
       (GetStages (m_config (recompile env eng)))"
proof -
  define A where "A = load_and_assemble env (release_resources eng)"
  have r: "recompile env eng
           = compile_stages env (fst A) 0 (GetStages (m_config (snd A)))
               ((snd A)\<lparr>m_initialized := True\<rparr>)"
    by (simp add: recompile_def A_def split_beta)
  have c: "m_config (recompile env eng) = m_config (snd A)"
    unfolding r by (simp add: compile_stages_frame)
  show ?thesis
    unfolding c A_def[symmetric] unfolding r by (simp add: compile_stages_initialized)
qed

lemma recompile_config:
  "m_config (recompile env eng)
   = snd (LoadShader env (g_ActiveConfig_sPostProcessingShader eng) (m_config eng))"
proof -
  define A where "A = load_and_assemble env (release_resources eng)"
  have r: "recompile env eng
           = compile_stages env (fst A) 0 (GetStages (m_config (snd A)))
               ((snd A)\<lparr>m_initialized := True\<rparr>)"
    by (simp add: recompile_def A_def split_beta)
  show ?thesis
    unfolding r
    by (simp add: compile_stages_frame)
       (simp add: A_def load_and_assemble_frame release_resources_frame)
qed


lemma InitStages_missing_entry:
  assumes "find_from (''void '' @ m_stage_entry_point stage) code 0 = None"
  shows "InitStages_loop (stage # stages) code = []"
  using assms by (simp add: Let_def)

subsection \<open>The final-stage index\<close>

lemma unat_wrapped_size: "unat (- 1 :: size_t) = 2 ^ 64 - 1"
  by (simp add: unsigned_minus_1_eq_mask mask_eq_exp_minus_1)

lemma unat_size_of_nat: "n < 2 ^ 64 \<Longrightarrow> unat (word_of_nat n :: size_t) = n"
  by (simp add: unat_of_nat)

lemma unat_finalstage:
  assumes "0 < n" "n < 2 ^ 64"
  shows "unat ((word_of_nat n :: size_t) - 1) = n - 1"
proof -
  have e: "(word_of_nat n :: size_t) - 1 = word_of_nat (n - 1)"
    using assms by (simp add: of_nat_diff)
  have "n - 1 < 2 ^ 64"
    using assms by simp
  then show ?thesis
    unfolding e by (rule unat_size_of_nat)
qed

subsection \<open>The images of the stages\<close>

lemma new_engine_has_no_images:
  "m_stageOutput (DX11PostProcessing_new cfg indeterminate indeterminate_offset preset
                    active_preset aa) = []"
  by (simp add: DX11PostProcessing_new_def)

lemma create_stage_output_cong:
  assumes "m_prev_src_width eng' = m_prev_src_width eng"
    "m_prev_src_height eng' = m_prev_src_height eng"
    "m_prev_dst_width eng' = m_prev_dst_width eng"
    "m_prev_dst_height eng' = m_prev_dst_height eng"
  shows "create_stage_output F eng' = create_stage_output F eng"
  using assms by (simp add: create_stage_output_def fun_eq_iff)

lemma take_butlast_length: "take (length xs - 1) xs = butlast xs"
  by (simp add: butlast_conv_take)

lemma prepare_stage_outputs_images:
  assumes p: "prepare_stage_outputs env src dst eng = Inr eng'"
      and inv: "m_stageOutput eng = []
                \<or> m_stageOutput eng
                   = map (create_stage_output (FPU env) eng) (butlast (GetStages (m_config eng)))"
      and bound: "length (GetStages (m_config eng)) \<le> vector_max_size"
      and n: "n = length (GetStages (m_config eng))"
  shows "0 < n
     \<and> m_stageOutput eng'
         = map (create_stage_output (FPU env) eng') (butlast (GetStages (m_config eng)))
     \<and> (2 \<le> n \<longrightarrow> m_prev_src_width eng' = GetWidth env src
                  \<and> m_prev_src_height eng' = GetHeight env src
                  \<and> m_prev_dst_width eng' = GetWidth env dst
                  \<and> m_prev_dst_height eng' = GetHeight env dst)
     \<and> textures_created eng'
         = textures_created eng
           + (if 2 \<le> n \<and> (m_prev_dst_width eng \<noteq> GetWidth env dst
                           \<or> m_prev_dst_height eng \<noteq> GetHeight env dst
                           \<or> m_prev_src_width eng \<noteq> GetWidth env src
                           \<or> m_prev_src_height eng \<noteq> GetHeight env src
                           \<or> length (m_stageOutput eng) \<noteq> n - 1)
              then n - 1 else 0)"
proof -
  have len: "length (m_stageOutput eng) = 0 \<or> length (m_stageOutput eng) = n - 1"
    using inv n by auto
  have n64: "n < 2 ^ 64"
    using bound n by (simp add: vector_max_size_def)
  have pos: "0 < n"
  proof (rule ccontr)
    assume "\<not> 0 < n"
    then have z: "GetStages (m_config eng) = []" "m_stageOutput eng = []"
      using n inv by auto
    have "prepare_stage_outputs env src dst eng = Inl Length_Error"
      using z unat_wrapped_size
      by (simp add: prepare_stage_outputs_def Let_def vector_max_size_def
          word_greater_zero_iff)
    then show False using p by simp
  qed
  have uf: "unat ((word_of_nat (length (GetStages (m_config eng))) :: size_t) - 1) = n - 1"
    using pos n64 unfolding n by (rule unat_finalstage)
  have f0: "(0 < (word_of_nat (length (GetStages (m_config eng))) :: size_t) - 1) = (2 \<le> n)"
  proof -
    have "(0 < (word_of_nat (length (GetStages (m_config eng))) :: size_t) - 1)
          = (0 < unat ((word_of_nat (length (GetStages (m_config eng))) :: size_t) - 1))"
      by (simp add: word_greater_zero_iff unat_gt_0)
    also have "\<dots> = (2 \<le> n)"
      unfolding uf using pos by arith
    finally show ?thesis .
  qed
  have lw: "((word_of_nat (length (m_stageOutput eng)) :: size_t)
               \<noteq> word_of_nat (length (GetStages (m_config eng))) - 1)
            = (length (m_stageOutput eng) \<noteq> n - 1)"
  proof -
    have "length (m_stageOutput eng) < 2 ^ 64"
      using len n64 by auto
    then have "unat (word_of_nat (length (m_stageOutput eng)) :: size_t)
               = length (m_stageOutput eng)"
      by (rule unat_size_of_nat)
    then show ?thesis
      using uf by (simp add: word_unat_eq_iff)
  qed
  define realloc where
    "realloc = (2 \<le> n \<and> (m_prev_dst_width eng \<noteq> GetWidth env dst
                           \<or> m_prev_dst_height eng \<noteq> GetHeight env dst
                           \<or> m_prev_src_width eng \<noteq> GetWidth env src
                           \<or> m_prev_src_height eng \<noteq> GetHeight env src
                           \<or> length (m_stageOutput eng) \<noteq> n - 1))"
  define eng1 where "eng1 = eng\<lparr>m_prev_dst_width := GetWidth env dst,
                            m_prev_dst_height := GetHeight env dst,
                            m_prev_src_width := GetWidth env src,
                            m_prev_src_height := GetHeight env src\<rparr>"
  have pe: "prepare_stage_outputs env src dst eng
            = (if realloc
               then (if vector_max_size < n - 1 then Inl Length_Error
                     else Inr (eng1\<lparr>m_stageOutput :=
                                       map (create_stage_output (FPU env) eng1)
                                         (take (n - 1) (GetStages (m_config eng))),
                                     textures_created := textures_created eng + (n - 1)\<rparr>))
               else Inr eng)"
    unfolding prepare_stage_outputs_def Let_def f0 lw uf realloc_def eng1_def ..
  have t: "take (n - 1) (GetStages (m_config eng)) = butlast (GetStages (m_config eng))"
    unfolding n by (rule take_butlast_length)
  show ?thesis
  proof (cases realloc)
    case True
    have e: "eng' = eng1\<lparr>m_stageOutput :=
                              map (create_stage_output (FPU env) eng1)
                                (butlast (GetStages (m_config eng))),
                            textures_created := textures_created eng + (n - 1)\<rparr>"
      using p True unfolding pe t by (simp split: if_splits)
    have c: "create_stage_output (FPU env) eng' = create_stage_output (FPU env) eng1"
      by (rule create_stage_output_cong) (simp_all add: e)
    have r: "(if realloc then n - 1 else 0) = n - 1"
      using True by simp
    have "m_stageOutput eng'
          = map (create_stage_output (FPU env) eng1) (butlast (GetStages (m_config eng)))
          \<and> m_prev_src_width eng' = GetWidth env src
          \<and> m_prev_src_height eng' = GetHeight env src
          \<and> m_prev_dst_width eng' = GetWidth env dst
          \<and> m_prev_dst_height eng' = GetHeight env dst
          \<and> textures_created eng' = textures_created eng + (n - 1)"
      by (simp add: e eng1_def)
    then show ?thesis
      unfolding c realloc_def[symmetric] r using pos by simp
  next
    case False
    have e: "eng' = eng"
      using p False unfolding pe by simp
    have "m_stageOutput eng
          = map (create_stage_output (FPU env) eng) (butlast (GetStages (m_config eng)))"
    proof (cases "2 \<le> n")
      case True
      then have "length (m_stageOutput eng) = n - 1"
        using False by (simp add: realloc_def)
      then have "m_stageOutput eng \<noteq> []"
        using True by auto
      then show ?thesis using inv by simp
    next
      case False
      then have "length (butlast (GetStages (m_config eng))) = 0"
        using n by simp
      then have "butlast (GetStages (m_config eng)) = []"
        by (simp only: length_0_conv)
      then show ?thesis using inv by auto
    qed
    moreover have "2 \<le> n \<longrightarrow> m_prev_src_width eng = GetWidth env src
                  \<and> m_prev_src_height eng = GetHeight env src
                  \<and> m_prev_dst_width eng = GetWidth env dst
                  \<and> m_prev_dst_height eng = GetHeight env dst"
      using False by (simp add: realloc_def)
    moreover have "(if realloc then n - 1 else 0) = 0"
      using False by simp
    ultimately show ?thesis
      unfolding e realloc_def[symmetric] using pos by simp
  qed
qed

lemma BlitFromTexture_images:
  assumes draw: "BlitFromTexture env src dst src_width src_height layer gamma eng = Inr eng'"
      and inv: "m_stageOutput eng = []
                \<or> m_stageOutput eng
                   = map (create_stage_output (FPU env) eng) (butlast (GetStages (m_config eng)))"
      and bound: "length (GetStages (m_config eng')) \<le> vector_max_size"
      and n: "n = length (GetStages (m_config eng'))"
  shows "0 < n
     \<and> m_stageOutput eng'
         = map (create_stage_output (FPU env) eng') (butlast (GetStages (m_config eng')))
     \<and> (2 \<le> n \<longrightarrow> m_prev_src_width eng' = GetWidth env src
                  \<and> m_prev_src_height eng' = GetHeight env src
                  \<and> m_prev_dst_width eng' = GetWidth env dst
                  \<and> m_prev_dst_height eng' = GetHeight env dst)
     \<and> textures_created eng'
         = textures_created eng
           + (if 2 \<le> n \<and> (m_prev_dst_width eng \<noteq> GetWidth env dst
                           \<or> m_prev_dst_height eng \<noteq> GetHeight env dst
                           \<or> m_prev_src_width eng \<noteq> GetWidth env src
                           \<or> m_prev_src_height eng \<noteq> GetHeight env src
                           \<or> (if shader_unchanged eng then length (m_stageOutput eng) else 0)
                              \<noteq> n - 1)
              then n - 1 else 0)"
proof -
  from draw obtain eng1 eng2 eng5 where
    a: "ApplyShader env eng = Inr eng1"
    and o: "upload_options eng1 = Inr eng2"
    and p0: "prepare_stage_outputs env src dst
       (upload_vertices env src src_width src_height
          (upload_params env src src_width src_height layer gamma eng2)) = Inr eng5"
    and d: "draw_stages env dst ((word_of_nat (length (GetStages (m_config eng5))) :: size_t) - 1) 0
       (GetStages (m_config eng5)) eng5 = Inr eng'"
    by (rule BlitFromTexture_steps)
  define eng4 where "eng4 = upload_vertices env src src_width src_height
          (upload_params env src src_width src_height layer gamma eng2)"
  have p: "prepare_stage_outputs env src dst eng4 = Inr eng5"
    using p0 by (simp add: eng4_def)
  have e41: "GetStages (m_config eng4) = GetStages (m_config eng1)
             \<and> m_stageOutput eng4 = m_stageOutput eng1
             \<and> m_prev_src_width eng4 = m_prev_src_width eng
             \<and> m_prev_src_height eng4 = m_prev_src_height eng
             \<and> m_prev_dst_width eng4 = m_prev_dst_width eng
             \<and> m_prev_dst_height eng4 = m_prev_dst_height eng
             \<and> textures_created eng4 = textures_created eng"
    using ApplyShader_result[OF a] upload_options_frame[OF o]
    by (simp add: eng4_def upload_vertices_frame upload_params_frame)
  have c4: "create_stage_output (FPU env) eng4 = create_stage_output (FPU env) eng"
    by (rule create_stage_output_cong) (simp_all add: e41)
  have so: "m_stageOutput eng4 = (if shader_unchanged eng then m_stageOutput eng else [])"
    using ApplyShader_outputs[OF a] e41 by simp
  have inv4: "m_stageOutput eng4 = []
              \<or> m_stageOutput eng4
                 = map (create_stage_output (FPU env) eng4) (butlast (GetStages (m_config eng4)))"
  proof (cases "shader_unchanged eng")
    case True
    then have "eng1 = eng"
      using a by (simp add: ApplyShader_def)
    then show ?thesis
      unfolding c4 using inv so True e41 by simp
  next
    case False
    then show ?thesis using so by simp
  qed
  have e5: "m_config eng5 = m_config eng4"
    using prepare_stage_outputs_frame[OF p] by simp
  have e': "m_config eng' = m_config eng5
            \<and> m_stageOutput eng' = m_stageOutput eng5
            \<and> m_prev_src_width eng' = m_prev_src_width eng5
            \<and> m_prev_src_height eng' = m_prev_src_height eng5
            \<and> m_prev_dst_width eng' = m_prev_dst_width eng5
            \<and> m_prev_dst_height eng' = m_prev_dst_height eng5
            \<and> textures_created eng' = textures_created eng5"
    using draw_stages_frame[OF d] by simp
  have c': "create_stage_output (FPU env) eng' = create_stage_output (FPU env) eng5"
    by (rule create_stage_output_cong) (simp_all add: e')
  have bound4: "length (GetStages (m_config eng4)) \<le> vector_max_size"
    using bound e' e5 by simp
  have n4: "n = length (GetStages (m_config eng4))"
    using n e' e5 by simp
  note r = prepare_stage_outputs_images[OF p inv4 bound4 n4]
  have l: "length (m_stageOutput eng4)
           = (if shader_unchanged eng then length (m_stageOutput eng) else 0)"
    using so by simp
  show ?thesis
    unfolding c' using r e' e5 e41 l by simp
qed

lemma BlitFromTexture_images_twice:
  assumes inv: "m_stageOutput eng = []
                \<or> m_stageOutput eng
                   = map (create_stage_output (FPU env) eng) (butlast (GetStages (m_config eng)))"
      and draw: "BlitFromTexture env src dst src_width src_height layer gamma eng = Inr eng'"
      and bound: "length (GetStages (m_config eng')) \<le> vector_max_size"
      and n: "n = length (GetStages (m_config eng'))"
  shows "length (m_stageOutput eng') = n - 1
     \<and> m_stageOutput eng'
         = map (create_stage_output (FPU env) eng') (butlast (GetStages (m_config eng')))
     \<and> (2 \<le> n \<longrightarrow> m_prev_src_width eng' = GetWidth env src
                  \<and> m_prev_src_height eng' = GetHeight env src
                  \<and> m_prev_dst_width eng' = GetWidth env dst
                  \<and> m_prev_dst_height eng' = GetHeight env dst)
     \<and> textures_created eng'
         = textures_created eng
           + (if 2 \<le> n \<and> (m_prev_dst_width eng \<noteq> GetWidth env dst
                           \<or> m_prev_dst_height eng \<noteq> GetHeight env dst
                           \<or> m_prev_src_width eng \<noteq> GetWidth env src
                           \<or> m_prev_src_height eng \<noteq> GetHeight env src
                           \<or> (if shader_unchanged eng then length (m_stageOutput eng) else 0)
                              \<noteq> n - 1)
              then n - 1 else 0)
     \<and> (\<forall>eng''. shader_unchanged eng'
            \<and> BlitFromTexture env src dst src_width2 src_height2 layer2 gamma2 eng' = Inr eng''
          \<longrightarrow> textures_created eng'' = textures_created eng'
              \<and> m_stageOutput eng'' = m_stageOutput eng')"
proof -
  note first = BlitFromTexture_images[OF draw inv bound n]
  have second: "textures_created eng'' = textures_created eng'
                \<and> m_stageOutput eng'' = m_stageOutput eng'"
    if u: "shader_unchanged eng'"
      and d2: "BlitFromTexture env src dst src_width2 src_height2 layer2 gamma2 eng' = Inr eng''"
    for eng''
  proof -
    from d2 obtain eng1 eng2 eng5 where
      a: "ApplyShader env eng' = Inr eng1"
      and o: "upload_options eng1 = Inr eng2"
      and p: "prepare_stage_outputs env src dst
         (upload_vertices env src src_width2 src_height2
            (upload_params env src src_width2 src_height2 layer2 gamma2 eng2)) = Inr eng5"
      and d: "draw_stages env dst ((word_of_nat (length (GetStages (m_config eng5))) :: size_t) - 1) 0
         (GetStages (m_config eng5)) eng5 = Inr eng''"
      by (rule BlitFromTexture_steps)
    have "eng1 = eng'"
      using a u by (simp add: ApplyShader_def)
    then have st: "GetStages (m_config eng'') = GetStages (m_config eng')"
      using upload_options_frame[OF o] prepare_stage_outputs_frame[OF p] draw_stages_frame[OF d]
      by (simp add: upload_vertices_frame upload_params_frame)
    have inv': "m_stageOutput eng' = []
                \<or> m_stageOutput eng'
                   = map (create_stage_output (FPU env) eng') (butlast (GetStages (m_config eng')))"
      using first by simp
    have bound': "length (GetStages (m_config eng'')) \<le> vector_max_size"
      using bound st by simp
    have n': "n = length (GetStages (m_config eng''))"
      using n st by simp
    note s = BlitFromTexture_images[OF d2 inv' bound' n']
    have len: "length (m_stageOutput eng') = n - 1"
      using first n by simp
    have t: "textures_created eng'' = textures_created eng'"
      using s first u len by (simp split: if_splits)
    have "m_stageOutput eng'' = m_stageOutput eng'"
    proof (cases "2 \<le> n")
      case True
      have "create_stage_output (FPU env) eng'' = create_stage_output (FPU env) eng'"
        by (rule create_stage_output_cong) (use s first True in simp_all)
      then show ?thesis
        using s first st by simp
    next
      case False
      then have "length (butlast (GetStages (m_config eng'))) = 0"
        using n by simp
      then have "butlast (GetStages (m_config eng')) = []"
        by (simp only: length_0_conv)
      then show ?thesis
        using s first st by simp
    qed
    with t show ?thesis by simp
  qed
  show ?thesis
    using first second n by simp
qed

lemma images_explicit:
  "(xs = map (create_stage_output F eng) ys)
   = (length xs = length ys
      \<and> (\<forall>i < length xs.
            xs ! i
            = \<lparr>tex_width = ftou F (fmul F (itof F (uint (if m_use_source_resolution (ys ! i)
                                                          then m_prev_src_width eng
                                                          else m_prev_dst_width eng)))
                                      (m_outputScale (ys ! i))),
               tex_height = ftou F (fmul F (itof F (uint (if m_use_source_resolution (ys ! i)
                                                           then m_prev_src_height eng
                                                           else m_prev_dst_height eng)))
                                       (m_outputScale (ys ! i)))\<rparr>))"
  by (auto simp: list_eq_iff_nth_eq create_stage_output_def Let_def)

subsection \<open>Draws that return\<close>

lemma draw_stages_completes:
  assumes "i + length stages \<le> length (m_pshader eng)"
      and "\<forall>j. i \<le> j \<and> j < i + length stages \<and> j \<noteq> unat finalstage
               \<longrightarrow> j < length (m_stageOutput eng)"
      and "\<forall>stage \<in> set stages. length (m_inputs stage) \<le> 4
               \<and> (\<forall>idx \<in> set (m_inputs stage). unat idx < length (m_stageOutput eng))"
  shows "\<exists>eng'. draw_stages env dst finalstage i stages eng = Inr eng'"
  using assms
proof (induction stages arbitrary: i eng)
  case Nil
  then show ?case by simp
next
  case (Cons stage stages)
  have 1: "\<not> (i \<noteq> unat finalstage \<and> length (m_stageOutput eng) \<le> i)"
    using Cons.prems(2) by (auto simp: not_le)
  have 2: "\<not> length (m_pshader eng) \<le> i"
    using Cons.prems(1) by simp
  have 3: "\<not> (4 < length (m_inputs stage)
               \<or> list_ex (\<lambda>idx. length (m_stageOutput eng) \<le> unat idx) (m_inputs stage))"
    using Cons.prems(3) by (auto simp: list_ex_iff not_le)
  have "\<exists>eng'. draw_stages env dst finalstage (Suc i) stages (eng\<lparr>draws := draws eng @ [call]\<rparr>)
                 = Inr eng'" for call
    using Cons.prems by (intro Cons.IH) auto
  then show ?case
    using 1 2 3 by (simp add: Let_def)
qed

lemma prepare_stage_outputs_completes:
  assumes "GetStages (m_config eng) \<noteq> []"
      and "length (GetStages (m_config eng)) \<le> vector_max_size"
  shows "\<exists>eng'. prepare_stage_outputs env src dst eng = Inr eng'"
proof -
  have "unat ((word_of_nat (length (GetStages (m_config eng))) :: size_t) - 1)
        = length (GetStages (m_config eng)) - 1"
    using assms by (intro unat_finalstage) (simp_all add: vector_max_size_def)
  then have "\<not> vector_max_size
               < unat ((word_of_nat (length (GetStages (m_config eng))) :: size_t) - 1)"
    using assms by simp
  then show ?thesis
    by (simp add: prepare_stage_outputs_def Let_def)
qed

lemma upload_options_completes:
  assumes "\<not> (IsDirty (m_config eng) \<and> HasOptions (m_config eng) \<and> m_options eng = None)"
  shows "\<exists>eng'. upload_options eng = Inr eng'"
  using assms by (auto simp: upload_options_def split_beta)

lemma BlitFromTexture_completes:
  assumes a: "ApplyShader env eng = Inr eng1"
      and opt: "\<not> (IsDirty (m_config eng1) \<and> HasOptions (m_config eng1)
                    \<and> m_options eng1 = None)"
      and inv: "m_stageOutput eng1 = []
                \<or> m_stageOutput eng1
                   = map (create_stage_output (FPU env) eng1)
                       (butlast (GetStages (m_config eng1)))"
      and ne: "GetStages (m_config eng1) \<noteq> []"
      and bound: "length (GetStages (m_config eng1)) \<le> vector_max_size"
      and ps: "length (m_pshader eng1) = length (GetStages (m_config eng1))"
      and inputs: "\<forall>stage \<in> set (GetStages (m_config eng1)). length (m_inputs stage) \<le> 4
                     \<and> (\<forall>idx \<in> set (m_inputs stage).
                           unat idx < length (GetStages (m_config eng1)) - 1)"
  shows "\<exists>eng'. BlitFromTexture env src dst src_width src_height layer gamma eng = Inr eng'"
proof -
  obtain eng2 where o: "upload_options eng1 = Inr eng2"
    using upload_options_completes[OF opt] by blast
  define eng4 where "eng4 = upload_vertices env src src_width src_height
          (upload_params env src src_width src_height layer gamma eng2)"
  have e41: "GetStages (m_config eng4) = GetStages (m_config eng1)
             \<and> m_stageOutput eng4 = m_stageOutput eng1
             \<and> m_pshader eng4 = m_pshader eng1
             \<and> m_prev_src_width eng4 = m_prev_src_width eng1
             \<and> m_prev_src_height eng4 = m_prev_src_height eng1
             \<and> m_prev_dst_width eng4 = m_prev_dst_width eng1
             \<and> m_prev_dst_height eng4 = m_prev_dst_height eng1"
    using upload_options_frame[OF o]
    by (simp add: eng4_def upload_vertices_frame upload_params_frame)
  have c4: "create_stage_output (FPU env) eng4 = create_stage_output (FPU env) eng1"
    by (rule create_stage_output_cong) (simp_all add: e41)
  have inv4: "m_stageOutput eng4 = []
              \<or> m_stageOutput eng4
                 = map (create_stage_output (FPU env) eng4) (butlast (GetStages (m_config eng4)))"
    unfolding c4 using inv e41 by simp
  have ne4: "GetStages (m_config eng4) \<noteq> []"
    and bound4: "length (GetStages (m_config eng4)) \<le> vector_max_size"
    using ne bound e41 by simp_all
  obtain eng5 where p: "prepare_stage_outputs env src dst eng4 = Inr eng5"
    using prepare_stage_outputs_completes[OF ne4 bound4] by blast
  note r = prepare_stage_outputs_images[OF p inv4 bound4 refl]
  have e5: "m_config eng5 = m_config eng4 \<and> m_pshader eng5 = m_pshader eng4"
    using prepare_stage_outputs_frame[OF p] by simp
  define n where "n = length (GetStages (m_config eng5))"
  have n1: "n = length (GetStages (m_config eng1))"
    using e5 e41 by (simp add: n_def)
  have l5: "length (m_stageOutput eng5) = n - 1"
    using r e5 by (simp add: n_def)
  have uf: "unat ((word_of_nat n :: size_t) - 1) = n - 1"
    using ne bound n1 by (intro unat_finalstage) (simp_all add: vector_max_size_def)
  have "\<exists>eng'. draw_stages env dst ((word_of_nat n :: size_t) - 1) 0
                  (GetStages (m_config eng5)) eng5 = Inr eng'"
  proof (rule draw_stages_completes)
    show "0 + length (GetStages (m_config eng5)) \<le> length (m_pshader eng5)"
      using ps e5 e41 by simp
    show "\<forall>j. 0 \<le> j \<and> j < 0 + length (GetStages (m_config eng5))
              \<and> j \<noteq> unat ((word_of_nat n :: size_t) - 1)
            \<longrightarrow> j < length (m_stageOutput eng5)"
      unfolding uf l5 by (auto simp: n_def)
    show "\<forall>stage \<in> set (GetStages (m_config eng5)). length (m_inputs stage) \<le> 4
            \<and> (\<forall>idx \<in> set (m_inputs stage). unat idx < length (m_stageOutput eng5))"
      unfolding l5 n1 using inputs e5 e41 by simp
  qed
  then show ?thesis
    using a o p by (simp add: BlitFromTexture_def Let_def n_def flip: eng4_def)
qed

lemma upload_options_dirty:
  assumes "upload_options eng = Inr eng'" "IsDirty (m_config eng')"
  shows "eng' = eng"
  using assms by (auto simp: upload_options_def split_beta split: if_splits)

lemma BlitFromTexture_unchanged:
  assumes u: "shader_unchanged eng"
      and d: "BlitFromTexture env src dst src_width src_height layer gamma eng = Inr eng'"
  shows "shader_unchanged eng'
     \<and> GetStages (m_config eng') = GetStages (m_config eng)
     \<and> m_pshader eng' = m_pshader eng
     \<and> m_options eng' = m_options eng
     \<and> (IsDirty (m_config eng') \<longrightarrow> m_config eng' = m_config eng)"
proof -
  from d obtain eng1 eng2 eng5 where
    a: "ApplyShader env eng = Inr eng1"
    and o: "upload_options eng1 = Inr eng2"
    and p: "prepare_stage_outputs env src dst
       (upload_vertices env src src_width src_height
          (upload_params env src src_width src_height layer gamma eng2)) = Inr eng5"
    and d: "draw_stages env dst ((word_of_nat (length (GetStages (m_config eng5))) :: size_t) - 1) 0
       (GetStages (m_config eng5)) eng5 = Inr eng'"
    by (rule BlitFromTexture_steps)
  have e1: "eng1 = eng"
    using a u by (simp add: ApplyShader_def)
  have e: "m_config eng' = m_config eng2 \<and> m_initialized eng' = m_initialized eng
           \<and> g_ActiveConfig_sPostProcessingShader eng' = g_ActiveConfig_sPostProcessingShader eng
           \<and> m_prev_samples eng' = m_prev_samples eng
           \<and> AAMode_Count eng' = AAMode_Count eng
           \<and> m_pshader eng' = m_pshader eng
           \<and> m_options eng' = m_options eng"
    using upload_options_frame[OF o] prepare_stage_outputs_frame[OF p] draw_stages_frame[OF d]
    by (simp add: e1 upload_vertices_frame upload_params_frame)
  have "IsDirty (m_config eng2) \<longrightarrow> m_config eng2 = m_config eng"
    using upload_options_dirty[OF o] e1 by auto
  then show ?thesis
    using e u upload_options_frame[OF o] by (simp add: shader_unchanged_def e1)
qed

lemma draw_ready_completes:
  assumes "draw_ready env eng"
  shows "\<exists>eng'. BlitFromTexture env src dst src_width src_height layer gamma eng = Inr eng'"
proof -
  have u: "shader_unchanged eng"
    using assms by (simp add: draw_ready_def)
  show ?thesis
    by (rule BlitFromTexture_completes[OF ApplyShader_unchanged[OF u]])
       (use assms in \<open>simp_all add: draw_ready_def\<close>)
qed

lemma draw_ready_preserved:
  assumes r: "draw_ready env eng"
      and d: "BlitFromTexture env src dst src_width src_height layer gamma eng = Inr eng'"
  shows "draw_ready env eng'"
proof -
  have u: "shader_unchanged eng"
    using r by (simp add: draw_ready_def)
  note f = BlitFromTexture_unchanged[OF u d]
  have inv: "m_stageOutput eng = []
             \<or> m_stageOutput eng
                = map (create_stage_output (FPU env) eng) (butlast (GetStages (m_config eng)))"
    using r by (simp add: draw_ready_def)
  have bound: "length (GetStages (m_config eng')) \<le> vector_max_size"
    using r f by (simp add: draw_ready_def)
  note i = BlitFromTexture_images[OF d inv bound refl]
  have o: "\<not> (IsDirty (m_config eng') \<and> HasOptions (m_config eng') \<and> m_options eng' = None)"
    using r f by (auto simp: draw_ready_def)
  show ?thesis
    unfolding draw_ready_def using r f i o by (simp add: draw_ready_def)
qed


subsection \<open>The frame parameters\<close>

lemma upload_params_buffer:
  "params_buffer (upload_params env src src_width src_height layer gamma eng)
   = Some \<lparr>Time = GetTimeElapsed env, Layer = layer,
           native_gamma = fdiv (FPU env) (itof (FPU env) 1) gamma,
           resolution = [itof (FPU env) (sint src_width), itof (FPU env) (sint src_height),
                         reciprocal_size (FPU env) src_width,
                         reciprocal_size (FPU env) src_height],
           targetscale =
             (case uv_rectangle (FPU env) src src_width src_height of
                (u0, u1, v0, v1) \<Rightarrow>
                  [u0, v0, fdiv (FPU env) (itof (FPU env) 1) (fsub (FPU env) u1 u0),
                   fdiv (FPU env) (itof (FPU env) 1) (fsub (FPU env) v1 v0)])\<rparr>"
  by (simp add: upload_params_def Let_def split_beta)

text \<open>
  Claim C8. Every call of \<^verbatim>\<open>BlitFromTexture\<close> that returns has stored a parameter
  block computed from the arguments of this call, whatever the buffer held before:
  \<^verbatim>\<open>native_gamma\<close> is \<open>1 / gamma\<close>, \<^verbatim>\<open>resolution\<close> is the source width and height followed
  by their reciprocals, \<^verbatim>\<open>Layer\<close> is the layer and \<^verbatim>\<open>Time\<close> the elapsed time.
\<close>

theorem frame_parameters_uploaded:
  assumes "BlitFromTexture env src dst src_width src_height layer gamma eng = Inr eng'"
  shows "\<exists>params. params_buffer eng' = Some params
           \<and> native_gamma params = fdiv (FPU env) (itof (FPU env) 1) gamma
           \<and> resolution params
               = [itof (FPU env) (sint src_width), itof (FPU env) (sint src_height),
                  fdiv (FPU env) (itof (FPU env) 1) (itof (FPU env) (sint src_width)),
                  fdiv (FPU env) (itof (FPU env) 1) (itof (FPU env) (sint src_height))]
           \<and> Layer params = layer \<and> Time params = GetTimeElapsed env"
proof -
  from assms obtain eng1 eng2 eng5 where
    p: "prepare_stage_outputs env src dst
       (upload_vertices env src src_width src_height
          (upload_params env src src_width src_height layer gamma eng2)) = Inr eng5"
    and d: "draw_stages env dst ((word_of_nat (length (GetStages (m_config eng5))) :: size_t) - 1) 0
       (GetStages (m_config eng5)) eng5 = Inr eng'"
    by (rule BlitFromTexture_steps)
  have "params_buffer eng'
        = params_buffer (upload_params env src src_width src_height layer gamma eng2)"
    using draw_stages_frame[OF d] prepare_stage_outputs_frame[OF p]
    by (simp add: upload_vertices_frame)
  then show ?thesis
    by (simp add: upload_params_buffer reciprocal_size_def)
qed

lemma example_single_stage_draw:
  "BlitFromTexture example_env (rect 0 0 64 64) (rect 0 0 128 128) 64 64 0 (11 / 5)
     (example_engine example_default_stages)
   = Inr ((upload_vertices example_env (rect 0 0 64 64) 64 64
            (upload_params example_env (rect 0 0 64 64) 64 64 0 (11 / 5)
               (example_engine example_default_stages)))
          \<lparr>draws := [\<lparr>draw_stage = 0, draw_shader = Some 1, draw_to_backbuffer = True,
                      draw_viewport = [0, 0, 128, 128], draw_inputs = [],
                      draw_vertex_offset = 0\<rparr>]\<rparr>)"
  by (simp add: BlitFromTexture_def ApplyShader_def shader_unchanged_def example_engine_def
      DX11PostProcessing_new_def example_config_def upload_options_def HasOptions_def
      upload_params_def upload_vertices_def uv_rectangle_def reciprocal_size_def
      prepare_stage_outputs_def example_env_def exact_fpu_def rect_def example_stage_def
      example_default_stages_def
      quad_coords_def Let_def)

text \<open>
  The example of claim C8, in exact arithmetic: one stage, no options, source
  rectangle (0, 0, 64, 64), destination rectangle (0, 0, 128, 128), gamma 2.2. The
  call returns, \<^verbatim>\<open>native_gamma\<close> is 5/11, which is 0.4545 to four places, and
  \<^verbatim>\<open>resolution\<close> is (64, 64, 1/64, 1/64).
\<close>

theorem frame_parameters_uploaded_witness:
  "\<exists>eng'. BlitFromTexture example_env (rect 0 0 64 64) (rect 0 0 128 128) 64 64 0 (11 / 5)
            (example_engine example_default_stages) = Inr eng'
         \<and> (\<exists>params. params_buffer eng' = Some params
               \<and> native_gamma params = 5 / 11
               \<and> \<bar>native_gamma params - 0.4545\<bar> < 0.0001
               \<and> resolution params = [64, 64, 1 / 64, 1 / 64])"
proof -
  obtain eng' where
    b: "BlitFromTexture example_env (rect 0 0 64 64) (rect 0 0 128 128) 64 64 0 (11 / 5)
          (example_engine example_default_stages) = Inr eng'"
    using example_single_stage_draw by blast
  from frame_parameters_uploaded[OF b] obtain params where
    p: "params_buffer eng' = Some params"
    and g: "native_gamma params = fdiv (FPU example_env) (itof (FPU example_env) 1) (11 / 5)"
    and r: "resolution params
            = [itof (FPU example_env) (sint (64 :: u32)), itof (FPU example_env) (sint (64 :: u32)),
               fdiv (FPU example_env) (itof (FPU example_env) 1)
                 (itof (FPU example_env) (sint (64 :: u32))),
               fdiv (FPU example_env) (itof (FPU example_env) 1)
                 (itof (FPU example_env) (sint (64 :: u32)))]"
    by blast
  have g': "native_gamma params = 5 / 11"
    using g by (simp add: example_env_simps exact_fpu_simps)
  have r': "resolution params = [64, 64, 1 / 64, 1 / 64]"
    using r by (simp add: example_env_simps exact_fpu_simps)
  have "\<bar>native_gamma params - 0.4545\<bar> < 0.0001"
    unfolding g' by simp
  with b p g' r' show ?thesis by blast
qed

subsection \<open>The vertex geometry\<close>

lemma BlitFromTexture_vertex_state:
  assumes b: "BlitFromTexture env src dst src_width src_height layer gamma eng = Inr eng'"
      and uv: "uv_rectangle (FPU env) src src_width src_height = (u0, u1, v0, v1)"
      and c: "changed = (m_vertex_buffer_observer eng \<or> fne (FPU env) (pu0 eng) u0
                         \<or> fne (FPU env) (pu1 eng) u1 \<or> fne (FPU env) (pv0 eng) v0
                         \<or> fne (FPU env) (pv1 eng) v1)"
  shows "m_vertexbuffer eng'
           = (if changed then m_vertexbuffer eng @ [quad_coords (FPU env) u0 u1 v0 v1]
              else m_vertexbuffer eng)
         \<and> \<not> m_vertex_buffer_observer eng'
         \<and> m_vertex_buffer_offset eng'
             = (if changed then AppendData env (m_vertexbuffer eng)
                else m_vertex_buffer_offset eng)
         \<and> pu0 eng' = (if changed then u0 else pu0 eng)
         \<and> pu1 eng' = (if changed then u1 else pu1 eng)
         \<and> pv0 eng' = (if changed then v0 else pv0 eng)
         \<and> pv1 eng' = (if changed then v1 else pv1 eng)"
proof -
  from b obtain eng1 eng2 eng5 where
    a: "ApplyShader env eng = Inr eng1"
    and o: "upload_options eng1 = Inr eng2"
    and p: "prepare_stage_outputs env src dst
       (upload_vertices env src src_width src_height
          (upload_params env src src_width src_height layer gamma eng2)) = Inr eng5"
    and d: "draw_stages env dst ((word_of_nat (length (GetStages (m_config eng5))) :: size_t) - 1) 0
       (GetStages (m_config eng5)) eng5 = Inr eng'"
    by (rule BlitFromTexture_steps)
  define eng3 where "eng3 = upload_params env src src_width src_height layer gamma eng2"
  have e3: "m_vertexbuffer eng3 = m_vertexbuffer eng
            \<and> m_vertex_buffer_observer eng3 = m_vertex_buffer_observer eng
            \<and> m_vertex_buffer_offset eng3 = m_vertex_buffer_offset eng
            \<and> pu0 eng3 = pu0 eng \<and> pu1 eng3 = pu1 eng
            \<and> pv0 eng3 = pv0 eng \<and> pv1 eng3 = pv1 eng"
    using ApplyShader_result[OF a] upload_options_frame[OF o]
    by (simp add: eng3_def upload_params_frame)
  define eng4 where "eng4 = upload_vertices env src src_width src_height eng3"
  have e': "m_vertexbuffer eng' = m_vertexbuffer eng4
            \<and> m_vertex_buffer_observer eng' = m_vertex_buffer_observer eng4
            \<and> m_vertex_buffer_offset eng' = m_vertex_buffer_offset eng4
            \<and> pu0 eng' = pu0 eng4 \<and> pu1 eng' = pu1 eng4
            \<and> pv0 eng' = pv0 eng4 \<and> pv1 eng' = pv1 eng4"
    using draw_stages_frame[OF d] prepare_stage_outputs_frame[OF p]
    by (simp add: eng4_def eng3_def)
  have e4: "m_vertexbuffer eng4
              = (if changed then m_vertexbuffer eng @ [quad_coords (FPU env) u0 u1 v0 v1]
                 else m_vertexbuffer eng)
            \<and> \<not> m_vertex_buffer_observer eng4
            \<and> m_vertex_buffer_offset eng4
                = (if changed then AppendData env (m_vertexbuffer eng)
                   else m_vertex_buffer_offset eng)
            \<and> pu0 eng4 = (if changed then u0 else pu0 eng)
            \<and> pu1 eng4 = (if changed then u1 else pu1 eng)
            \<and> pv0 eng4 = (if changed then v0 else pv0 eng)
            \<and> pv1 eng4 = (if changed then v1 else pv1 eng)"
    using e3 uv c by (simp add: eng4_def upload_vertices_def Let_def)
  show ?thesis
    using e' e4 by simp
qed

text \<open>
  Claim C7, for bounds that are numbers. The four bounds of the normalised rectangle
  are the left and right bounds of the source rectangle times the reciprocal of the
  source width, and its top and bottom bounds times the reciprocal of the source
  height. A draw appends the quad of these bounds to the vertex buffer, and records
  them, exactly when the observer flag is set (as it is in a new engine) or one of
  the four bounds compares unequal to the value recorded before. After a draw that
  returned the flag is clear, so on the next draw the quad is appended exactly when
  a bound compares unequal to the recorded one, and the recorded values are replaced
  exactly then. A draw that repeats the source rectangle and the source size of the
  draw before it appends nothing, provided the four bounds compare equal to
  themselves, that is, none of them is a NaN.
\<close>

theorem geometry_uploaded_iff_rectangle_changed:
  assumes first_draw:
        "BlitFromTexture env src1 dst1 src_width1 src_height1 layer1 gamma1 eng = Inr eng1"
      and second_draw:
        "BlitFromTexture env src dst src_width src_height layer gamma eng1 = Inr eng2"
      and a0: "a0 = fmul (FPU env) (itof (FPU env) (sint (left_rect src1)))
                          (fdiv (FPU env) (itof (FPU env) 1) (itof (FPU env) (sint src_width1)))"
      and a1: "a1 = fmul (FPU env) (itof (FPU env) (sint (right_rect src1)))
                          (fdiv (FPU env) (itof (FPU env) 1) (itof (FPU env) (sint src_width1)))"
      and b0: "b0 = fmul (FPU env) (itof (FPU env) (sint (top_rect src1)))
                          (fdiv (FPU env) (itof (FPU env) 1) (itof (FPU env) (sint src_height1)))"
      and b1: "b1 = fmul (FPU env) (itof (FPU env) (sint (bottom_rect src1)))
                          (fdiv (FPU env) (itof (FPU env) 1) (itof (FPU env) (sint src_height1)))"
      and u0: "u0 = fmul (FPU env) (itof (FPU env) (sint (left_rect src)))
                          (fdiv (FPU env) (itof (FPU env) 1) (itof (FPU env) (sint src_width)))"
      and u1: "u1 = fmul (FPU env) (itof (FPU env) (sint (right_rect src)))
                          (fdiv (FPU env) (itof (FPU env) 1) (itof (FPU env) (sint src_width)))"
      and v0: "v0 = fmul (FPU env) (itof (FPU env) (sint (top_rect src)))
                          (fdiv (FPU env) (itof (FPU env) 1) (itof (FPU env) (sint src_height)))"
      and v1: "v1 = fmul (FPU env) (itof (FPU env) (sint (bottom_rect src)))
                          (fdiv (FPU env) (itof (FPU env) 1) (itof (FPU env) (sint src_height)))"
  shows "m_vertexbuffer eng1
           = (if m_vertex_buffer_observer eng
                 \<or> fne (FPU env) (pu0 eng) a0 \<or> fne (FPU env) (pu1 eng) a1
                 \<or> fne (FPU env) (pv0 eng) b0 \<or> fne (FPU env) (pv1 eng) b1
              then m_vertexbuffer eng
                   @ [[\<lparr>vx = itof (FPU env) (- 1), vy = itof (FPU env) 1, vz = itof (FPU env) 0, vu0 = a0, vv0 = b0\<rparr>,
                      \<lparr>vx = itof (FPU env) 1, vy = itof (FPU env) 1, vz = itof (FPU env) 0, vu0 = a1, vv0 = b0\<rparr>,
                      \<lparr>vx = itof (FPU env) (- 1), vy = itof (FPU env) (- 1), vz = itof (FPU env) 0, vu0 = a0, vv0 = b1\<rparr>,
                      \<lparr>vx = itof (FPU env) 1, vy = itof (FPU env) (- 1), vz = itof (FPU env) 0, vu0 = a1, vv0 = b1\<rparr>]]
              else m_vertexbuffer eng)
         \<and> (pu0 eng1, pu1 eng1, pv0 eng1, pv1 eng1)
             = (if m_vertex_buffer_observer eng
                   \<or> fne (FPU env) (pu0 eng) a0 \<or> fne (FPU env) (pu1 eng) a1
                   \<or> fne (FPU env) (pv0 eng) b0 \<or> fne (FPU env) (pv1 eng) b1
                then (a0, a1, b0, b1)
                else (pu0 eng, pu1 eng, pv0 eng, pv1 eng))
         \<and> \<not> m_vertex_buffer_observer eng1
         \<and> m_vertexbuffer eng2
             = (if fne (FPU env) (pu0 eng1) u0 \<or> fne (FPU env) (pu1 eng1) u1
                   \<or> fne (FPU env) (pv0 eng1) v0 \<or> fne (FPU env) (pv1 eng1) v1
                then m_vertexbuffer eng1
                     @ [[\<lparr>vx = itof (FPU env) (- 1), vy = itof (FPU env) 1, vz = itof (FPU env) 0, vu0 = u0, vv0 = v0\<rparr>,
                        \<lparr>vx = itof (FPU env) 1, vy = itof (FPU env) 1, vz = itof (FPU env) 0, vu0 = u1, vv0 = v0\<rparr>,
                        \<lparr>vx = itof (FPU env) (- 1), vy = itof (FPU env) (- 1), vz = itof (FPU env) 0, vu0 = u0, vv0 = v1\<rparr>,
                        \<lparr>vx = itof (FPU env) 1, vy = itof (FPU env) (- 1), vz = itof (FPU env) 0, vu0 = u1, vv0 = v1\<rparr>]]
                else m_vertexbuffer eng1)
         \<and> (pu0 eng2, pu1 eng2, pv0 eng2, pv1 eng2)
             = (if fne (FPU env) (pu0 eng1) u0 \<or> fne (FPU env) (pu1 eng1) u1
                   \<or> fne (FPU env) (pv0 eng1) v0 \<or> fne (FPU env) (pv1 eng1) v1
                then (u0, u1, v0, v1)
                else (pu0 eng1, pu1 eng1, pv0 eng1, pv1 eng1))
         \<and> (src = src1 \<and> src_width = src_width1 \<and> src_height = src_height1
              \<and> \<not> fne (FPU env) u0 u0 \<and> \<not> fne (FPU env) u1 u1
              \<and> \<not> fne (FPU env) v0 v0 \<and> \<not> fne (FPU env) v1 v1
              \<longrightarrow> m_vertexbuffer eng2 = m_vertexbuffer eng1)"
proof -
  have uv1: "uv_rectangle (FPU env) src1 src_width1 src_height1 = (a0, a1, b0, b1)"
    by (simp add: uv_rectangle_def reciprocal_size_def Let_def a0 a1 b0 b1)
  have uv: "uv_rectangle (FPU env) src src_width src_height = (u0, u1, v0, v1)"
    by (simp add: uv_rectangle_def reciprocal_size_def Let_def u0 u1 v0 v1)
  note s1 = BlitFromTexture_vertex_state[OF first_draw uv1 refl, unfolded quad_coords_def]
  note s2 = BlitFromTexture_vertex_state[OF second_draw uv refl, unfolded quad_coords_def]
  have same: "m_vertexbuffer eng2 = m_vertexbuffer eng1"
    if "src = src1" "src_width = src_width1" "src_height = src_height1"
      "\<not> fne (FPU env) u0 u0" "\<not> fne (FPU env) u1 u1"
      "\<not> fne (FPU env) v0 v0" "\<not> fne (FPU env) v1 v1"
  proof -
    have "a0 = u0 \<and> a1 = u1 \<and> b0 = v0 \<and> b1 = v1"
      using uv uv1 that by simp
    then show ?thesis
      using s1 s2 that by (simp split: if_splits)
  qed
  show ?thesis
    using s1 s2 same by (simp split: if_splits)
qed

lemma example_second_draw:
  "BlitFromTexture example_env (rect 0 0 64 64) (rect 0 0 128 128) 64 64 0 (11 / 5)
     ((upload_vertices example_env (rect 0 0 64 64) 64 64
        (upload_params example_env (rect 0 0 64 64) 64 64 0 (11 / 5)
           (example_engine example_default_stages)))
      \<lparr>draws := [\<lparr>draw_stage = 0, draw_shader = Some 1, draw_to_backbuffer = True,
                  draw_viewport = [0, 0, 128, 128], draw_inputs = [],
                  draw_vertex_offset = 0\<rparr>]\<rparr>)
   = Inr ((upload_vertices example_env (rect 0 0 64 64) 64 64
        (upload_params example_env (rect 0 0 64 64) 64 64 0 (11 / 5)
           (example_engine example_default_stages)))
      \<lparr>draws := [\<lparr>draw_stage = 0, draw_shader = Some 1, draw_to_backbuffer = True,
                  draw_viewport = [0, 0, 128, 128], draw_inputs = [],
                  draw_vertex_offset = 0\<rparr>,
                 \<lparr>draw_stage = 0, draw_shader = Some 1, draw_to_backbuffer = True,
                  draw_viewport = [0, 0, 128, 128], draw_inputs = [],
                  draw_vertex_offset = 0\<rparr>]\<rparr>)"
  by (simp add: BlitFromTexture_def ApplyShader_def shader_unchanged_def example_engine_def
      DX11PostProcessing_new_def example_config_def upload_options_def HasOptions_def
      upload_params_def upload_vertices_def uv_rectangle_def reciprocal_size_def
      prepare_stage_outputs_def example_env_def exact_fpu_def rect_def example_stage_def
      example_default_stages_def
      quad_coords_def Let_def)

text \<open>
  The theorem at two draws of the source rectangle (0, 0, 64, 64) of a 64 by 64
  source, from an engine that has not drawn yet: both return, the first appends the
  quad, the second appends nothing and the recorded bounds are (0, 1, 0, 1).
\<close>

theorem geometry_uploaded_iff_rectangle_changed_witness:
  "\<exists>eng1 eng2.
     BlitFromTexture example_env (rect 0 0 64 64) (rect 0 0 128 128) 64 64 0 (11 / 5)
       (example_engine example_default_stages) = Inr eng1
     \<and> BlitFromTexture example_env (rect 0 0 64 64) (rect 0 0 128 128) 64 64 0 (11 / 5) eng1
         = Inr eng2
     \<and> m_vertexbuffer eng1
         = [[\<lparr>vx = - 1, vy = 1, vz = 0, vu0 = 0, vv0 = 0\<rparr>,
             \<lparr>vx = 1, vy = 1, vz = 0, vu0 = 1, vv0 = 0\<rparr>,
             \<lparr>vx = - 1, vy = - 1, vz = 0, vu0 = 0, vv0 = 1\<rparr>,
             \<lparr>vx = 1, vy = - 1, vz = 0, vu0 = 1, vv0 = 1\<rparr>]]
     \<and> \<not> m_vertex_buffer_observer eng1
     \<and> m_vertexbuffer eng2 = m_vertexbuffer eng1
     \<and> (pu0 eng2, pu1 eng2, pv0 eng2, pv1 eng2) = (0, 1, 0, 1)"
proof -
  obtain eng1 where
    b1: "BlitFromTexture example_env (rect 0 0 64 64) (rect 0 0 128 128) 64 64 0 (11 / 5)
          (example_engine example_default_stages) = Inr eng1"
    and e1: "eng1 = (upload_vertices example_env (rect 0 0 64 64) 64 64
        (upload_params example_env (rect 0 0 64 64) 64 64 0 (11 / 5)
           (example_engine example_default_stages)))
      \<lparr>draws := [\<lparr>draw_stage = 0, draw_shader = Some 1, draw_to_backbuffer = True,
                  draw_viewport = [0, 0, 128, 128], draw_inputs = [],
                  draw_vertex_offset = 0\<rparr>]\<rparr>"
    using example_single_stage_draw by simp
  obtain eng2 where
    b2: "BlitFromTexture example_env (rect 0 0 64 64) (rect 0 0 128 128) 64 64 0 (11 / 5) eng1
         = Inr eng2"
    unfolding e1 using example_second_draw by blast
  have o: "m_vertex_buffer_observer (example_engine example_default_stages)"
    and v: "m_vertexbuffer (example_engine example_default_stages) = []"
    by (simp_all add: example_engine_def DX11PostProcessing_new_def)
  from geometry_uploaded_iff_rectangle_changed[OF b1 b2 refl refl refl refl refl refl refl refl] o v
  have "m_vertexbuffer eng1
         = [[\<lparr>vx = - 1, vy = 1, vz = 0, vu0 = 0, vv0 = 0\<rparr>,
             \<lparr>vx = 1, vy = 1, vz = 0, vu0 = 1, vv0 = 0\<rparr>,
             \<lparr>vx = - 1, vy = - 1, vz = 0, vu0 = 0, vv0 = 1\<rparr>,
             \<lparr>vx = 1, vy = - 1, vz = 0, vu0 = 1, vv0 = 1\<rparr>]]
        \<and> \<not> m_vertex_buffer_observer eng1 \<and> m_vertexbuffer eng2 = m_vertexbuffer eng1
        \<and> (pu0 eng2, pu1 eng2, pv0 eng2, pv1 eng2) = (0, 1, 0, 1)"
    by (simp add: example_env_simps exact_fpu_simps rect_def)
  with b1 b2 show ?thesis by blast
qed

lemma ieee_engine_ready: "draw_ready ieee_env ieee_engine"
  by (simp add: draw_ready_def shader_unchanged_def ieee_engine_def DX11PostProcessing_new_def
      example_config_def example_stage_def vector_max_size_def)

lemma ieee_uv_rectangle:
  "uv_rectangle (FPU ieee_env) (rect 0 0 64 64) 0 64 = (NaN, PInf, Finite 0, Finite 1)"
  by (simp add: uv_rectangle_def reciprocal_size_def ieee_env_simps ieee_fpu_def rect_def
      xinf_def)

text \<open>
  Claim C7 as it is stated fails for a source width of 0: the reciprocal is
  infinite, the left bound 0 times infinity is a NaN, which compares unequal to
  itself, and the second of two identical draws appends the quad again.
\<close>

theorem zero_width_source_uploads_again_counterexample:
  "\<exists>eng1 eng2.
     BlitFromTexture ieee_env (rect 0 0 64 64) (rect 0 0 128 128) 0 64 0 (Finite (11 / 5))
       ieee_engine = Inr eng1
     \<and> BlitFromTexture ieee_env (rect 0 0 64 64) (rect 0 0 128 128) 0 64 0 (Finite (11 / 5))
         eng1 = Inr eng2
     \<and> length (m_vertexbuffer eng1) = 1
     \<and> length (m_vertexbuffer eng2) = 2"
proof -
  obtain eng1 where
    d1: "BlitFromTexture ieee_env (rect 0 0 64 64) (rect 0 0 128 128) 0 64 0 (Finite (11 / 5))
           ieee_engine = Inr eng1"
    using draw_ready_completes[OF ieee_engine_ready] by blast
  have r1: "draw_ready ieee_env eng1"
    using ieee_engine_ready d1 by (rule draw_ready_preserved)
  obtain eng2 where
    d2: "BlitFromTexture ieee_env (rect 0 0 64 64) (rect 0 0 128 128) 0 64 0 (Finite (11 / 5))
           eng1 = Inr eng2"
    using draw_ready_completes[OF r1] by blast
  note s1 = BlitFromTexture_vertex_state[OF d1 ieee_uv_rectangle refl]
  note s2 = BlitFromTexture_vertex_state[OF d2 ieee_uv_rectangle refl]
  have o: "m_vertex_buffer_observer ieee_engine" and v: "m_vertexbuffer ieee_engine = []"
    by (simp_all add: ieee_engine_def DX11PostProcessing_new_def)
  have l1: "length (m_vertexbuffer eng1) = 1" and p: "pu0 eng1 = NaN"
    using s1 o v by simp_all
  have "fne (FPU ieee_env) (pu0 eng1) NaN"
    by (simp add: ieee_env_simps ieee_fpu_def xne_def)
  then have l2: "length (m_vertexbuffer eng2) = 2"
    using s2 l1 by simp
  show ?thesis
    using d1 d2 l1 l2 by blast
qed

subsection \<open>A draw without stages\<close>

text \<open>
  Claim C10. With no configured stage the final-stage index \<^verbatim>\<open>stages.size() - 1\<close> wraps
  around to \<open>2\<^sup>6\<^sup>4 - 1\<close>, and the draw does not return: either the option upload has
  already failed, or \<^verbatim>\<open>m_stageOutput.resize\<close> is asked for \<open>2\<^sup>6\<^sup>4 - 1\<close> images, more
  than a vector holds. A draw that returns has at least one stage.
\<close>

theorem draw_requires_a_stage:
  assumes a: "ApplyShader env eng = Inr eng1"
      and empty: "GetStages (m_config eng1) = []"
      and bound: "length (m_stageOutput eng) \<le> vector_max_size"
  shows "unat ((word_of_nat (length (GetStages (m_config eng1))) :: size_t) - 1) = 2 ^ 64 - 1
         \<and> (\<exists>e. BlitFromTexture env src dst src_width src_height layer gamma eng = Inl e)"
proof -
  have len: "length (m_stageOutput eng1) \<le> vector_max_size"
    using ApplyShader_result[OF a] bound by auto
  have "\<exists>e. BlitFromTexture env src dst src_width src_height layer gamma eng = Inl e"
  proof (cases "upload_options eng1")
    case (Inl e)
    then show ?thesis using a by (simp add: BlitFromTexture_def)
  next
    case (Inr eng2)
    define eng4 where "eng4 = upload_vertices env src src_width src_height
          (upload_params env src src_width src_height layer gamma eng2)"
    have st: "GetStages (m_config eng4) = []"
      using upload_options_frame[OF Inr] empty
      by (simp add: eng4_def upload_vertices_frame upload_params_frame)
    have so: "m_stageOutput eng4 = m_stageOutput eng1"
      using upload_options_frame[OF Inr]
      by (simp add: eng4_def upload_vertices_frame upload_params_frame)
    have lt1: "length (m_stageOutput eng1) < 2 ^ 64 - 1"
      using len by (simp add: vector_max_size_def)
    then have lt: "length (m_stageOutput eng1) < 2 ^ 64"
      by simp
    have ne: "(word_of_nat (length (m_stageOutput eng1)) :: size_t) \<noteq> - 1"
    proof
      assume "(word_of_nat (length (m_stageOutput eng1)) :: size_t) = - 1"
      then have "unat (word_of_nat (length (m_stageOutput eng1)) :: size_t) = unat (- 1 :: size_t)"
        by (rule arg_cong)
      then have "length (m_stageOutput eng1) = 2 ^ 64 - 1"
        using lt by (simp only: unat_size_of_nat unat_wrapped_size)
      then show False using lt1 by simp
    qed
    have "prepare_stage_outputs env src dst eng4 = Inl Length_Error"
      using st so ne unat_wrapped_size
      by (simp add: prepare_stage_outputs_def Let_def vector_max_size_def word_greater_zero_iff)
    then show ?thesis
      using a Inr by (simp add: BlitFromTexture_def Let_def flip: eng4_def)
  qed
  then show ?thesis using empty unat_wrapped_size by simp
qed

text \<open>The theorem at an initialised engine whose configuration has no stage.\<close>

theorem draw_requires_a_stage_witness:
  "ApplyShader example_env (example_engine []) = Inr (example_engine [])
   \<and> GetStages (m_config (example_engine [])) = []
   \<and> length (m_stageOutput (example_engine [])) \<le> vector_max_size
   \<and> (\<exists>e. BlitFromTexture example_env (rect 0 0 64 64) (rect 0 0 128 128) 64 64 0 (11 / 5)
              (example_engine []) = Inl e)"
proof -
  have a: "ApplyShader example_env (example_engine []) = Inr (example_engine [])"
    by (simp add: ApplyShader_def shader_unchanged_def example_engine_def
        DX11PostProcessing_new_def example_config_def)
  have e: "GetStages (m_config (example_engine [])) = []"
    by (simp add: example_engine_def DX11PostProcessing_new_def example_config_def)
  have b: "length (m_stageOutput (example_engine [])) \<le> vector_max_size"
    by (simp add: example_engine_def DX11PostProcessing_new_def)
  from draw_requires_a_stage[OF a e b] a e b show ?thesis
    by blast
qed

subsection \<open>The intermediate images\<close>

text \<open>
  Claim C6, with the trigger as the code has it. Take an engine that has no image or
  one image for each stage but the last, each of the cached dimensions; a new engine
  is in such a state and every draw that returns leaves one. A draw that returns
  with \<open>n\<close> stages, as many as a vector can hold, leaves \<open>n - 1\<close> images; the image of a
  stage but the last has the width and height of the source rectangle if the stage
  uses the source resolution and of the destination rectangle otherwise, multiplied
  by the stage's output scale and converted to an unsigned integer. Images are
  created (\<open>n - 1\<close> of them) exactly when there are two stages or more and a cached
  dimension differs from the dimension of this draw or the number of images the
  draw finds differs from \<open>n - 1\<close>; it finds none when \<^verbatim>\<open>ApplyShader\<close> has recompiled the
  shader. A second draw with the same rectangles that finds the shader unchanged
  creates no image.
\<close>

theorem intermediate_images_per_stage:
  assumes inv_count: "m_stageOutput eng = []
                      \<or> length (m_stageOutput eng) = length (GetStages (m_config eng)) - 1"
      and inv_images:
        "\<forall>i < length (m_stageOutput eng).
           m_stageOutput eng ! i
           = \<lparr>tex_width = ftou (FPU env) (fmul (FPU env) (itof (FPU env) (uint (if m_use_source_resolution (GetStages (m_config eng) ! i)
                                                                       then m_prev_src_width eng else m_prev_dst_width eng)))
                                                   (m_outputScale (GetStages (m_config eng) ! i))),
                tex_height = ftou (FPU env) (fmul (FPU env) (itof (FPU env) (uint (if m_use_source_resolution (GetStages (m_config eng) ! i)
                                                                        then m_prev_src_height eng else m_prev_dst_height eng)))
                                                    (m_outputScale (GetStages (m_config eng) ! i)))\<rparr>"
      and draw: "BlitFromTexture env src dst src_width src_height layer gamma eng = Inr eng'"
      and bound: "length (GetStages (m_config eng')) \<le> vector_max_size"
      and n: "n = length (GetStages (m_config eng'))"
      and unchanged:
        "unchanged = (m_initialized eng
                      \<and> GetShader (m_config eng) = g_ActiveConfig_sPostProcessingShader eng
                      \<and> m_prev_samples eng = AAMode_Count eng)"
  shows "length (m_stageOutput eng') = n - 1
     \<and> (\<forall>i < n - 1.
           m_stageOutput eng' ! i
           = \<lparr>tex_width = ftou (FPU env) (fmul (FPU env) (itof (FPU env) (uint (if m_use_source_resolution (GetStages (m_config eng') ! i)
                                                                       then GetWidth env src else GetWidth env dst)))
                                                   (m_outputScale (GetStages (m_config eng') ! i))),
                tex_height = ftou (FPU env) (fmul (FPU env) (itof (FPU env) (uint (if m_use_source_resolution (GetStages (m_config eng') ! i)
                                                                        then GetHeight env src else GetHeight env dst)))
                                                    (m_outputScale (GetStages (m_config eng') ! i)))\<rparr>)
     \<and> (2 \<le> n \<longrightarrow> m_prev_src_width eng' = GetWidth env src
                  \<and> m_prev_src_height eng' = GetHeight env src
                  \<and> m_prev_dst_width eng' = GetWidth env dst
                  \<and> m_prev_dst_height eng' = GetHeight env dst)
     \<and> textures_created eng'
         = textures_created eng
           + (if 2 \<le> n \<and> (m_prev_dst_width eng \<noteq> GetWidth env dst
                           \<or> m_prev_dst_height eng \<noteq> GetHeight env dst
                           \<or> m_prev_src_width eng \<noteq> GetWidth env src
                           \<or> m_prev_src_height eng \<noteq> GetHeight env src
                           \<or> (if unchanged then length (m_stageOutput eng) else 0) \<noteq> n - 1)
              then n - 1 else 0)
     \<and> (\<forall>eng''. m_initialized eng'
            \<and> GetShader (m_config eng') = g_ActiveConfig_sPostProcessingShader eng'
            \<and> m_prev_samples eng' = AAMode_Count eng'
            \<and> BlitFromTexture env src dst src_width2 src_height2 layer2 gamma2 eng' = Inr eng''
          \<longrightarrow> textures_created eng'' = textures_created eng'
              \<and> m_stageOutput eng'' = m_stageOutput eng')"
proof -
  have inv: "m_stageOutput eng = []
             \<or> m_stageOutput eng
                = map (create_stage_output (FPU env) eng) (butlast (GetStages (m_config eng)))"
  proof (cases "m_stageOutput eng = []")
    case True
    then show ?thesis by simp
  next
    case False
    then have l: "length (m_stageOutput eng) = length (butlast (GetStages (m_config eng)))"
      using inv_count by simp
    have "m_stageOutput eng
          = map (create_stage_output (FPU env) eng) (butlast (GetStages (m_config eng)))"
      unfolding images_explicit using l inv_images by (simp add: nth_butlast)
    then show ?thesis by simp
  qed
  note t = BlitFromTexture_images_twice[OF inv draw bound n,
      unfolded shader_unchanged_def unchanged[symmetric]]
  have len: "length (m_stageOutput eng') = n - 1"
    using t by blast
  have m: "m_stageOutput eng'
           = map (create_stage_output (FPU env) eng') (butlast (GetStages (m_config eng')))"
    using t by blast
  have c: "2 \<le> n \<longrightarrow> m_prev_src_width eng' = GetWidth env src
                  \<and> m_prev_src_height eng' = GetHeight env src
                  \<and> m_prev_dst_width eng' = GetWidth env dst
                  \<and> m_prev_dst_height eng' = GetHeight env dst"
    using t by blast
  have e: "m_stageOutput eng' ! i
           = \<lparr>tex_width = ftou (FPU env) (fmul (FPU env) (itof (FPU env) (uint (if m_use_source_resolution (GetStages (m_config eng') ! i)
                                                                       then GetWidth env src else GetWidth env dst)))
                                                   (m_outputScale (GetStages (m_config eng') ! i))),
                tex_height = ftou (FPU env) (fmul (FPU env) (itof (FPU env) (uint (if m_use_source_resolution (GetStages (m_config eng') ! i)
                                                                        then GetHeight env src else GetHeight env dst)))
                                                    (m_outputScale (GetStages (m_config eng') ! i)))\<rparr>"
    if "i < n - 1" for i
  proof -
    have 2: "2 \<le> n" using that by simp
    have l: "i < length (m_stageOutput eng')"
      using len that by simp
    show ?thesis
      using m[unfolded images_explicit] l c 2 that n by (simp add: nth_butlast)
  qed
  show ?thesis
    using t e by blast
qed

lemma example_engine_ready:
  "draw_ready example_env (example_engine example_stages)"
  by (simp add: draw_ready_def example_engine_simps example_stages_def example_stage_def
      vector_max_size_def)

lemma singleton_nth: "length xs = 1 \<Longrightarrow> xs = [xs ! 0]"
  by (cases xs) simp_all

text \<open>
  The theorem at two stages, the first at half the source resolution: for a source
  rectangle 65 wide and high the draw creates one image of 32 by 32, and the same
  draw again creates none.
\<close>

theorem intermediate_images_per_stage_witness:
  "\<exists>eng' eng''.
     BlitFromTexture example_env (rect 0 0 65 65) (rect 0 0 128 128) 65 65 0 (11 / 5)
       (example_engine example_stages) = Inr eng'
     \<and> m_stageOutput eng' = [\<lparr>tex_width = 32, tex_height = 32\<rparr>]
     \<and> textures_created eng' = 1
     \<and> BlitFromTexture example_env (rect 0 0 65 65) (rect 0 0 128 128) 65 65 0 (11 / 5) eng'
         = Inr eng''
     \<and> m_stageOutput eng'' = m_stageOutput eng'
     \<and> textures_created eng'' = 1"
proof -
  let ?eng = "example_engine example_stages"
  obtain eng' where
    d1: "BlitFromTexture example_env (rect 0 0 65 65) (rect 0 0 128 128) 65 65 0 (11 / 5) ?eng
         = Inr eng'"
    using draw_ready_completes[OF example_engine_ready] by blast
  have r1: "draw_ready example_env eng'"
    using example_engine_ready d1 by (rule draw_ready_preserved)
  obtain eng'' where
    d2: "BlitFromTexture example_env (rect 0 0 65 65) (rect 0 0 128 128) 65 65 0 (11 / 5) eng'
         = Inr eng''"
    using draw_ready_completes[OF r1] by blast
  have st: "GetStages (m_config eng') = example_stages"
    using BlitFromTexture_unchanged[OF example_engine_simps(1) d1]
    by (simp add: example_engine_simps)
  have len: "length example_stages = 2"
    by (simp add: example_stages_def)
  have bound: "length (GetStages (m_config eng')) \<le> vector_max_size"
    unfolding st len by (simp add: vector_max_size_def)
  have ic: "m_stageOutput ?eng = []
            \<or> length (m_stageOutput ?eng) = length (GetStages (m_config ?eng)) - 1"
    by (simp add: example_engine_simps)
  note t = intermediate_images_per_stage[OF ic _ d1 bound refl refl, unfolded st len]
  have l: "length (m_stageOutput eng') = 1"
    using t by (simp add: example_engine_simps)
  have "m_stageOutput eng' ! 0 = \<lparr>tex_width = 32, tex_height = 32\<rparr>"
    using t
    by (simp add: example_engine_simps example_stages_def example_stage_def
        example_env_simps exact_fpu_simps rect_def)
  then have o: "m_stageOutput eng' = [\<lparr>tex_width = 32, tex_height = 32\<rparr>]"
    using singleton_nth[OF l] by simp
  have c: "textures_created eng' = 1"
    using t by (simp add: example_engine_simps)
  have u: "m_initialized eng'
           \<and> GetShader (m_config eng') = g_ActiveConfig_sPostProcessingShader eng'
           \<and> m_prev_samples eng' = AAMode_Count eng'"
    using r1 by (simp add: draw_ready_def shader_unchanged_def)
  have "textures_created eng'' = textures_created eng'
        \<and> m_stageOutput eng'' = m_stageOutput eng'"
    using t u d2 by (simp add: example_engine_simps)
  with d1 d2 o c show ?thesis
    by auto
qed

lemma working_env_recompile:
  assumes "g_ActiveConfig_sPostProcessingShader eng = ''sharpen.glsl''"
      and "\<not> shader_unchanged eng"
  shows "ApplyShader working_env eng = Inr (recompile working_env eng)"
    and "m_config (recompile working_env eng) = example_config ''sharpen.glsl'' example_stages"
    and "\<exists>eng'. BlitFromTexture working_env src dst src_width src_height layer gamma eng
                = Inr eng'"
proof -
  show c: "m_config (recompile working_env eng)
           = example_config ''sharpen.glsl'' example_stages"
    using assms(1) by (simp add: recompile_config working_env_simps example_env_simps)
  have "m_initialized (recompile working_env eng)"
    by (subst recompile_initialized) (simp add: working_env_simps list_all_iff)
  then show a: "ApplyShader working_env eng = Inr (recompile working_env eng)"
    using assms(2) by (intro ApplyShader_recompiled)
  show "\<exists>eng'. BlitFromTexture working_env src dst src_width src_height layer gamma eng
              = Inr eng'"
    by (rule BlitFromTexture_completes[OF a])
       (simp_all add: c recompile_frame example_config_def example_stages_def
          example_stage_def vector_max_size_def)
qed

text \<open>
  Claim C6 as it is stated fails after a recompilation: a first draw with two stages
  creates one image; the anti-aliasing sample count then changes, so the next draw
  recompiles the shader and creates the image again, although the cached dimensions
  are those of the draw and the number of stages is the same.
\<close>

theorem images_recreated_after_recompilation_counterexample:
  "\<exists>eng1 eng2.
     BlitFromTexture working_env (rect 0 0 65 65) (rect 0 0 128 128) 65 65 0 (11 / 5)
       example_new_engine = Inr eng1
     \<and> BlitFromTexture working_env (rect 0 0 65 65) (rect 0 0 128 128) 65 65 0 (11 / 5)
         (eng1\<lparr>AAMode_Count := 4\<rparr>) = Inr eng2
     \<and> m_prev_src_width eng1 = GetWidth working_env (rect 0 0 65 65)
     \<and> m_prev_src_height eng1 = GetHeight working_env (rect 0 0 65 65)
     \<and> m_prev_dst_width eng1 = GetWidth working_env (rect 0 0 128 128)
     \<and> m_prev_dst_height eng1 = GetHeight working_env (rect 0 0 128 128)
     \<and> length (GetStages (m_config eng1)) = 2
     \<and> length (m_stageOutput eng1) = 1
     \<and> length (GetStages (m_config eng2)) = 2
     \<and> textures_created eng1 = 1
     \<and> textures_created eng2 = 2"
proof -
  let ?src = "rect 0 0 65 65" and ?dst = "rect 0 0 128 128"
  have len: "length example_stages = 2"
    by (simp add: example_stages_def)
  have p0: "g_ActiveConfig_sPostProcessingShader example_new_engine = ''sharpen.glsl''"
    and nu0: "\<not> shader_unchanged example_new_engine"
    and o0: "m_stageOutput example_new_engine = []"
    and t0: "textures_created example_new_engine = 0"
    and aa0: "AAMode_Count example_new_engine = 1"
    by (simp_all add: example_new_engine_def DX11PostProcessing_new_def shader_unchanged_def)
  note w0 = working_env_recompile[OF p0 nu0]
  obtain eng1 where
    d1: "BlitFromTexture working_env ?src ?dst 65 65 0 (11 / 5) example_new_engine = Inr eng1"
    using w0(3) by blast
  note f1 = BlitFromTexture_after_apply[OF w0(1) d1]
  have st1: "GetStages (m_config eng1) = example_stages"
    using f1 by (simp add: w0(2) example_config_def)
  have b1: "length (GetStages (m_config eng1)) \<le> vector_max_size"
    unfolding st1 len by (simp add: vector_max_size_def)
  have inv0: "m_stageOutput example_new_engine = []
              \<or> m_stageOutput example_new_engine
                 = map (create_stage_output (FPU working_env) example_new_engine)
                     (butlast (GetStages (m_config example_new_engine)))"
    using o0 by simp
  note i1 = BlitFromTexture_images[OF d1 inv0 b1 refl, unfolded st1 len]
  have l1: "length (m_stageOutput eng1) = 1"
    using i1 by (simp add: example_stages_def)
  have c1: "textures_created eng1 = 1"
    using i1 nu0 t0 by simp
  let ?eng = "eng1\<lparr>AAMode_Count := 4\<rparr>"
  have p1: "g_ActiveConfig_sPostProcessingShader ?eng = ''sharpen.glsl''"
    using f1 p0 by (simp add: recompile_frame)
  have "m_prev_samples eng1 = 1"
    using f1 aa0 by (simp add: recompile_frame)
  then have nu1: "\<not> shader_unchanged ?eng"
    by (simp add: shader_unchanged_def)
  note w1 = working_env_recompile[OF p1 nu1]
  obtain eng2 where
    d2: "BlitFromTexture working_env ?src ?dst 65 65 0 (11 / 5) ?eng = Inr eng2"
    using w1(3) by blast
  note f2 = BlitFromTexture_after_apply[OF w1(1) d2]
  have st2: "GetStages (m_config eng2) = example_stages"
    using f2 by (simp add: w1(2) example_config_def)
  have b2: "length (GetStages (m_config eng2)) \<le> vector_max_size"
    unfolding st2 len by (simp add: vector_max_size_def)
  have cc: "create_stage_output (FPU working_env) ?eng
            = create_stage_output (FPU working_env) eng1"
    by (rule create_stage_output_cong) simp_all
  have inv1: "m_stageOutput ?eng = []
              \<or> m_stageOutput ?eng
                 = map (create_stage_output (FPU working_env) ?eng)
                     (butlast (GetStages (m_config ?eng)))"
    unfolding cc using i1 st1 by simp
  note i2 = BlitFromTexture_images[OF d2 inv1 b2 refl, unfolded st2 len]
  have c2: "textures_created eng2 = 2"
    using i2 nu1 c1 by simp
  show ?thesis
    using d1 d2 i1 st1 st2 len l1 c1 c2 by (intro exI[of _ eng1] exI[of _ eng2]) simp
qed

subsection \<open>The fallback of \<^verbatim>\<open>ApplyShader\<close>\<close>




section \<open>The encoder generator: buffer, flag and unknown formats\<close>

lemma length_poke [simp]: "length (poke buf i xs) = length buf"
  by (simp add: poke_def)

lemma nth_poke:
  "k < length buf \<Longrightarrow>
   poke buf i xs ! k = (if i \<le> k \<and> k < i + length xs then xs ! (k - i) else buf ! k)"
  by (auto simp: poke_def nth_append)

lemma poke_poke:
  "poke (poke buf i (s1 @ [z])) (i + length s1) s2 = poke buf i (s1 @ s2)" if "s2 \<noteq> []"
proof (rule nth_equalityI)
  show "length (poke (poke buf i (s1 @ [z])) (i + length s1) s2) = length (poke buf i (s1 @ s2))"
    by simp
next
  fix k assume "k < length (poke (poke buf i (s1 @ [z])) (i + length s1) s2)"
  then have k: "k < length buf" by simp
  from that obtain n where n: "length s2 = Suc n" by (cases s2) auto
  show "poke (poke buf i (s1 @ [z])) (i + length s1) s2 ! k = poke buf i (s1 @ s2) ! k"
    using k n by (auto simp: nth_poke nth_append)
qed

lemma WRITE_emit: "WRITE env f a st = emit (vformat (enc_stray env) f a) st"
  by (simp add: WRITE_def emit_def Let_def)

lemma emit_emit: "emit s2 (emit s1 st) = emit (s1 @ s2) st"
proof -
  have "poke (poke (text_buffer st) (p st) (s1 @ [CHR 0x00])) (p st + length s1) (s2 @ [CHR 0x00])
        = poke (text_buffer st) (p st) (s1 @ s2 @ [CHR 0x00])"
    using poke_poke[of "s2 @ [CHR 0x00]" "text_buffer st" "p st" s1 "CHR 0x00"] by simp
  moreover have "(overrun st \<or> length (text_buffer st) < p st + length s1 + 1
                  \<or> length (text_buffer st) < p st + length s1 + length s2 + 1)
                 = (overrun st \<or> length (text_buffer st) < p st + length s1 + length s2 + 1)"
    by auto
  ultimately show ?thesis
    by (simp add: emit_def add.assoc disj_assoc)
qed

lemma emit_all_concat: "cs \<noteq> [] \<Longrightarrow> emit_all cs st = emit (concat cs) st"
proof (induction cs arbitrary: st)
  case Nil
  then show ?case by simp
next
  case (Cons c cs)
  show ?case
  proof (cases cs)
    case Nil
    then show ?thesis by simp
  next
    case (Cons d ds)
    then have "emit_all cs (emit c st) = emit (concat cs) (emit c st)"
      using Cons.IH by simp
    then show ?thesis by (simp add: emit_emit)
  qed
qed

lemma emit_all_append: "emit_all (a @ b) st = emit_all b (emit_all a st)"
  by (induction a arbitrary: st) simp_all

lemma emit_flag [simp]: "IntensityConstantAdded (emit s st) = IntensityConstantAdded st"
  by (simp add: emit_def)

lemma emit_flag_update:
  "emit s (st\<lparr>IntensityConstantAdded := b\<rparr>) = (emit s st)\<lparr>IntensityConstantAdded := b\<rparr>"
  by (simp add: emit_def)

lemma emit_all_flag [simp]: "IntensityConstantAdded (emit_all cs st) = IntensityConstantAdded st"
  by (induction cs arbitrary: st) simp_all

lemma emit_all_flag_update:
  "emit_all cs (st\<lparr>IntensityConstantAdded := b\<rparr>) = (emit_all cs st)\<lparr>IntensityConstantAdded := b\<rparr>"
  by (induction cs arbitrary: st) (simp_all add: emit_flag_update)

lemma fmt_texts_append: "fmt_texts env (a @ b) = fmt_texts env a @ fmt_texts env b"
  by (simp add: fmt_texts_def)

lemma emits_WRITE: "emits env (WRITE env f a) b [(f, a)] b"
  by (simp add: emits_def fmt_texts_def WRITE_emit)

lemma emits_block_Nil: "emits env (block []) b [] b"
  by (simp add: emits_def fmt_texts_def)

lemma emits_seq:
  assumes "emits env f b w1 b1" and "emits env g b1 w2 b2"
  shows "emits env (\<lambda>st. g (f st)) b (w1 @ w2) b2"
  using assms
  by (simp add: emits_def fmt_texts_append emit_all_append emit_all_flag_update)

lemma emits_block_Cons:
  assumes "emits env f b w1 b1" and "emits env (block fs) b1 w2 b2"
  shows "emits env (block (f # fs)) b (w1 @ w2) b2"
proof -
  have "block (f # fs) = (\<lambda>st. block fs (f st))" by (rule ext) simp
  then show ?thesis using emits_seq[OF assms] by simp
qed

lemma block_append: "block (xs @ ys) st = block ys (block xs st)"
  by (induction xs arbitrary: st) simp_all

lemma emits_block_append:
  assumes "emits env (block xs) b w1 b1" and "emits env (block ys) b1 w2 b2"
  shows "emits env (block (xs @ ys)) b (w1 @ w2) b2"
proof -
  have "block (xs @ ys) = (\<lambda>st. block ys (block xs st))" by (rule ext) (rule block_append)
  then show ?thesis using emits_seq[OF assms] by simp
qed

lemma emits_block_if:
  assumes "c \<Longrightarrow> emits env (block xs) b w1 b'" and "\<not> c \<Longrightarrow> emits env (block ys) b w2 b'"
  shows "emits env (block (if c then xs else ys)) b (if c then w1 else w2) b'"
  using assms by simp

lemma set_dec_nat: "set (dec_nat n) \<subseteq> set dec_digits"
proof (induction n rule: dec_nat.induct)
  case (1 n)
  have d: "\<And>k. k < 10 \<Longrightarrow> dec_digits ! k \<in> set dec_digits"
    by (rule nth_mem) (simp add: dec_digits_def)
  show ?case
  proof (cases "n < 10")
    case True
    then show ?thesis using d[of n] by (subst dec_nat.simps) simp
  next
    case False
    then show ?thesis using "1.IH" d[of "n mod 10"] by (subst dec_nat.simps) simp
  qed
qed

lemma length_dec_nat: "n < 10 ^ k \<Longrightarrow> 0 < k \<Longrightarrow> length (dec_nat n) \<le> k"
proof (induction n arbitrary: k rule: dec_nat.induct)
  case (1 n)
  show ?case
  proof (cases "n < 10")
    case True
    then show ?thesis using "1.prems" by (subst dec_nat.simps) simp
  next
    case False
    then obtain j where k: "k = Suc j" using "1.prems" by (cases k) auto
    have j0: "0 < j" using False "1.prems" k by (cases j) auto
    have "n div 10 < 10 ^ j" using "1.prems" k by (simp add: less_mult_imp_div_less mult.commute)
    then have "length (dec_nat (n div 10)) \<le> j" using "1.IH"[OF False _ j0] by simp
    then show ?thesis using False k by (subst dec_nat.simps) simp
  qed
qed

lemma set_dec_int: "set (dec_int i) \<subseteq> insert (CHR ''-'') (set dec_digits)"
  using set_dec_nat by (auto simp: dec_int_def)

lemma length_dec_int_sint: "length (dec_int (sint (w :: u32))) \<le> 11"
proof -
  have lo: "- (2 ^ 31) \<le> sint w" and hi: "sint w < 2 ^ 31"
    using sint_ge[of w] sint_lt[of w] by simp_all
  show ?thesis
  proof (cases "sint w < 0")
    case True
    then have "nat (- sint w) < 10 ^ 10" using lo by simp
    then have "length (dec_nat (nat (- sint w))) \<le> 10" by (rule length_dec_nat) simp
    then show ?thesis using True by (simp add: dec_int_def)
  next
    case False
    then have "nat (sint w) < 10 ^ 10" using hi by simp
    then have "length (dec_nat (nat (sint w))) \<le> 10" by (rule length_dec_nat) simp
    then show ?thesis using False by (simp add: dec_int_def)
  qed
qed

lemma dec_int_no_nul: "CHR 0x00 \<notin> set (dec_int i)"
  using set_dec_int[of i] by (auto simp: dec_digits_def)

lemma dec_int_no_newline: "CHR ''\<newline>'' \<notin> set (dec_int i)"
  using set_dec_int[of i] by (auto simp: dec_digits_def)

lemma length_vformat: "length (vformat stray f args) \<le> fmt_bound f args"
proof (induction stray f args rule: vformat.induct)
  case (3 stray c d cs args)
  show ?case
  proof (cases "c = CHR ''%''")
    case False
    then show ?thesis using 3 by simp
  next
    case pc: True
    consider (int) "d = CHR ''d'' \<or> d = CHR ''i''" | (str) "d = CHR ''s''" | (pct) "d = CHR ''%''"
      | (other) "\<not> (d = CHR ''d'' \<or> d = CHR ''i'')" "d \<noteq> CHR ''s''" "d \<noteq> CHR ''%''"
      by blast
    then show ?thesis
    proof cases
      case int
      then show ?thesis
        using pc 3 length_dec_int_sint
        by (auto split: list.splits fmt_arg.splits intro!: add_mono)
    next
      case str
      then show ?thesis using pc 3 by (auto split: list.splits fmt_arg.splits)
    next
      case pct
      then show ?thesis using pc 3 by auto
    next
      case other
      then show ?thesis using pc 3 by auto
    qed
  qed
qed simp_all

lemma vformat_no_nul: "fmt_ok f args \<Longrightarrow> CHR 0x00 \<notin> set (vformat stray f args)"
proof (induction stray f args rule: vformat.induct)
  case (3 stray c d cs args)
  show ?case
  proof (cases "c = CHR ''%''")
    case False
    then show ?thesis using 3 by auto
  next
    case pc: True
    consider (int) "d = CHR ''d'' \<or> d = CHR ''i''" | (str) "d = CHR ''s''" | (pct) "d = CHR ''%''"
      | (other) "\<not> (d = CHR ''d'' \<or> d = CHR ''i'')" "d \<noteq> CHR ''s''" "d \<noteq> CHR ''%''"
      by blast
    then show ?thesis
    proof cases
      case int
      then show ?thesis
        using pc 3 dec_int_no_nul
        by (auto split: list.splits fmt_arg.splits)
    next
      case str
      then show ?thesis using pc 3 by (auto split: list.splits fmt_arg.splits)
    next
      case pct
      then show ?thesis using pc 3 by auto
    next
      case other
      then show ?thesis using pc 3 by auto
    qed
  qed
qed simp_all

lemma writes_bound_simps [simp]:
  "writes_bound [] = 0"
  "writes_bound ((f, a) # ws) = fmt_bound f a + writes_bound ws"
  "writes_bound (xs @ ys) = writes_bound xs + writes_bound ys"
  by (simp_all add: writes_bound_def)

lemma writes_ok_simps [simp]:
  "writes_ok [] = True"
  "writes_ok ((f, a) # ws) = (fmt_ok f a \<and> writes_ok ws)"
  "writes_ok (xs @ ys) = (writes_ok xs \<and> writes_ok ys)"
  by (simp_all add: writes_ok_def)

lemma emits_WriteSampleColor:
  "emits env (WriteSampleColor env colorComp dest xoffset) b
     [(''  %s = texture(samp0, uv0 + float2(%d, 0) * sample_offset).%s;\<newline>'',
       [ArgStr dest, ArgInt xoffset, ArgStr colorComp])] b"
  unfolding WriteSampleColor_def by (rule emits_WRITE)

lemma emits_WriteToBitDepth:
  "emits env (WriteToBitDepth env depth src dest) b
     [(''  %s = floor(%s * 255.0 / exp2(8.0 - %d.0));\<newline>'',
       [ArgStr dest, ArgStr src, ArgInt (ucast depth)])] b"
  unfolding WriteToBitDepth_def by (rule emits_WRITE)

lemma emits_WriteEncoderEnd:
  "emits env (WriteEncoderEnd env) b [(''}\<newline>'', [])] False"
  by (simp add: emits_def fmt_texts_def WriteEncoderEnd_def WRITE_emit)

lemma emits_WriteColorToIntensity:
  "emits env (WriteColorToIntensity env src dest) b
     ((if b then []
       else [(''  float4 IntensityConst = float4(0.257f,0.504f,0.098f,0.0625f);\<newline>'', [])])
      @ [(''  %s = dot(IntensityConst.rgb, %s.rgb);\<newline>'', [ArgStr dest, ArgStr src])]) True"
  by (simp add: emits_def fmt_texts_def WriteColorToIntensity_def WRITE_emit Let_def
        emit_flag_update)

lemmas emits_rules =
  emits_block_Cons emits_block_Nil emits_block_append emits_block_if emits_WRITE
  emits_WriteSampleColor emits_WriteToBitDepth emits_WriteEncoderEnd emits_WriteColorToIntensity

lemma starts_literal_append: "starts_literal xs \<Longrightarrow> starts_literal (xs @ ys)"
  by (cases xs) auto

lemma starts_literal_text: "starts_literal ws \<Longrightarrow> concat (fmt_texts env ws) \<noteq> []"
proof (cases ws)
  case Nil
  then show "starts_literal ws \<Longrightarrow> ?thesis" by simp
next
  case (Cons w ws')
  obtain f a where w: "w = (f, a)" by (cases w)
  assume "starts_literal ws"
  then obtain c cs where f: "f = c # cs" and c: "c \<noteq> CHR ''%''"
    using Cons w by (auto split: list.splits)
  have "vformat (enc_stray env) (c # cs) a \<noteq> []" using c by (cases cs) simp_all
  then show ?thesis using Cons w f by (simp add: fmt_texts_def)
qed

lemma length_concat_fmt_texts: "length (concat (fmt_texts env ws)) \<le> writes_bound ws"
proof (induction ws)
  case Nil
  then show ?case by (simp add: fmt_texts_def)
next
  case (Cons w ws)
  obtain f a where w: "w = (f, a)" by (cases w)
  have "length (vformat (enc_stray env) f a) \<le> fmt_bound f a" by (rule length_vformat)
  then show ?case using Cons w by (simp add: fmt_texts_def)
qed

lemma concat_fmt_texts_no_nul: "writes_ok ws \<Longrightarrow> CHR 0x00 \<notin> set (concat (fmt_texts env ws))"
proof (induction ws)
  case Nil
  then show ?case by (simp add: fmt_texts_def)
next
  case (Cons w ws)
  obtain f a where w: "w = (f, a)" by (cases w)
  have "CHR 0x00 \<notin> set (vformat (enc_stray env) f a)"
    using Cons.prems w by (intro vformat_no_nul) simp
  then show ?case using Cons w by (simp add: fmt_texts_def)
qed

lemma c_str_prefix: "CHR 0x00 \<notin> set t \<Longrightarrow> c_str (t @ CHR 0x00 # rest) = t"
  by (induction t) (auto simp: c_str_def)

lemma emit_from_start:
  assumes len: "length (text_buffer st) = 16384"
      and p0: "p st = 0"
      and canary: "text_buffer st ! 16383 = CHR 0x7C"
      and t: "length t \<le> 16382"
      and nn: "CHR 0x00 \<notin> set t"
  shows "c_str (text_buffer (emit t st)) = t"
    and "length (text_buffer (emit t st)) = 16384"
    and "text_buffer (emit t st) ! 16383 = CHR 0x7C"
    and "text_buffer (emit t st) ! length t = CHR 0x00"
    and "overrun (emit t st) = overrun st"
    and "alerts (emit t st) = alerts st"
proof -
  have tb: "text_buffer (emit t st) = poke (text_buffer st) 0 (t @ [CHR 0x00])"
    using p0 by (simp add: emit_def)
  have "poke (text_buffer st) 0 (t @ [CHR 0x00])
        = t @ CHR 0x00 # drop (length t + 1) (text_buffer st)"
    using len t by (simp add: poke_def)
  then show "c_str (text_buffer (emit t st)) = t"
    using nn by (simp add: tb c_str_prefix)
  show "length (text_buffer (emit t st)) = 16384" using len by (simp add: tb)
  show "text_buffer (emit t st) ! 16383 = CHR 0x7C"
    using len t canary by (simp add: tb nth_poke)
  show "text_buffer (emit t st) ! length t = CHR 0x00"
    using len t by (simp add: tb nth_poke)
  show "overrun (emit t st) = overrun st" using len t p0 by (simp add: emit_def)
  show "alerts (emit t st) = alerts st" by (simp add: emit_def)
qed

lemma run_encoder_generated:
  assumes e: "emits env enc (IntensityConstantAdded st) ws False"
      and ok: "writes_ok ws"
      and bound: "writes_bound ws \<le> 16382"
      and lit: "starts_literal ws"
      and len: "length (text_buffer st) = 16384"
  shows "generated env st (run_encoder enc st) ws"
proof -
  define st1 where
    "st1 = st\<lparr>text_buffer := (text_buffer st)[length (text_buffer st) - 1 := CHR 0x7C], p := 0\<rparr>"
  define t where "t = concat (fmt_texts env ws)"
  have ne: "fmt_texts env ws \<noteq> []" using lit by (cases ws) (simp_all add: fmt_texts_def)
  have flag: "IntensityConstantAdded st1 = IntensityConstantAdded st" by (simp add: st1_def)
  have enc: "enc st1 = (emit t st1)\<lparr>IntensityConstantAdded := False\<rparr>"
    using e ne flag by (simp add: emits_def emit_all_concat t_def)
  have l1: "length (text_buffer st1) = 16384" using len by (simp add: st1_def)
  have p1: "p st1 = 0" by (simp add: st1_def)
  have c1: "text_buffer st1 ! 16383 = CHR 0x7C" using len by (simp add: st1_def)
  have t: "length t \<le> 16382" using length_concat_fmt_texts[of env ws] bound by (simp add: t_def)
  have nn: "CHR 0x00 \<notin> set t" unfolding t_def using ok by (rule concat_fmt_texts_no_nul)
  note f = emit_from_start[OF l1 p1 c1 t nn]
  have "run_encoder enc st =
          (if text_buffer (enc st1) ! (length (text_buffer (enc st1)) - 1) \<noteq> CHR 0x7C
           then (enc st1)\<lparr>alerts := alerts (enc st1) @ [Canary_Alert]\<rparr> else enc st1)"
    unfolding run_encoder_def st1_def Let_def ..
  then have run: "run_encoder enc st = (emit t st1)\<lparr>IntensityConstantAdded := False\<rparr>"
    using f(2,3) by (simp add: enc)
  have o: "overrun st1 = overrun st" and a: "alerts st1 = alerts st" by (simp_all add: st1_def)
  show ?thesis
    unfolding generated_def run t_def[symmetric] using f t o a by simp
qed

lemma lines_ok_simps [simp]:
  "lines_ok env [] = True"
  "lines_ok env ((f, a) # ws)
     = (vformat (enc_stray env) f a \<noteq> [] \<and> last (vformat (enc_stray env) f a) = CHR ''\<newline>''
        \<and> lines_ok env ws)"
  "lines_ok env (xs @ ys) = (lines_ok env xs \<and> lines_ok env ys)"
  by (simp_all add: lines_ok_def fmt_texts_def)

lemma decl_count_simps [simp]:
  "decl_count env [] = 0"
  "decl_count env ((f, a) # ws)
     = count_list (text_lines (vformat (enc_stray env) f a)) decl_line + decl_count env ws"
  "decl_count env (xs @ ys) = decl_count env xs + decl_count env ys"
  by (simp_all add: decl_count_def fmt_texts_def)

lemma lines_from_plain:
  "CHR ''\<newline>'' \<notin> set d \<Longrightarrow> lines_from cur (d @ rest) = lines_from (cur @ d) rest"
  by (induction d arbitrary: cur) auto

lemma lines_from_dec_int [simp]:
  "lines_from cur (dec_int i @ rest) = lines_from (cur @ dec_int i) rest"
  by (rule lines_from_plain) (rule dec_int_no_newline)

lemma WriteSwizzler_emits_lines:
  "\<exists>ws. emits env (WriteSwizzler env format) b ws b \<and> writes_ok ws \<and> writes_bound ws \<le> 1200
        \<and> starts_literal ws \<and> lines_ok env ws \<and> decl_count env ws = 0"
  unfolding WriteSwizzler_def Let_def
  apply (rule exI, intro conjI)
       apply (rule emits_rules)+
      apply simp
     apply simp
    apply simp
   apply simp
  apply (simp add: text_lines_def decl_line_def)
  done

lemma WriteI4Encoder_emits:
  "\<exists>ws. emits env (WriteI4Encoder env) b ws False \<and> writes_ok ws \<and> writes_bound ws \<le> 16382
        \<and> starts_literal ws \<and> (\<not> b \<longrightarrow> lines_ok env ws \<and> decl_count env ws = 1)"
  using WriteSwizzler_emits_lines[of env GX_TF_I4 b]
  unfolding WriteI4Encoder_def
  apply (elim exE conjE)
  apply (rule exI, intro conjI)
      apply (rule emits_rules | assumption)+
     apply simp
    apply simp
   apply (simp add: starts_literal_append)
  apply (simp add: text_lines_def decl_line_def)
  done

lemma WriteI8Encoder_emits:
  "\<exists>ws. emits env (WriteI8Encoder env) b ws False \<and> writes_ok ws \<and> writes_bound ws \<le> 16382
        \<and> starts_literal ws \<and> (\<not> b \<longrightarrow> lines_ok env ws \<and> decl_count env ws = 1)"
  using WriteSwizzler_emits_lines[of env GX_TF_I8 b]
  unfolding WriteI8Encoder_def
  apply (elim exE conjE)
  apply (rule exI, intro conjI)
      apply (rule emits_rules | assumption)+
     apply simp
    apply simp
   apply (simp add: starts_literal_append)
  apply (simp add: text_lines_def decl_line_def)
  done

lemma WriteIA4Encoder_emits:
  "\<exists>ws. emits env (WriteIA4Encoder env) b ws False \<and> writes_ok ws \<and> writes_bound ws \<le> 16382
        \<and> starts_literal ws \<and> (\<not> b \<longrightarrow> lines_ok env ws \<and> decl_count env ws = 1)"
  using WriteSwizzler_emits_lines[of env GX_TF_IA4 b]
  unfolding WriteIA4Encoder_def
  apply (elim exE conjE)
  apply (rule exI, intro conjI)
      apply (rule emits_rules | assumption)+
     apply simp
    apply simp
   apply (simp add: starts_literal_append)
  apply (simp add: text_lines_def decl_line_def)
  done

lemma WriteIA8Encoder_emits:
  "\<exists>ws. emits env (WriteIA8Encoder env) b ws False \<and> writes_ok ws \<and> writes_bound ws \<le> 16382
        \<and> starts_literal ws \<and> (\<not> b \<longrightarrow> lines_ok env ws \<and> decl_count env ws = 1)"
  using WriteSwizzler_emits_lines[of env GX_TF_IA8 b]
  unfolding WriteIA8Encoder_def
  apply (elim exE conjE)
  apply (rule exI, intro conjI)
      apply (rule emits_rules | assumption)+
     apply simp
    apply simp
   apply (simp add: starts_literal_append)
  apply (simp add: text_lines_def decl_line_def)
  done

lemma WriteRGB565Encoder_emits:
  "\<exists>ws. emits env (WriteRGB565Encoder env) b ws False \<and> writes_ok ws \<and> writes_bound ws \<le> 16382
        \<and> starts_literal ws"
  using WriteSwizzler_emits_lines[of env GX_TF_RGB565 b]
  unfolding WriteRGB565Encoder_def
  apply (elim exE conjE)
  apply (rule exI, intro conjI)
     apply (rule emits_rules | assumption)+
    apply simp
   apply simp
  apply (simp add: starts_literal_append)
  done

lemma WriteRGB5A3Encoder_emits:
  "\<exists>ws. emits env (WriteRGB5A3Encoder env) b ws False \<and> writes_ok ws \<and> writes_bound ws \<le> 16382
        \<and> starts_literal ws"
  using WriteSwizzler_emits_lines[of env GX_TF_RGB5A3 b]
  unfolding WriteRGB5A3Encoder_def
  apply (elim exE conjE)
  apply (rule exI, intro conjI)
     apply (rule emits_rules | assumption)+
    apply simp
   apply simp
  apply (simp add: starts_literal_append)
  done

lemma WriteRGBA8Encoder_emits:
  "\<exists>ws. emits env (WriteRGBA8Encoder env) b ws False \<and> writes_ok ws \<and> writes_bound ws \<le> 16382
        \<and> starts_literal ws"
  using WriteSwizzler_emits_lines[of env GX_TF_RGBA8 b]
  unfolding WriteRGBA8Encoder_def
  apply (elim exE conjE)
  apply (rule exI, intro conjI)
     apply (rule emits_rules | assumption)+
    apply simp
   apply simp
  apply (simp add: starts_literal_append)
  done

lemma WriteZ16Encoder_emits:
  "\<exists>ws. emits env (WriteZ16Encoder env) b ws False \<and> writes_ok ws \<and> writes_bound ws \<le> 16382
        \<and> starts_literal ws"
  using WriteSwizzler_emits_lines[of env GX_TF_Z16 b]
  unfolding WriteZ16Encoder_def
  apply (elim exE conjE)
  apply (rule exI, intro conjI)
     apply (rule emits_rules | assumption)+
    apply simp
   apply simp
  apply (simp add: starts_literal_append)
  done

lemma WriteZ16LEncoder_emits:
  "\<exists>ws. emits env (WriteZ16LEncoder env) b ws False \<and> writes_ok ws \<and> writes_bound ws \<le> 16382
        \<and> starts_literal ws"
  using WriteSwizzler_emits_lines[of env GX_CTF_Z16L b]
  unfolding WriteZ16LEncoder_def
  apply (elim exE conjE)
  apply (rule exI, intro conjI)
     apply (rule emits_rules | assumption)+
    apply simp
   apply simp
  apply (simp add: starts_literal_append)
  done

lemma WriteZ24Encoder_emits:
  "\<exists>ws. emits env (WriteZ24Encoder env) b ws False \<and> writes_ok ws \<and> writes_bound ws \<le> 16382
        \<and> starts_literal ws"
  using WriteSwizzler_emits_lines[of env GX_TF_Z24X8 b]
  unfolding WriteZ24Encoder_def
  apply (simp only: list.map concat.simps append_Cons append_Nil)
  apply (elim exE conjE)
  apply (rule exI, intro conjI)
     apply (rule emits_rules | assumption)+
    apply simp
   apply simp
  apply (simp add: starts_literal_append)
  done

lemma WriteC4Encoder_emits:
  assumes "CHR 0x00 \<notin> set s" and "length s \<le> 8"
  shows "\<exists>ws. emits env (WriteC4Encoder env s) b ws False \<and> writes_ok ws
           \<and> writes_bound ws \<le> 16382 \<and> starts_literal ws"
  using WriteSwizzler_emits_lines[of env GX_CTF_R4 b] assms
  unfolding WriteC4Encoder_def
  apply (elim exE conjE)
  apply (rule exI, intro conjI)
     apply (rule emits_rules | assumption)+
    apply simp
   apply simp
  apply (simp add: starts_literal_append)
  done

lemma WriteC8Encoder_emits:
  assumes "CHR 0x00 \<notin> set s" and "length s \<le> 8"
  shows "\<exists>ws. emits env (WriteC8Encoder env s) b ws False \<and> writes_ok ws
           \<and> writes_bound ws \<le> 16382 \<and> starts_literal ws"
  using WriteSwizzler_emits_lines[of env GX_CTF_R8 b] assms
  unfolding WriteC8Encoder_def
  apply (elim exE conjE)
  apply (rule exI, intro conjI)
     apply (rule emits_rules | assumption)+
    apply simp
   apply simp
  apply (simp add: starts_literal_append)
  done

lemma WriteCC4Encoder_emits:
  assumes "CHR 0x00 \<notin> set s" and "length s \<le> 8"
  shows "\<exists>ws. emits env (WriteCC4Encoder env s) b ws False \<and> writes_ok ws
           \<and> writes_bound ws \<le> 16382 \<and> starts_literal ws"
  using WriteSwizzler_emits_lines[of env GX_CTF_RA4 b] assms
  unfolding WriteCC4Encoder_def
  apply (elim exE conjE)
  apply (rule exI, intro conjI)
     apply (rule emits_rules | assumption)+
    apply simp
   apply simp
  apply (simp add: starts_literal_append)
  done

lemma WriteCC8Encoder_emits:
  assumes "CHR 0x00 \<notin> set s" and "length s \<le> 8"
  shows "\<exists>ws. emits env (WriteCC8Encoder env s) b ws False \<and> writes_ok ws
           \<and> writes_bound ws \<le> 16382 \<and> starts_literal ws"
  using WriteSwizzler_emits_lines[of env GX_CTF_RA8 b] assms
  unfolding WriteCC8Encoder_def
  apply (elim exE conjE)
  apply (rule exI, intro conjI)
     apply (rule emits_rules | assumption)+
    apply simp
   apply simp
  apply (simp add: starts_literal_append)
  done

lemma WriteZ8Encoder_emits:
  assumes "CHR 0x00 \<notin> set s" and "length s \<le> 8"
  shows "\<exists>ws. emits env (WriteZ8Encoder env s) b ws False \<and> writes_ok ws
           \<and> writes_bound ws \<le> 16382 \<and> starts_literal ws"
  using WriteSwizzler_emits_lines[of env GX_CTF_Z8M b] assms
  unfolding WriteZ8Encoder_def
  apply (elim exE conjE)
  apply (rule exI, intro conjI)
     apply (rule emits_rules | assumption)+
    apply simp
   apply simp
  apply (simp add: starts_literal_append)
  done

lemma GenerateEncodingShader_cases:
  "GenerateEncodingShader env GX_TF_I4 st = run_encoder (WriteI4Encoder env) st"
  "GenerateEncodingShader env GX_TF_I8 st = run_encoder (WriteI8Encoder env) st"
  "GenerateEncodingShader env GX_TF_IA4 st = run_encoder (WriteIA4Encoder env) st"
  "GenerateEncodingShader env GX_TF_IA8 st = run_encoder (WriteIA8Encoder env) st"
  "GenerateEncodingShader env GX_TF_RGB565 st = run_encoder (WriteRGB565Encoder env) st"
  "GenerateEncodingShader env GX_TF_RGB5A3 st = run_encoder (WriteRGB5A3Encoder env) st"
  "GenerateEncodingShader env GX_TF_RGBA8 st = run_encoder (WriteRGBA8Encoder env) st"
  "GenerateEncodingShader env GX_CTF_R4 st = run_encoder (WriteC4Encoder env ''r'') st"
  "GenerateEncodingShader env GX_CTF_RA4 st = run_encoder (WriteCC4Encoder env ''ar'') st"
  "GenerateEncodingShader env GX_CTF_RA8 st = run_encoder (WriteCC8Encoder env ''ar'') st"
  "GenerateEncodingShader env GX_CTF_A8 st = run_encoder (WriteC8Encoder env ''a'') st"
  "GenerateEncodingShader env GX_CTF_R8 st = run_encoder (WriteC8Encoder env ''r'') st"
  "GenerateEncodingShader env GX_CTF_G8 st = run_encoder (WriteC8Encoder env ''g'') st"
  "GenerateEncodingShader env GX_CTF_B8 st = run_encoder (WriteC8Encoder env ''b'') st"
  "GenerateEncodingShader env GX_CTF_RG8 st = run_encoder (WriteCC8Encoder env ''rg'') st"
  "GenerateEncodingShader env GX_CTF_GB8 st = run_encoder (WriteCC8Encoder env ''gb'') st"
  "GenerateEncodingShader env GX_TF_Z8 st = run_encoder (WriteC8Encoder env ''b'') st"
  "GenerateEncodingShader env GX_TF_Z16 st = run_encoder (WriteZ16Encoder env) st"
  "GenerateEncodingShader env GX_TF_Z24X8 st = run_encoder (WriteZ24Encoder env) st"
  "GenerateEncodingShader env GX_CTF_Z4 st = run_encoder (WriteC4Encoder env ''b'') st"
  "GenerateEncodingShader env GX_CTF_Z8M st = run_encoder (WriteZ8Encoder env ''256.0'') st"
  "GenerateEncodingShader env GX_CTF_Z8L st = run_encoder (WriteZ8Encoder env ''65536.0'') st"
  "GenerateEncodingShader env GX_CTF_Z16L st = run_encoder (WriteZ16LEncoder env) st"
  by (simp_all add: GenerateEncodingShader_def run_encoder_def)

lemma generated_from_emits:
  assumes "\<exists>ws. emits env enc (IntensityConstantAdded st) ws False \<and> writes_ok ws
             \<and> writes_bound ws \<le> 16382 \<and> starts_literal ws"
      and "length (text_buffer st) = 16384"
  shows "\<exists>ws. generated env st (run_encoder enc st) ws \<and> starts_literal ws"
  using assms run_encoder_generated by blast

lemma generated_from_emits_lines:
  assumes "\<exists>ws. emits env enc (IntensityConstantAdded st) ws False \<and> writes_ok ws
             \<and> writes_bound ws \<le> 16382 \<and> starts_literal ws
             \<and> (\<not> IntensityConstantAdded st \<longrightarrow> lines_ok env ws \<and> decl_count env ws = 1)"
      and "length (text_buffer st) = 16384"
  shows "\<exists>ws. generated env st (run_encoder enc st) ws \<and> starts_literal ws
           \<and> (\<not> IntensityConstantAdded st \<longrightarrow> lines_ok env ws \<and> decl_count env ws = 1)"
  using assms run_encoder_generated by blast

lemma not_handled_unknown:
  "format \<notin> set handled_formats \<Longrightarrow> \<exists>v. format = Unknown_Format v"
  by (cases format) (simp_all add: handled_formats_def)

lemma generated_handled:
  assumes len: "length (text_buffer st) = 16384"
      and h: "format \<in> set handled_formats"
  shows "\<exists>ws. generated env st (GenerateEncodingShader env format st) ws \<and> starts_literal ws"
proof -
  note from_plain = generated_from_emits[OF _ len]
  consider "format = GX_TF_I4" | "format = GX_TF_I8" | "format = GX_TF_IA4" | "format = GX_TF_IA8"
    | "format = GX_TF_RGB565" | "format = GX_TF_RGB5A3" | "format = GX_TF_RGBA8"
    | "format = GX_TF_Z16" | "format = GX_TF_Z24X8" | "format = GX_CTF_Z16L"
    | "format \<in> {GX_CTF_R4, GX_CTF_Z4}" | "format = GX_CTF_RA4"
    | "format \<in> {GX_CTF_RA8, GX_CTF_RG8, GX_CTF_GB8}"
    | "format \<in> {GX_CTF_A8, GX_CTF_R8, GX_CTF_G8, GX_CTF_B8, GX_TF_Z8}"
    | "format \<in> {GX_CTF_Z8M, GX_CTF_Z8L}"
    using h by (auto simp: handled_formats_def)
  then show ?thesis
  proof cases
    case 1
    show ?thesis unfolding 1 GenerateEncodingShader_cases
      using generated_from_emits_lines[OF WriteI4Encoder_emits len] by blast
  next
    case 2
    show ?thesis unfolding 2 GenerateEncodingShader_cases
      using generated_from_emits_lines[OF WriteI8Encoder_emits len] by blast
  next
    case 3
    show ?thesis unfolding 3 GenerateEncodingShader_cases
      using generated_from_emits_lines[OF WriteIA4Encoder_emits len] by blast
  next
    case 4
    show ?thesis unfolding 4 GenerateEncodingShader_cases
      using generated_from_emits_lines[OF WriteIA8Encoder_emits len] by blast
  next
    case 5
    show ?thesis unfolding 5 GenerateEncodingShader_cases
      by (rule from_plain) (rule WriteRGB565Encoder_emits)
  next
    case 6
    show ?thesis unfolding 6 GenerateEncodingShader_cases
      by (rule from_plain) (rule WriteRGB5A3Encoder_emits)
  next
    case 7
    show ?thesis unfolding 7 GenerateEncodingShader_cases
      by (rule from_plain) (rule WriteRGBA8Encoder_emits)
  next
    case 8
    show ?thesis unfolding 8 GenerateEncodingShader_cases
      by (rule from_plain) (rule WriteZ16Encoder_emits)
  next
    case 9
    show ?thesis unfolding 9 GenerateEncodingShader_cases
      by (rule from_plain) (rule WriteZ24Encoder_emits)
  next
    case 10
    show ?thesis unfolding 10 GenerateEncodingShader_cases
      by (rule from_plain) (rule WriteZ16LEncoder_emits)
  next
    case 11
    then show ?thesis
      by (auto simp: GenerateEncodingShader_cases intro!: from_plain WriteC4Encoder_emits)
  next
    case 12
    then show ?thesis
      by (auto simp: GenerateEncodingShader_cases intro!: from_plain WriteCC4Encoder_emits)
  next
    case 13
    then show ?thesis
      by (auto simp: GenerateEncodingShader_cases intro!: from_plain WriteCC8Encoder_emits)
  next
    case 14
    then show ?thesis
      by (auto simp: GenerateEncodingShader_cases intro!: from_plain WriteC8Encoder_emits)
  next
    case 15
    then show ?thesis
      by (auto simp: GenerateEncodingShader_cases intro!: from_plain WriteZ8Encoder_emits)
  qed
qed

lemma generated_intensity:
  assumes len: "length (text_buffer st) = 16384"
      and h: "format \<in> {GX_TF_I4, GX_TF_I8, GX_TF_IA4, GX_TF_IA8}"
      and flag: "\<not> IntensityConstantAdded st"
  shows "\<exists>ws. generated env st (GenerateEncodingShader env format st) ws
           \<and> lines_ok env ws \<and> decl_count env ws = 1"
proof -
  consider "format = GX_TF_I4" | "format = GX_TF_I8" | "format = GX_TF_IA4" | "format = GX_TF_IA8"
    using h by auto
  then show ?thesis
  proof cases
    case 1
    show ?thesis unfolding 1 GenerateEncodingShader_cases
      using generated_from_emits_lines[OF WriteI4Encoder_emits len] flag by blast
  next
    case 2
    show ?thesis unfolding 2 GenerateEncodingShader_cases
      using generated_from_emits_lines[OF WriteI8Encoder_emits len] flag by blast
  next
    case 3
    show ?thesis unfolding 3 GenerateEncodingShader_cases
      using generated_from_emits_lines[OF WriteIA4Encoder_emits len] flag by blast
  next
    case 4
    show ?thesis unfolding 4 GenerateEncodingShader_cases
      using generated_from_emits_lines[OF WriteIA8Encoder_emits len] flag by blast
  qed
qed

lemma lines_from_newline:
  "lines_from cur (a @ CHR ''\<newline>'' # b) = lines_from cur (a @ [CHR ''\<newline>'']) @ lines_from [] b"
  by (induction a arbitrary: cur) simp_all

lemma text_lines_chunk:
  assumes "c \<noteq> []" and "last c = CHR ''\<newline>''"
  shows "text_lines (c @ rest) = text_lines c @ text_lines rest"
proof -
  have c: "c = butlast c @ [CHR ''\<newline>'']" using assms by (metis append_butlast_last_id)
  have "text_lines (c @ rest) = lines_from [] (butlast c @ CHR ''\<newline>'' # rest)"
    by (subst c) (simp add: text_lines_def)
  also have "\<dots> = lines_from [] (butlast c @ [CHR ''\<newline>'']) @ lines_from [] rest"
    by (rule lines_from_newline)
  finally show ?thesis using c by (simp add: text_lines_def)
qed

lemma text_lines_concat:
  "list_all (\<lambda>c. c \<noteq> [] \<and> last c = CHR ''\<newline>'') cs
   \<Longrightarrow> text_lines (concat cs) = concat (map text_lines cs)"
proof (induction cs)
  case Nil
  then show ?case by (simp add: text_lines_def)
next
  case (Cons c cs)
  then show ?case by (simp add: text_lines_chunk)
qed

lemma count_list_concat: "count_list (concat xss) y = sum_list (map (\<lambda>xs. count_list xs y) xss)"
  by (induction xss) simp_all

lemma decl_count_text:
  "lines_ok env ws
   \<Longrightarrow> count_list (text_lines (concat (fmt_texts env ws))) decl_line = decl_count env ws"
  by (simp add: lines_ok_def decl_count_def text_lines_concat count_list_concat comp_def)

lemma GenerateEncodingShader_unknown:
  assumes "text_buffer st \<noteq> []"
  shows "GenerateEncodingShader env (Unknown_Format v) st
         = st\<lparr>text_buffer := (text_buffer st)[length (text_buffer st) - 1 := CHR 0x7C],
              p := 0, alerts := alerts st @ [Unknown_Format_Alert v]\<rparr>"
  using assms by (simp add: GenerateEncodingShader_def)

lemma gen_inv_initial: "gen_inv initial_gen_state"
  by (simp add: gen_inv_def initial_gen_state_def)

lemma gen_inv_step: "gen_inv st \<Longrightarrow> gen_inv (GenerateEncodingShader env format st)"
proof (cases "format \<in> set handled_formats")
  case True
  assume "gen_inv st"
  then have len: "length (text_buffer st) = 16384" by (simp add: gen_inv_def)
  from generated_handled[OF len True]
  show ?thesis by (auto simp: generated_def gen_inv_def)
next
  case False
  assume i: "gen_inv st"
  then have ne: "text_buffer st \<noteq> []" by (auto simp: gen_inv_def)
  from False obtain v where "format = Unknown_Format v" using not_handled_unknown by blast
  then show ?thesis using i by (simp add: GenerateEncodingShader_unknown[OF ne] gen_inv_def)
qed

lemma gen_inv_all: "gen_inv st \<Longrightarrow> gen_inv (generate_all env formats st)"
  by (induction formats arbitrary: st) (simp_all add: gen_inv_step)

text \<open>
  Claim C1, with the number of formats as the code has it. From any state of the
  generator (the array has its 16384 elements) a call for one of the handled formats
  returns a text that is not empty, is shorter than 16383 characters and is followed
  by its NUL; the canary in the last element is unchanged, no \<^verbatim>\<open>sprintf\<close> has written
  past the array and no alert is raised. This holds for all values of the block
  dimensions and sample counts.
\<close>

theorem encoding_shader_fits_buffer:
  assumes "length (text_buffer st) = 16384"
      and "format \<in> set handled_formats"
  shows "c_str (text_buffer (GenerateEncodingShader env format st)) \<noteq> []
         \<and> length (c_str (text_buffer (GenerateEncodingShader env format st))) < 16383
         \<and> text_buffer (GenerateEncodingShader env format st)
             ! length (c_str (text_buffer (GenerateEncodingShader env format st))) = CHR 0x00
         \<and> length (text_buffer (GenerateEncodingShader env format st)) = 16384
         \<and> text_buffer (GenerateEncodingShader env format st) ! 16383 = CHR 0x7C
         \<and> overrun (GenerateEncodingShader env format st) = overrun st
         \<and> alerts (GenerateEncodingShader env format st) = alerts st"
proof -
  obtain ws where g: "generated env st (GenerateEncodingShader env format st) ws"
    and l: "starts_literal ws"
    using generated_handled[OF assms] by blast
  have "concat (fmt_texts env ws) \<noteq> []" using l by (rule starts_literal_text)
  then show ?thesis using g by (simp add: generated_def)
qed

text \<open>The theorem at the format RGBA8, from the initial state.\<close>

theorem encoding_shader_fits_buffer_witness:
  "c_str (text_buffer (GenerateEncodingShader example_enc_env GX_TF_RGBA8 initial_gen_state)) \<noteq> []
   \<and> length (c_str (text_buffer
         (GenerateEncodingShader example_enc_env GX_TF_RGBA8 initial_gen_state))) < 16383
   \<and> text_buffer (GenerateEncodingShader example_enc_env GX_TF_RGBA8 initial_gen_state) ! 16383
       = CHR 0x7C
   \<and> alerts (GenerateEncodingShader example_enc_env GX_TF_RGBA8 initial_gen_state) = []"
proof -
  have len: "length (text_buffer initial_gen_state) = 16384"
    by (simp add: initial_gen_state_def)
  have h: "GX_TF_RGBA8 \<in> set handled_formats" by (simp add: handled_formats_def)
  have a: "alerts initial_gen_state = []" by (simp add: initial_gen_state_def)
  show ?thesis
    using encoding_shader_fits_buffer[OF len h, of example_enc_env] a by simp
qed

text \<open>
  The number of formats in claim C1: the switch of \<^verbatim>\<open>GenerateEncodingShader\<close> has 23
  case labels, not 24.
\<close>

theorem handled_formats_count_counterexample:
  "length handled_formats = 23 \<and> distinct handled_formats"
  by (simp add: handled_formats_def)

text \<open>
  Claim C4. After any sequence of calls from program start, for handled and unknown
  formats alike, the flag is false; it is false after a further call for a format
  \<open>A\<close> and after the call for \<open>B\<close> that follows; and when \<open>B\<close> is one of the four
  intensity formats, the text generated for \<open>B\<close> has exactly one line equal to the
  declaration of \<^verbatim>\<open>IntensityConst\<close>, whatever \<open>A\<close> and the earlier calls were.
\<close>

theorem intensity_flag_does_not_leak:
  "\<not> IntensityConstantAdded (generate_all env history initial_gen_state)
   \<and> \<not> IntensityConstantAdded
         (GenerateEncodingShader env A (generate_all env history initial_gen_state))
   \<and> \<not> IntensityConstantAdded
         (GenerateEncodingShader env B
            (GenerateEncodingShader env A (generate_all env history initial_gen_state)))
   \<and> (B \<in> {GX_TF_I4, GX_TF_I8, GX_TF_IA4, GX_TF_IA8} \<longrightarrow>
        count_list
          (text_lines (c_str (text_buffer
             (GenerateEncodingShader env B
                (GenerateEncodingShader env A (generate_all env history initial_gen_state))))))
          decl_line = 1)"
proof -
  let ?s0 = "generate_all env history initial_gen_state"
  let ?s1 = "GenerateEncodingShader env A ?s0"
  let ?s2 = "GenerateEncodingShader env B ?s1"
  have i0: "gen_inv ?s0" using gen_inv_initial by (rule gen_inv_all)
  then have i1: "gen_inv ?s1" by (rule gen_inv_step)
  then have i2: "gen_inv ?s2" by (rule gen_inv_step)
  have "count_list (text_lines (c_str (text_buffer ?s2))) decl_line = 1"
    if B: "B \<in> {GX_TF_I4, GX_TF_I8, GX_TF_IA4, GX_TF_IA8}"
  proof -
    have len: "length (text_buffer ?s1) = 16384" and flag: "\<not> IntensityConstantAdded ?s1"
      using i1 by (simp_all add: gen_inv_def)
    obtain ws where g: "generated env ?s1 ?s2 ws" and l: "lines_ok env ws"
      and d: "decl_count env ws = 1"
      using generated_intensity[OF len B flag] by blast
    show ?thesis using g decl_count_text[OF l] d by (simp add: generated_def)
  qed
  then show ?thesis using i0 i1 i2 by (simp add: gen_inv_def)
qed

text \<open>The theorem for the calls IA4 then I8.\<close>

theorem intensity_flag_does_not_leak_witness:
  "\<not> IntensityConstantAdded
       (GenerateEncodingShader example_enc_env GX_TF_I8
          (GenerateEncodingShader example_enc_env GX_TF_IA4 initial_gen_state))
   \<and> count_list
        (text_lines (c_str (text_buffer
           (GenerateEncodingShader example_enc_env GX_TF_I8
              (GenerateEncodingShader example_enc_env GX_TF_IA4 initial_gen_state)))))
        decl_line = 1"
  using intensity_flag_does_not_leak[of example_enc_env "[]" GX_TF_IA4 GX_TF_I8]
  by simp

text \<open>
  Claim C5, as the code has it. A call with an unknown format raises the alert of the
  default branch and writes no text: the write pointer stays at the start of the array,
  the array changes at most in its last element (the canary), the flag and the overrun
  mark are unchanged. The function still returns the array: after a call for a handled
  format \<open>A\<close>, the caller of the unknown format receives the text generated for \<open>A\<close>.
\<close>

theorem unknown_format_keeps_text:
  assumes "length (text_buffer st) = 16384"
  shows "alerts (GenerateEncodingShader env (Unknown_Format v) st)
           = alerts st @ [Unknown_Format_Alert v]
         \<and> p (GenerateEncodingShader env (Unknown_Format v) st) = 0
         \<and> take 16383 (text_buffer (GenerateEncodingShader env (Unknown_Format v) st))
             = take 16383 (text_buffer st)
         \<and> IntensityConstantAdded (GenerateEncodingShader env (Unknown_Format v) st)
             = IntensityConstantAdded st
         \<and> overrun (GenerateEncodingShader env (Unknown_Format v) st) = overrun st
         \<and> (A \<in> set handled_formats \<longrightarrow>
              c_str (text_buffer (GenerateEncodingShader env (Unknown_Format v)
                                    (GenerateEncodingShader env A st)))
              = c_str (text_buffer (GenerateEncodingShader env A st)))"
proof -
  have ne: "text_buffer st \<noteq> []" using assms by auto
  have stale: "c_str (text_buffer (GenerateEncodingShader env (Unknown_Format v)
                                    (GenerateEncodingShader env A st)))
              = c_str (text_buffer (GenerateEncodingShader env A st))"
    if A: "A \<in> set handled_formats"
  proof -
    let ?s1 = "GenerateEncodingShader env A st"
    obtain ws where g: "generated env st ?s1 ws"
      using generated_handled[OF assms A] by blast
    then have len: "length (text_buffer ?s1) = 16384"
      and can: "text_buffer ?s1 ! 16383 = CHR 0x7C"
      by (simp_all add: generated_def)
    have ne1: "text_buffer ?s1 \<noteq> []" using len by auto
    have "(text_buffer ?s1)[16383 := CHR 0x7C] = text_buffer ?s1"
      using can by (metis list_update_id)
    then show ?thesis
      by (simp add: GenerateEncodingShader_unknown[OF ne1] len)
  qed
  show ?thesis
    using stale assms by (simp add: GenerateEncodingShader_unknown[OF ne])
qed

text \<open>The theorem at the unknown identifier 255, after a call for Z16.\<close>

theorem unknown_format_keeps_text_witness:
  "alerts (GenerateEncodingShader example_enc_env (Unknown_Format 255) initial_gen_state)
     = [Unknown_Format_Alert 255]
   \<and> c_str (text_buffer (GenerateEncodingShader example_enc_env (Unknown_Format 255)
                          (GenerateEncodingShader example_enc_env GX_TF_Z16 initial_gen_state)))
     = c_str (text_buffer (GenerateEncodingShader example_enc_env GX_TF_Z16 initial_gen_state))"
proof -
  have len: "length (text_buffer initial_gen_state) = 16384"
    by (simp add: initial_gen_state_def)
  have h: "GX_TF_Z16 \<in> set handled_formats" by (simp add: handled_formats_def)
  have a: "alerts initial_gen_state = []" by (simp add: initial_gen_state_def)
  show ?thesis
    using unknown_format_keeps_text[OF len, of example_enc_env 255 GX_TF_Z16] h a by simp
qed

text \<open>
  Claim C5 as it is stated fails after a first successful call: the text returned for
  the unknown identifier 255 is the shader generated for I8 before it, which is not
  empty.
\<close>

theorem unknown_format_returns_stale_text_counterexample:
  "c_str (text_buffer (GenerateEncodingShader example_enc_env (Unknown_Format 255)
                         (GenerateEncodingShader example_enc_env GX_TF_I8 initial_gen_state)))
     \<noteq> []"
proof -
  have len: "length (text_buffer initial_gen_state) = 16384"
    by (simp add: initial_gen_state_def)
  have h: "GX_TF_I8 \<in> set handled_formats" by (simp add: handled_formats_def)
  let ?s1 = "GenerateEncodingShader example_enc_env GX_TF_I8 initial_gen_state"
  obtain ws where g: "generated example_enc_env initial_gen_state ?s1 ws"
    and l: "starts_literal ws"
    using generated_handled[OF len h] by blast
  have t: "c_str (text_buffer ?s1) \<noteq> []"
    using g starts_literal_text[OF l, of example_enc_env] by (simp add: generated_def)
  have len1: "length (text_buffer ?s1) = 16384" and can: "text_buffer ?s1 ! 16383 = CHR 0x7C"
    using g by (simp_all add: generated_def)
  have ne1: "text_buffer ?s1 \<noteq> []" using len1 by auto
  have "(text_buffer ?s1)[16383 := CHR 0x7C] = text_buffer ?s1"
    using can by (metis list_update_id)
  then show ?thesis
    using t by (simp add: GenerateEncodingShader_unknown[OF ne1] len1)
qed


end
